theory Spec2Isabelle
  imports Complex_Main
begin

section \<open>Python values used by the payment blueprint\<close>

text \<open>
  The exceptions the modelled code can raise or let through.  \<open>OtherError\<close> stands for
  any exception class that none of the handlers in the blueprint names.
\<close>

datatype pyerror =
    InvalidOperation
  | ValueError string
  | OverflowError
  | OSError
  | RuntimeError
  | OtherError

subsection \<open>Strings\<close>

definition is_digit :: "char \<Rightarrow> bool" where
  "is_digit c = (let n = (of_char c :: nat) in 48 \<le> n \<and> n \<le> 57)"

definition digit_val :: "char \<Rightarrow> nat" where
  "digit_val c = of_char c - 48"

definition is_space :: "char \<Rightarrow> bool" where
  \<comment> \<open>\<open>str.isspace()\<close> on the characters up to code 255: what \<open>str.strip()\<close> and
      \<open>Decimal()\<close> remove at the ends of a string\<close>
  "is_space c =
     (let n = (of_char c :: nat)
      in n = 32 \<or> (9 \<le> n \<and> n \<le> 13) \<or> (28 \<le> n \<and> n \<le> 31) \<or> n = 133 \<or> n = 160)"

definition is_ascii_space :: "char \<Rightarrow> bool" where
  \<comment> \<open>the white space that \<open>int()\<close> skips in a string of ASCII characters\<close>
  "is_ascii_space c = (let n = (of_char c :: nat) in n = 32 \<or> (9 \<le> n \<and> n \<le> 13))"

definition lower_char :: "char \<Rightarrow> char" where
  "lower_char c = (let n = (of_char c :: nat) in if 65 \<le> n \<and> n \<le> 90 then char_of (n + 32) else c)"

definition strip :: "string \<Rightarrow> string" where
  "strip s = rev (dropWhile is_space (rev (dropWhile is_space s)))"

definition strip_int :: "string \<Rightarrow> string" where
  \<comment> \<open>what \<open>int()\<close> drops at the ends of a string: the ASCII white space when all its
      characters are ASCII, else all of \<open>str.isspace()\<close>\<close>
  "strip_int s =
     (if list_all (\<lambda>c. (of_char c :: nat) < 128) s
      then rev (dropWhile is_ascii_space (rev (dropWhile is_ascii_space s)))
      else strip s)"

definition digits_val :: "string \<Rightarrow> nat" where
  \<comment> \<open>the number written by a string of digits; the empty string counts as 0\<close>
  "digits_val s = foldl (\<lambda>a c. 10 * a + digit_val c) 0 s"

fun split_sign :: "string \<Rightarrow> bool \<times> string" where
  "split_sign [] = (False, [])"
| "split_sign (c # s) =
     (if c = CHR ''-'' then (True, s) else if c = CHR ''+'' then (False, s) else (False, c # s))"

definition signed :: "bool \<Rightarrow> nat \<Rightarrow> int" where
  "signed neg n = (if neg then - int n else int n)"

fun digits_us :: "string \<Rightarrow> bool" where
  \<comment> \<open>digits with single underscores between them, as \<open>int()\<close> accepts\<close>
  "digits_us [] = False"
| "digits_us [c] = is_digit c"
| "digits_us (c # d # r) =
     (is_digit c \<and> (if d = CHR ''_'' then digits_us r else digits_us (d # r)))"

definition py_int :: "string \<Rightarrow> int option" where
  \<comment> \<open>Python's \<open>int(s)\<close> on a string; \<open>None\<close> is the ValueError\<close>
  "py_int s =
     (let (neg, r) = split_sign (strip_int s)
      in if digits_us r then Some (signed neg (digits_val (filter (\<lambda>c. c \<noteq> CHR ''_'') r)))
         else None)"

subsection \<open>Decimal\<close>

text \<open>
  A \<open>decimal.Decimal\<close>: a finite number \<open>Fin c e\<close> with the value \<open>c * 10 ^ e\<close>, an infinity
  with its sign, a quiet or a signalling NaN.  The arithmetic below is the one of
  Python's default context: 28 significant digits, ROUND_HALF_EVEN, InvalidOperation
  trapped.  The sign of a zero and the exponent limits of the context (Emin, Emax, about
  \<open>10 ^ 6\<close> in magnitude) are not represented.
\<close>

datatype decimal = Fin int int | Inf bool | NaN | SNaN

definition prec :: nat where
  "prec = 28"

fun ndigits :: "nat \<Rightarrow> nat" where
  "ndigits n = (if n < 10 then 1 else Suc (ndigits (n div 10)))"

declare ndigits.simps [simp del]

definition round_half_even :: "nat \<Rightarrow> nat \<Rightarrow> nat" where
  \<comment> \<open>the coefficient \<open>c\<close> with its last \<open>k\<close> digits rounded away\<close>
  "round_half_even c k =
     (let q = c div 10 ^ k; r = c mod 10 ^ k
      in if 10 ^ k < 2 * r \<or> (2 * r = 10 ^ k \<and> odd q) then q + 1 else q)"

definition fix_ctx :: "int \<Rightarrow> int \<Rightarrow> decimal" where
  \<comment> \<open>rounding of an exact result to the precision of the context\<close>
  "fix_ctx c e =
     (let d = ndigits (nat \<bar>c\<bar>)
      in if d \<le> prec then Fin c e
         else let k = d - prec; q = round_half_even (nat \<bar>c\<bar>) k
              in if q = 10 ^ prec then Fin (sgn c * 10 ^ (prec - 1)) (e + int k + 1)
                 else Fin (sgn c * int q) (e + int k))"

fun dec_mul :: "decimal \<Rightarrow> decimal \<Rightarrow> pyerror + decimal" where
  "dec_mul SNaN _ = Inl InvalidOperation"
| "dec_mul _ SNaN = Inl InvalidOperation"
| "dec_mul NaN _ = Inr NaN"
| "dec_mul _ NaN = Inr NaN"
| "dec_mul (Inf s) (Inf t) = Inr (Inf (s \<noteq> t))"
| "dec_mul (Inf s) (Fin c e) = (if c = 0 then Inl InvalidOperation else Inr (Inf (s \<noteq> (c < 0))))"
| "dec_mul (Fin c e) (Inf s) = (if c = 0 then Inl InvalidOperation else Inr (Inf (s \<noteq> (c < 0))))"
| "dec_mul (Fin c1 e1) (Fin c2 e2) = Inr (fix_ctx (c1 * c2) (e1 + e2))"

fun dec_add :: "decimal \<Rightarrow> decimal \<Rightarrow> pyerror + decimal" where
  "dec_add SNaN _ = Inl InvalidOperation"
| "dec_add _ SNaN = Inl InvalidOperation"
| "dec_add NaN _ = Inr NaN"
| "dec_add _ NaN = Inr NaN"
| "dec_add (Inf s) (Inf t) = (if s \<noteq> t then Inl InvalidOperation else Inr (Inf s))"
| "dec_add (Inf s) (Fin c e) = Inr (Inf s)"
| "dec_add (Fin c e) (Inf s) = Inr (Inf s)"
| "dec_add (Fin c1 e1) (Fin c2 e2) =
     (let e = min e1 e2
      in Inr (fix_ctx (c1 * 10 ^ nat (e1 - e) + c2 * 10 ^ nat (e2 - e)) e))"

definition rescale_half_up :: "int \<Rightarrow> int \<Rightarrow> int \<Rightarrow> int" where
  \<comment> \<open>the coefficient of \<open>c * 10 ^ e\<close> at the exponent \<open>x\<close>, ROUND_HALF_UP\<close>
  "rescale_half_up c e x =
     (if x \<le> e then c * 10 ^ nat (e - x)
      else let p = 10 ^ nat (x - e); q = \<bar>c\<bar> div p; r = \<bar>c\<bar> mod p
           in sgn c * (if p \<le> 2 * r then q + 1 else q))"

fun quantize :: "decimal \<Rightarrow> int \<Rightarrow> pyerror + decimal" where
  \<comment> \<open>\<open>d.quantize(Decimal(1).scaleb(x), rounding=ROUND_HALF_UP)\<close>\<close>
  "quantize SNaN x = Inl InvalidOperation"
| "quantize NaN x = Inr NaN"
| "quantize (Inf s) x = Inl InvalidOperation"
| "quantize (Fin c e) x =
     (if c = 0 then Inr (Fin 0 x)
      else if int prec < int (ndigits (nat \<bar>c\<bar>)) + e - x then Inl InvalidOperation
      else let c' = rescale_half_up c e x
           in if prec < ndigits (nat \<bar>c'\<bar>) then Inl InvalidOperation else Inr (Fin c' x))"

fun to_integral_value :: "decimal \<Rightarrow> pyerror + decimal" where
  \<comment> \<open>\<open>d.to_integral_value(rounding=ROUND_HALF_UP)\<close>\<close>
  "to_integral_value SNaN = Inl InvalidOperation"
| "to_integral_value NaN = Inr NaN"
| "to_integral_value (Inf s) = Inr (Inf s)"
| "to_integral_value (Fin c e) = (if 0 \<le> e then Inr (Fin c e) else Inr (Fin (rescale_half_up c e 0) 0))"

fun int_of_decimal :: "decimal \<Rightarrow> pyerror + int" where
  \<comment> \<open>\<open>int(d)\<close>: truncation towards zero\<close>
  "int_of_decimal SNaN = Inl (ValueError ''cannot convert NaN to integer'')"
| "int_of_decimal NaN = Inl (ValueError ''cannot convert NaN to integer'')"
| "int_of_decimal (Inf s) = Inl OverflowError"
| "int_of_decimal (Fin c e) =
     (if 0 \<le> e then Inr (c * 10 ^ nat e) else Inr (sgn c * (\<bar>c\<bar> div 10 ^ nat (- e))))"

definition parse_exp :: "string \<Rightarrow> int option" where
  \<comment> \<open>what follows the digits of a number: nothing, or E, an optional sign and digits\<close>
  "parse_exp s =
     (case s of
        [] \<Rightarrow> Some 0
      | c # r \<Rightarrow>
          if lower_char c = CHR ''e''
          then (let (neg, ds) = split_sign r
                in if ds \<noteq> [] \<and> list_all is_digit ds then Some (signed neg (digits_val ds))
                   else None)
          else None)"

definition parse_number :: "string \<Rightarrow> (nat \<times> int) option" where
  "parse_number s =
     (let ip = takeWhile is_digit s; r1 = dropWhile is_digit s;
          (fp, r2) = (case r1 of
                        [] \<Rightarrow> ([], [])
                      | c # r \<Rightarrow> if c = CHR ''.'' then (takeWhile is_digit r, dropWhile is_digit r)
                                 else ([], r1))
      in if ip = [] \<and> fp = [] then None
         else case parse_exp r2 of
                None \<Rightarrow> None
              | Some x \<Rightarrow> Some (digits_val (ip @ fp), x - int (length fp)))"

definition py_Decimal :: "string \<Rightarrow> decimal option" where
  \<comment> \<open>\<open>Decimal(s)\<close> on a string; \<open>None\<close> is the InvalidOperation of a malformed string\<close>
  "py_Decimal s =
     (let (neg, r) = split_sign (filter (\<lambda>c. c \<noteq> CHR ''_'') (strip s));
          lr = map lower_char r
      in if lr = ''inf'' \<or> lr = ''infinity'' then Some (Inf neg)
         else if take 3 lr = ''nan'' \<and> list_all is_digit (drop 3 lr) then Some NaN
         else if take 4 lr = ''snan'' \<and> list_all is_digit (drop 4 lr) then Some SNaN
         else case parse_number r of
                None \<Rightarrow> None
              | Some (c, e) \<Rightarrow> Some (Fin (signed neg c) e))"

section \<open>Configuration (app/__init__.py)\<close>

record config =
  SEAT_ROWS :: string
  SEAT_COLS :: int
  SEAT_MAX_PER_ORDER :: int
  HOLD_TTL_SECONDS :: int
  TICKET_PRICE :: "string option"
  DEFAULT_BRANCH :: string

definition getenv :: "(string \<rightharpoonup> string) \<Rightarrow> string \<Rightarrow> string \<Rightarrow> string" where
  \<comment> \<open>\<open>os.getenv(name, default)\<close>\<close>
  "getenv env name dflt = (case env name of None \<Rightarrow> dflt | Some v \<Rightarrow> v)"

definition create_app :: "(string \<rightharpoonup> string) \<Rightarrow> pyerror + config" where
  \<comment> \<open>the configuration block of \<open>create_app\<close>: every \<open>int(os.getenv(...))\<close> can raise
      ValueError, in the order of the source; TICKET_PRICE is stored as the string it is\<close>
  "create_app env =
     (case py_int (getenv env ''MAIL_PORT'' ''25'') of
        None \<Rightarrow> Inl (ValueError ''invalid literal for int()'')
      | Some _ \<Rightarrow>
     (case py_int (getenv env ''SEAT_COLS'' ''12'') of
        None \<Rightarrow> Inl (ValueError ''invalid literal for int()'')
      | Some cols \<Rightarrow>
     (case py_int (getenv env ''SEAT_MAX_PER_ORDER'' ''6'') of
        None \<Rightarrow> Inl (ValueError ''invalid literal for int()'')
      | Some mx \<Rightarrow>
     (case py_int (getenv env ''HOLD_TTL_SECONDS'' ''600'') of
        None \<Rightarrow> Inl (ValueError ''invalid literal for int()'')
      | Some ttl \<Rightarrow>
          Inr \<lparr> SEAT_ROWS = getenv env ''SEAT_ROWS'' ''ABCDEFGHIJ'',
                SEAT_COLS = cols,
                SEAT_MAX_PER_ORDER = mx,
                HOLD_TTL_SECONDS = ttl,
                TICKET_PRICE = Some (getenv env ''TICKET_PRICE'' ''5000''),
                DEFAULT_BRANCH = getenv env ''DEFAULT_BRANCH'' ''Cine Pelagio B. Luna 960'' \<rparr>))))"

section \<open>Server-side totals (app/blueprints/pago.py)\<close>

text \<open>
  The Flask session as far as the blueprint reads and writes it.  A field is \<open>None\<close> when
  the key is absent.  The ids under \<open>combos\<close> are kept as the strings that \<open>int(x)\<close> reads;
  the selected showing is a dictionary from field names to values.
\<close>

record session =
  seats :: "string list option"
  combos :: "string list option"
  hold_token :: "string option"
  movie_selection :: "(string \<times> string) list option"
  branch :: "string option"
  flashes :: "(string \<times> string) list"

text \<open>
  An entry of \<open>COMBOS_CATALOG\<close> (app/data/seed.py, a table taken as a parameter).
  \<open>precio\<close> is \<open>str(c["precio"])\<close>, or \<open>None\<close> where the entry has no such key.
\<close>

record combo =
  combo_id :: int
  nombre :: string
  precio :: "string option"

fun sequence_opt :: "'a option list \<Rightarrow> 'a list option" where
  "sequence_opt [] = Some []"
| "sequence_opt (x # xs) =
     (case x of None \<Rightarrow> None
      | Some y \<Rightarrow> (case sequence_opt xs of None \<Rightarrow> None | Some ys \<Rightarrow> Some (y # ys)))"

definition combos_from_session :: "combo list \<Rightarrow> session \<Rightarrow> pyerror + combo list" where
  "combos_from_session catalog sess =
     (case sequence_opt (map py_int (case combos sess of None \<Rightarrow> [] | Some xs \<Rightarrow> xs)) of
        None \<Rightarrow> Inl (ValueError ''invalid literal for int()'')
      | Some ids \<Rightarrow> Inr (filter (\<lambda>c. combo_id c \<in> set ids) catalog))"

definition seleccion_from_session :: "session \<Rightarrow> (string \<times> string) list" where
  "seleccion_from_session sess = (case movie_selection sess of None \<Rightarrow> [] | Some d \<Rightarrow> d)"

definition seats_from_session :: "session \<Rightarrow> string list" where
  "seats_from_session sess = (case seats sess of None \<Rightarrow> [] | Some xs \<Rightarrow> xs)"

definition precio_entrada :: "config \<Rightarrow> decimal" where
  "precio_entrada cfg =
     (case py_Decimal (case TICKET_PRICE cfg of None \<Rightarrow> ''5000'' | Some raw \<Rightarrow> raw) of
        Some d \<Rightarrow> d
      | None \<Rightarrow> Fin 5000 0)"

definition precio_str :: "combo \<Rightarrow> string" where
  \<comment> \<open>\<open>str(c.get("precio", 0))\<close>\<close>
  "precio_str c = (case precio c of None \<Rightarrow> ''0'' | Some s \<Rightarrow> s)"

fun sum_precios :: "decimal \<Rightarrow> combo list \<Rightarrow> pyerror + decimal" where
  \<comment> \<open>the loop of \<open>sum(Decimal(str(c.get("precio", 0))) for c in combos_sel)\<close>\<close>
  "sum_precios acc [] = Inr acc"
| "sum_precios acc (c # cs) =
     (case py_Decimal (precio_str c) of
        None \<Rightarrow> Inl InvalidOperation
      | Some d \<Rightarrow> (case dec_add acc d of Inl e \<Rightarrow> Inl e | Inr acc' \<Rightarrow> sum_precios acc' cs))"

record totales =
  total_entradas :: decimal
  total_combos :: decimal
  total :: decimal
  combos_sel :: "combo list"
  t_seats :: "string list"
  seleccion :: "(string \<times> string) list"

definition calcular_totales_server_side ::
    "config \<Rightarrow> combo list \<Rightarrow> session \<Rightarrow> pyerror + totales" where
  "calcular_totales_server_side cfg catalog sess =
     (let precio_ent = precio_entrada cfg;
          ss = seats_from_session sess
      in case combos_from_session catalog sess of
           Inl e \<Rightarrow> Inl e
         | Inr cs \<Rightarrow>
      (case dec_mul precio_ent (Fin (int (length ss)) 0) of
           Inl e \<Rightarrow> Inl e
         | Inr entradas \<Rightarrow>
      (case quantize entradas (- 2) of
           Inl e \<Rightarrow> Inl e
         | Inr te \<Rightarrow>
      (case sum_precios (Fin 0 0) cs of
           Inl e \<Rightarrow> Inl e
         | Inr raw \<Rightarrow>
      (case quantize raw (- 2) of
           Inl e \<Rightarrow> Inl e
         | Inr tc \<Rightarrow>
      (case dec_add te tc of
           Inl e \<Rightarrow> Inl e
         | Inr s \<Rightarrow>
      (case quantize s (- 2) of
           Inl e \<Rightarrow> Inl e
         | Inr t \<Rightarrow>
             Inr \<lparr> total_entradas = te, total_combos = tc, total = t, combos_sel = cs,
                   t_seats = ss, seleccion = seleccion_from_session sess \<rparr>)))))))"

definition monto_cents_of :: "decimal \<Rightarrow> pyerror + int" where
  \<comment> \<open>\<open>int((total * 100).to_integral_value(rounding=ROUND_HALF_UP))\<close>\<close>
  "monto_cents_of t =
     (case dec_mul t (Fin 100 0) of
        Inl e \<Rightarrow> Inl e
      | Inr p \<Rightarrow> (case to_integral_value p of Inl e \<Rightarrow> Inl e | Inr r \<Rightarrow> int_of_decimal r))"

section \<open>Seat inventory (app/db.py)\<close>

text \<open>
  Modelled from the spec: app/db.py, which holds \<open>confirm_seats\<close>, \<open>purge_expired_holds\<close>
  and the placing of holds, is not among the sources.  The tables and the operations of
  this section follow sections 3 and 4 of the specification (Seat Map, Hold Store,
  Reservation Ledger, Reservation Coordinator).  A showtime key is the tuple
  (movie id, date, time, room) as the blueprint reads it from the selected showing, each
  part \<open>None\<close> where the dictionary has no such entry.  The spec's set of seats of a hold
  is a list without repetitions.
\<close>

type_synonym showtime_key = "string option \<times> string option \<times> string option \<times> string option"

record seat_hold =
  h_token :: string
  h_key :: showtime_key
  h_seats :: "string list"
  h_created_at :: int
  h_expires_at :: int

record reservation =
  r_key :: showtime_key
  r_seat :: string
  r_transaction_id :: int
  r_usuario_email :: "string option"
  r_confirmed_at :: int

record seat_store =
  holds :: "seat_hold list"
  reservas :: "reservation list"

datatype seat_error = SeatUnavailable | SeatConflict | HoldExpired | InvalidOrder

fun nat_str :: "nat \<Rightarrow> string" where
  "nat_str n = (if n < 10 then [''0123456789'' ! n]
                else nat_str (n div 10) @ [''0123456789'' ! (n mod 10)])"

declare nat_str.simps [simp del]

definition valid_seats :: "string \<Rightarrow> int \<Rightarrow> string list" where
  \<comment> \<open>Modelled from the spec: Seat Map, the seat codes of a layout of rows and columns\<close>
  "valid_seats rows cols = concat (map (\<lambda>r. map (\<lambda>c. r # nat_str c) [1..<Suc (nat cols)]) rows)"

definition is_within_order_limit :: "config \<Rightarrow> nat \<Rightarrow> bool" where
  \<comment> \<open>Modelled from the spec: Seat Map, count at most the configured maximum per order\<close>
  "is_within_order_limit cfg n = (int n \<le> SEAT_MAX_PER_ORDER cfg)"

definition unexpired :: "int \<Rightarrow> seat_hold \<Rightarrow> bool" where
  \<comment> \<open>Modelled from the spec: a hold is swept once \<open>expires_at \<le> now\<close>\<close>
  "unexpired now h = (now < h_expires_at h)"

definition seats_confirmed :: "showtime_key \<Rightarrow> seat_store \<Rightarrow> string list" where
  \<comment> \<open>Modelled from the spec: Reservation Ledger, \<open>seats_confirmed\<close>\<close>
  "seats_confirmed key st = map r_seat (filter (\<lambda>r. r_key r = key) (reservas st))"

definition seats_held_by_others :: "int \<Rightarrow> string \<Rightarrow> showtime_key \<Rightarrow> seat_store \<Rightarrow> string list" where
  \<comment> \<open>Modelled from the spec: the seats covered by another unexpired hold of the showtime\<close>
  "seats_held_by_others now tok key st =
     concat (map h_seats
       (filter (\<lambda>h. unexpired now h \<and> h_key h = key \<and> h_token h \<noteq> tok) (holds st)))"

definition get_hold :: "string \<Rightarrow> seat_store \<Rightarrow> seat_hold option" where
  \<comment> \<open>Modelled from the spec: Hold Store, \<open>get(token)\<close>\<close>
  "get_hold tok st = find (\<lambda>h. h_token h = tok) (holds st)"

definition release :: "string \<Rightarrow> seat_store \<Rightarrow> seat_store" where
  \<comment> \<open>Modelled from the spec: Hold Store, \<open>release(token)\<close>; an absent hold is not an error\<close>
  "release tok st = st\<lparr>holds := filter (\<lambda>h. h_token h \<noteq> tok) (holds st)\<rparr>"

definition place ::
    "int \<Rightarrow> string \<Rightarrow> showtime_key \<Rightarrow> string list \<Rightarrow> int \<Rightarrow> seat_store
     \<Rightarrow> seat_error + (seat_hold \<times> seat_store)" where
  \<comment> \<open>Modelled from the spec: Hold Store, \<open>place(token, showtime_key, seats, ttl)\<close>.  All
      seats are checked, then inserted together; the store keeps one hold per token
      (\<open>get(token)\<close> returns a single hold), so a new hold takes the place of the token's
      earlier one\<close>
  "place now tok key ss ttl st =
     (let req = remdups ss
      in if list_ex (\<lambda>x. x \<in> set (seats_held_by_others now tok key st)
                          \<or> x \<in> set (seats_confirmed key st)) req
         then Inl SeatUnavailable
         else let h = \<lparr> h_token = tok, h_key = key, h_seats = req,
                        h_created_at = now, h_expires_at = now + ttl \<rparr>
              in Inr (h, st\<lparr>holds := filter (\<lambda>h'. h_token h' \<noteq> tok) (holds st) @ [h]\<rparr>))"

definition purge_expired_holds :: "int \<Rightarrow> seat_store \<Rightarrow> nat \<times> seat_store" where
  \<comment> \<open>Modelled from the spec: Hold Store, \<open>sweep_expired(now)\<close>, the number of holds removed
      and the store without them\<close>
  "purge_expired_holds now st =
     (length (filter (\<lambda>h. \<not> unexpired now h) (holds st)),
      st\<lparr>holds := filter (unexpired now) (holds st)\<rparr>)"

definition commit ::
    "int \<Rightarrow> showtime_key \<Rightarrow> string list \<Rightarrow> int \<Rightarrow> string option \<Rightarrow> seat_store
     \<Rightarrow> seat_error + (string list \<times> seat_store)" where
  \<comment> \<open>Modelled from the spec: Reservation Ledger, \<open>commit\<close>; the check and the insert are
      one step\<close>
  "commit now key ss tid email st =
     (if list_ex (\<lambda>x. x \<in> set (seats_confirmed key st)) ss then Inl SeatConflict
      else Inr (ss, st\<lparr>reservas := reservas st @
                  map (\<lambda>x. \<lparr> r_key = key, r_seat = x, r_transaction_id = tid,
                              r_usuario_email = email, r_confirmed_at = now \<rparr>) ss\<rparr>))"

definition hold ::
    "config \<Rightarrow> int \<Rightarrow> string \<Rightarrow> showtime_key \<Rightarrow> string list \<Rightarrow> seat_store
     \<Rightarrow> seat_error + (seat_hold \<times> seat_store)" where
  \<comment> \<open>Modelled from the spec: Reservation Coordinator, \<open>hold\<close>: the Seat Map validation,
      then \<open>place\<close> with the configured TTL\<close>
  "hold cfg now tok key ss st =
     (if \<not> is_within_order_limit cfg (length ss)
         \<or> \<not> list_all (\<lambda>x. x \<in> set (valid_seats (SEAT_ROWS cfg) (SEAT_COLS cfg))) ss
      then Inl InvalidOrder
      else place now tok key ss (HOLD_TTL_SECONDS cfg) st)"

definition live_hold :: "int \<Rightarrow> string option \<Rightarrow> showtime_key \<Rightarrow> seat_store \<Rightarrow> seat_hold option" where
  \<comment> \<open>Modelled from the spec: step 2 of \<open>confirm\<close>, the unexpired hold of the token for
      this showtime\<close>
  "live_hold now token key st =
     (case token of
        None \<Rightarrow> None
      | Some tok \<Rightarrow>
          (case get_hold tok st of
             None \<Rightarrow> None
           | Some h \<Rightarrow> if unexpired now h \<and> h_key h = key then Some h else None))"

definition confirm_seats ::
    "int \<Rightarrow> string option \<Rightarrow> showtime_key \<Rightarrow> string option \<Rightarrow> int \<Rightarrow> seat_store
     \<Rightarrow> (pyerror + string list) \<times> seat_store" where
  \<comment> \<open>Modelled from the spec: steps 2 to 4 of \<open>confirm\<close>, under the signature the blueprint
      calls.  HoldExpired is the empty list and SeatConflict the ValueError, as the
      blueprint's two handlers read them; marking the transaction is the caller's part\<close>
  "confirm_seats now token key email tid st =
     (case live_hold now token key st of
        None \<Rightarrow> (Inr [], st)
      | Some h \<Rightarrow>
          (case commit now key (h_seats h) tid email st of
             Inl _ \<Rightarrow> (Inl (ValueError ''asiento ya reservado''), st)
           | Inr (confirmed, st') \<Rightarrow> (Inr confirmed, release (h_token h) st')))"

section \<open>The payment handler (app/blueprints/pago.py)\<close>

text \<open>
  A row of the table \<open>transacciones\<close> with the columns the handler writes, and the
  database as far as the handler reaches it: the transactions and the seat tables.
  The table is created by app/db.py, which is not among the sources; what its constraints
  make of a new row is a parameter of the handler.  A lost connection is not represented.
\<close>

record transaccion =
  trx_id :: int
  usuario_email :: "string option"
  monto_cents :: int
  brand :: "string option"
  last4 :: "string option"
  exp_mes :: "int option"
  exp_anio :: "int option"
  estado :: string
  auth_code :: string
  created_at :: string

record db =
  transacciones :: "transaccion list"
  asientos :: seat_store

text \<open>
  The collaborators of the handler that are not among the sources, as parameters:
  the card validation and the brand detection (app/service/payments.py), the seat
  confirmation (app/db.py), the QR code, the PDF and the mail (app/service), and the
  formatting of the clock.  \<open>validar_tarjeta\<close> receives the total itself where the source
  passes its rendering with two decimals.  \<open>db_confirm_seats\<close> works on the seat tables
  only.  \<open>db_insert_error\<close> is the exception with which the table \<open>transacciones\<close> of
  app/db.py refuses a row, given the rows it holds (a constraint of its schema), or \<open>None\<close>
  when it takes the row.
\<close>

record collaborators =
  validar_tarjeta ::
    "string \<Rightarrow> string \<Rightarrow> string \<Rightarrow> string \<Rightarrow> string \<Rightarrow> string \<Rightarrow> decimal \<Rightarrow> string list"
  detectar_brand :: "string \<Rightarrow> string"
  db_confirm_seats ::
    "int \<Rightarrow> string option \<Rightarrow> showtime_key \<Rightarrow> string option \<Rightarrow> int \<Rightarrow> seat_store
     \<Rightarrow> (pyerror + string list) \<times> seat_store"
  generar_qr :: "int \<Rightarrow> string \<Rightarrow> string \<Rightarrow> pyerror + string"
  generar_comprobante_pdf :: "int \<Rightarrow> string \<Rightarrow> string list \<Rightarrow> string \<Rightarrow> pyerror + string"
  enviar_ticket :: "string \<Rightarrow> int \<Rightarrow> string \<Rightarrow> pyerror option"
  strftime :: "string \<Rightarrow> int \<Rightarrow> string"
  db_insert_error :: "transaccion list \<Rightarrow> transaccion \<Rightarrow> pyerror option"

datatype respuesta =
    Render_pago "string list"
  | Render_pago_ok int "string list"
  | Raised pyerror

definition form_get :: "(string \<rightharpoonup> string) \<Rightarrow> string \<Rightarrow> string" where
  \<comment> \<open>\<open>request.form.get(k) or ""\<close>\<close>
  "form_get form k = (case form k of None \<Rightarrow> [] | Some v \<Rightarrow> v)"

definition or_none :: "string \<Rightarrow> string option" where
  \<comment> \<open>\<open>s or None\<close>\<close>
  "or_none s = (if s = [] then None else Some s)"

definition int_or_none :: "string \<Rightarrow> pyerror + int option" where
  \<comment> \<open>\<open>int(s) if s else None\<close>\<close>
  "int_or_none s =
     (if s = [] then Inr None
      else case py_int s of
             None \<Rightarrow> Inl (ValueError ''invalid literal for int()'')
           | Some n \<Rightarrow> Inr (Some n))"

definition flash :: "string \<Rightarrow> string \<Rightarrow> session \<Rightarrow> session" where
  "flash msg category sess = sess\<lparr>flashes := flashes sess @ [(category, msg)]\<rparr>"

definition lastrowid :: "transaccion list \<Rightarrow> int" where
  \<comment> \<open>the id SQLite gives to an inserted row: one more than the largest id of the table\<close>
  "lastrowid rows = fold max (map trx_id rows) 0 + 1"

definition update_estado :: "string \<Rightarrow> int \<Rightarrow> transaccion list \<Rightarrow> transaccion list" where
  \<comment> \<open>\<open>UPDATE transacciones SET estado=? WHERE id=?\<close>\<close>
  "update_estado e tid rows = map (\<lambda>r. if trx_id r = tid then r\<lparr>estado := e\<rparr> else r) rows"

definition mail_error_caught :: "pyerror \<Rightarrow> bool" where
  \<comment> \<open>\<open>except (OSError, ValueError, RuntimeError)\<close>\<close>
  "mail_error_caught e = (case e of OSError \<Rightarrow> True | ValueError _ \<Rightarrow> True | RuntimeError \<Rightarrow> True | _ \<Rightarrow> False)"

definition pago_comprobante ::
    "collaborators \<Rightarrow> config \<Rightarrow> totales \<Rightarrow> string \<Rightarrow> string \<Rightarrow> string \<Rightarrow> int \<Rightarrow> string list
     \<Rightarrow> session \<Rightarrow> db \<Rightarrow> respuesta \<times> session \<times> db" where
  \<comment> \<open>the handler after the approval: QR, PDF, mail, cleaning of the session\<close>
  "pago_comprobante env cfg t email nombre_tarjeta auth tid confirmados sess bd =
     (let sucursal = (case branch sess of
                        None \<Rightarrow> DEFAULT_BRANCH cfg
                      | Some b \<Rightarrow> if b = [] then DEFAULT_BRANCH cfg else b);
          limpia = sess\<lparr>seats := None, hold_token := None, combos := None\<rparr>
      in case generar_qr env tid email auth of
           Inl e \<Rightarrow> (Raised e, sess, bd)
         | Inr qr_path \<Rightarrow>
      (case generar_comprobante_pdf env tid (if nombre_tarjeta = [] then ''-'' else nombre_tarjeta)
              confirmados qr_path of
           Inl e \<Rightarrow> (Raised e, sess, bd)
         | Inr pdf_path \<Rightarrow>
      (case enviar_ticket env email tid pdf_path of
           None \<Rightarrow> (Render_pago_ok tid confirmados, limpia, bd)
         | Some e \<Rightarrow>
             if mail_error_caught e then (Render_pago_ok tid confirmados, limpia, bd)
             else (Raised e, sess, bd))))"

definition showtime_key_of :: "(string \<times> string) list \<Rightarrow> showtime_key" where
  \<comment> \<open>\<open>seleccion.get("id")\<close>, \<open>"fecha"\<close>, \<open>"hora"\<close> and \<open>"sala"\<close>\<close>
  "showtime_key_of sel = (map_of sel ''id'', map_of sel ''fecha'', map_of sel ''hora'', map_of sel ''sala'')"

definition pago_confirmar ::
    "collaborators \<Rightarrow> config \<Rightarrow> int \<Rightarrow> totales \<Rightarrow> string \<Rightarrow> string \<Rightarrow> string \<Rightarrow> int
     \<Rightarrow> session \<Rightarrow> db \<Rightarrow> respuesta \<times> session \<times> db" where
  \<comment> \<open>the handler from the confirmation of the seats on; \<open>tid\<close> is the row just inserted\<close>
  "pago_confirmar env cfg now t email nombre_tarjeta auth tid sess bd =
     (case db_confirm_seats env now (hold_token sess) (showtime_key_of (seleccion t))
             (or_none email) tid (asientos bd) of
           (Inr confirmados, st') \<Rightarrow>
             if confirmados = []
             then (Render_pago [''Los asientos se liberaron por tiempo. Volve a seleccionarlos.''],
                   flash ''Tus asientos ya no estaban retenidos. Por favor, volve a elegirlos.''
                         ''warning'' sess,
                   bd\<lparr>transacciones := update_estado ''RECHAZADA'' tid (transacciones bd),
                      asientos := st'\<rparr>)
             else pago_comprobante env cfg t email nombre_tarjeta auth tid confirmados sess
                    (bd\<lparr>transacciones := update_estado ''APROBADO'' tid (transacciones bd),
                       asientos := st'\<rparr>)
         | (Inl (ValueError msg), st') \<Rightarrow>
             (Render_pago [msg], flash msg ''danger'' sess,
              bd\<lparr>transacciones := update_estado ''RECHAZADA'' tid (transacciones bd),
                 asientos := st'\<rparr>)
         | (Inl e, st') \<Rightarrow> (Raised e, sess, bd\<lparr>asientos := st'\<rparr>))"

definition last4_of :: "string \<Rightarrow> string" where
  \<comment> \<open>\<open>pan[-4:] if pan else ""\<close>\<close>
  "last4_of pan = (if pan = [] then [] else drop (length pan - 4) pan)"

definition auth_code_of :: "collaborators \<Rightarrow> int \<Rightarrow> string \<Rightarrow> string" where
  "auth_code_of env now pan = ''APP-'' @ last4_of pan @ ''-'' @ strftime env ''%H%M%S'' now"

definition fila_pendiente ::
    "collaborators \<Rightarrow> int \<Rightarrow> string \<Rightarrow> string \<Rightarrow> int \<Rightarrow> int option \<Rightarrow> int option \<Rightarrow> int
     \<Rightarrow> transaccion" where
  \<comment> \<open>the row of \<open>INSERT INTO transacciones (...) VALUES (?,?,?,?,?,?,?,?,?)\<close> under the id
      the table gives it\<close>
  "fila_pendiente env now email pan monto em ea tid =
     \<lparr> trx_id = tid, usuario_email = or_none email, monto_cents = monto,
       brand = or_none (detectar_brand env pan), last4 = or_none (last4_of pan), exp_mes = em,
       exp_anio = ea, estado = ''PENDIENTE'', auth_code = auth_code_of env now pan,
       created_at = strftime env ''%Y-%m-%d %H:%M:%S'' now \<rparr>"

definition fits_int64 :: "int \<Rightarrow> bool" where
  \<comment> \<open>the integers that sqlite3 binds to a parameter\<close>
  "fits_int64 n = (- (2 ^ 63) \<le> n \<and> n < 2 ^ 63)"

definition insert_raises :: "collaborators \<Rightarrow> transaccion list \<Rightarrow> transaccion \<Rightarrow> pyerror option" where
  \<comment> \<open>the exception of \<open>cur.execute(INSERT ...)\<close>, if it raises one: OverflowError for an
      integer parameter outside 64 bits, else what the table makes of the row\<close>
  "insert_raises env rows row =
     (if fits_int64 (monto_cents row)
         \<and> (case exp_mes row of None \<Rightarrow> True | Some n \<Rightarrow> fits_int64 n)
         \<and> (case exp_anio row of None \<Rightarrow> True | Some n \<Rightarrow> fits_int64 n)
      then db_insert_error env rows row
      else Some OverflowError)"

definition pago_persistir ::
    "collaborators \<Rightarrow> config \<Rightarrow> int \<Rightarrow> totales \<Rightarrow> string \<Rightarrow> string \<Rightarrow> string \<Rightarrow> string \<Rightarrow> string
     \<Rightarrow> session \<Rightarrow> db \<Rightarrow> respuesta \<times> session \<times> db" where
  \<comment> \<open>the handler from the derived data of the transaction on: the amount in cents, the
      insertion of the row in state PENDIENTE, then the confirmation\<close>
  "pago_persistir env cfg now t email pan nombre_tarjeta mes anio sess bd =
     (case monto_cents_of (total t) of
           Inl e \<Rightarrow> (Raised e, sess, bd)
         | Inr monto \<Rightarrow>
      (case int_or_none mes of
           Inl e \<Rightarrow> (Raised e, sess, bd)
         | Inr em \<Rightarrow>
      (case int_or_none anio of
           Inl e \<Rightarrow> (Raised e, sess, bd)
         | Inr ea \<Rightarrow>
             let tid = lastrowid (transacciones bd);
                 row = fila_pendiente env now email pan monto em ea tid
             in case insert_raises env (transacciones bd) row of
                  Some e \<Rightarrow> (Raised e, sess, bd)
                | None \<Rightarrow>
                    pago_confirmar env cfg now t email nombre_tarjeta (auth_code_of env now pan)
                      tid sess (bd\<lparr>transacciones := transacciones bd @ [row]\<rparr>))))"

definition pago_post ::
    "collaborators \<Rightarrow> config \<Rightarrow> combo list \<Rightarrow> int \<Rightarrow> (string \<rightharpoonup> string) \<Rightarrow> session \<Rightarrow> db
     \<Rightarrow> respuesta \<times> session \<times> db" where
  \<comment> \<open>\<open>pago()\<close> on a POST: the response, the session and the database after the request\<close>
  "pago_post env cfg catalog now form sess bd =
     (case calcular_totales_server_side cfg catalog sess of
        Inl e \<Rightarrow> (Raised e, sess, bd)
      | Inr t \<Rightarrow>
          if t_seats t = [] \<or> seleccion t = []
          then (Render_pago [''Falta seleccion de funcion o asientos.''],
                flash ''Primero elegi funcion y asientos.'' ''warning'' sess, bd)
          else
            let email = strip (form_get form ''email'');
                pan = filter (\<lambda>c. c \<noteq> CHR '' '') (form_get form ''pan'');
                nombre_tarjeta = strip (form_get form ''nombre_tarjeta'');
                mes = strip (form_get form ''exp_mes'');
                anio = strip (form_get form ''exp_anio'');
                cvv = strip (form_get form ''cvv'');
                errores = validar_tarjeta env email pan nombre_tarjeta mes anio cvv (total t)
            in if errores \<noteq> [] then (Render_pago errores, sess, bd)
               else pago_persistir env cfg now t email pan nombre_tarjeta mes anio sess bd)"

text \<open>What a request means for the session and for the table of transactions.\<close>

fun is_ok :: "respuesta \<Rightarrow> bool" where
  "is_ok (Render_pago_ok _ _) = True"
| "is_ok _ = False"

definition keys_kept :: "session \<Rightarrow> session \<Rightarrow> bool" where
  "keys_kept sess sess' =
     (seats sess' = seats sess \<and> hold_token sess' = hold_token sess \<and> combos sess' = combos sess)"

definition keys_removed :: "session \<Rightarrow> bool" where
  "keys_removed sess' = (seats sess' = None \<and> hold_token sess' = None \<and> combos sess' = None)"

fun is_render_pago :: "respuesta \<Rightarrow> bool" where
  "is_render_pago (Render_pago _) = True"
| "is_render_pago _ = False"

definition confirm_outcome ::
    "pyerror + string list \<Rightarrow> int \<Rightarrow> string \<Rightarrow> respuesta \<Rightarrow> session \<Rightarrow> session \<Rightarrow> bool" where
  \<comment> \<open>what the handler makes of the result \<open>res\<close> of the seat confirmation: the state \<open>e\<close> of
      the transaction \<open>tid\<close>, the response and the session\<close>
  "confirm_outcome res tid e r sess sess' =
     (case res of
        Inr cs \<Rightarrow>
          if cs = [] then e = ''RECHAZADA'' \<and> is_render_pago r \<and> keys_kept sess sess'
          else e = ''APROBADO''
               \<and> ((r = Render_pago_ok tid cs \<and> sess' = sess\<lparr>seats := None, hold_token := None, combos := None\<rparr>)
                   \<or> (r \<noteq> Render_pago_ok tid cs \<and> \<not> is_ok r \<and> sess' = sess))
      | Inl err \<Rightarrow>
          (case err of
             ValueError msg \<Rightarrow> e = ''RECHAZADA'' \<and> is_render_pago r \<and> keys_kept sess sess'
           | _ \<Rightarrow> e = ''PENDIENTE'' \<and> r = Raised err \<and> sess' = sess))"

definition filas_nuevas :: "db \<Rightarrow> respuesta \<times> session \<times> db \<Rightarrow> transaccion list" where
  \<comment> \<open>the rows a request has added to the table\<close>
  "filas_nuevas bd res = drop (length (transacciones bd)) (transacciones (snd (snd res)))"

section \<open>A worked request\<close>

text \<open>
  The data of the specification's example scenario: seats C7 and C8 of the showing of
  movie 5 in Sala 1, held under one token from time 1000 for 600 seconds, and a payment at
  time 1200.  The collaborators accept every card and produce their files, and the table
  takes every row.
\<close>

definition ejemplo_cfg :: config where
  "ejemplo_cfg = \<lparr> SEAT_ROWS = ''ABCDEFGHIJ'', SEAT_COLS = 12, SEAT_MAX_PER_ORDER = 6,
                   HOLD_TTL_SECONDS = 600, TICKET_PRICE = Some ''2500'',
                   DEFAULT_BRANCH = ''Cine Pelagio B. Luna 960'' \<rparr>"

definition ejemplo_catalogo :: "combo list" where
  "ejemplo_catalogo =
     [\<lparr> combo_id = 1, nombre = ''Combo Clasico'', precio = Some ''1500.0'' \<rparr>,
      \<lparr> combo_id = 2, nombre = ''Solo Pochoclos'', precio = Some ''800.55'' \<rparr>]"

definition ejemplo_key :: showtime_key where
  "ejemplo_key = (Some ''5'', Some ''2025-10-15'', Some ''20:00'', Some ''Sala 1'')"

definition ejemplo_sesion :: session where
  "ejemplo_sesion =
     \<lparr> seats = Some [''C7'', ''C8''], combos = None, hold_token = Some ''tok1'',
       movie_selection = Some [(''id'', ''5''), (''fecha'', ''2025-10-15''), (''hora'', ''20:00''),
                               (''sala'', ''Sala 1'')],
       branch = None, flashes = [] \<rparr>"

definition ejemplo_form :: "string \<rightharpoonup> string" where
  "ejemplo_form =
     [''email'' \<mapsto> ''ana@example.com'', ''pan'' \<mapsto> ''4111 1111 1111 1111'',
      ''nombre_tarjeta'' \<mapsto> ''ANA PEREZ'', ''exp_mes'' \<mapsto> ''12'', ''exp_anio'' \<mapsto> ''2030'',
      ''cvv'' \<mapsto> ''123'', ''monto'' \<mapsto> ''1.00'']"

definition ejemplo_hold :: seat_hold where
  "ejemplo_hold = \<lparr> h_token = ''tok1'', h_key = ejemplo_key, h_seats = [''C7'', ''C8''],
                    h_created_at = 1000, h_expires_at = 1600 \<rparr>"

definition ejemplo_bd :: db where
  "ejemplo_bd = \<lparr> transacciones = [], asientos = \<lparr> holds = [ejemplo_hold], reservas = [] \<rparr> \<rparr>"

definition ejemplo_env :: collaborators where
  "ejemplo_env =
     \<lparr> validar_tarjeta = (\<lambda>email pan nombre mes anio cvv monto. []),
       detectar_brand = (\<lambda>pan. ''VISA''),
       db_confirm_seats = confirm_seats,
       generar_qr = (\<lambda>tid email auth. Inr ''static/qr/1.png''),
       generar_comprobante_pdf = (\<lambda>tid cliente asientos qr. Inr ''static/comprobantes/1.pdf''),
       enviar_ticket = (\<lambda>destino tid adjunto. None),
       strftime = (\<lambda>fmt now. if fmt = ''%H%M%S'' then ''001200'' else ''1970-01-01 00:20:00''),
       db_insert_error = (\<lambda>rows row. None) \<rparr>"

definition ejemplo_env_rechaza :: collaborators where
  \<comment> \<open>the same collaborators with a card validation that reports an error\<close>
  "ejemplo_env_rechaza =
     ejemplo_env\<lparr> validar_tarjeta := (\<lambda>email pan nombre mes anio cvv monto. [''Tarjeta invalida'']) \<rparr>"

definition ejemplo_fila :: transaccion where
  "ejemplo_fila =
     \<lparr> trx_id = 1, usuario_email = Some ''ana@example.com'', monto_cents = 500000,
       brand = Some ''VISA'', last4 = Some ''1111'', exp_mes = Some 12, exp_anio = Some 2030,
       estado = ''APROBADO'', auth_code = ''APP-1111-001200'',
       created_at = ''1970-01-01 00:20:00'' \<rparr>"

definition ejemplo_reservas :: "reservation list" where
  "ejemplo_reservas =
     [\<lparr> r_key = ejemplo_key, r_seat = ''C7'', r_transaction_id = 1,
        r_usuario_email = Some ''ana@example.com'', r_confirmed_at = 1200 \<rparr>,
      \<lparr> r_key = ejemplo_key, r_seat = ''C8'', r_transaction_id = 1,
        r_usuario_email = Some ''ana@example.com'', r_confirmed_at = 1200 \<rparr>]"

definition ejemplo_form_monto :: "string \<rightharpoonup> string" where
  \<comment> \<open>the same form with another amount typed by the client\<close>
  "ejemplo_form_monto = ejemplo_form(''monto'' \<mapsto> ''0.01'', ''total'' \<mapsto> ''0.01'')"

definition ejemplo_fila_previa :: transaccion where
  \<comment> \<open>a transaction of an earlier request, already rejected\<close>
  "ejemplo_fila_previa =
     \<lparr> trx_id = 7, usuario_email = Some ''luis@example.com'', monto_cents = 250000,
       brand = Some ''VISA'', last4 = Some ''4242'', exp_mes = Some 1, exp_anio = Some 2031,
       estado = ''RECHAZADA'', auth_code = ''APP-4242-000900'',
       created_at = ''1970-01-01 00:15:00'' \<rparr>"

definition ejemplo_bd_previa :: db where
  "ejemplo_bd_previa = ejemplo_bd\<lparr>transacciones := [ejemplo_fila_previa]\<rparr>"

section \<open>Runs of the seat inventory\<close>

text \<open>
  Modelled from the spec: the operations of the Reservation Coordinator as events on the
  seat tables under a clock that only moves forward.  \<open>Tick\<close> lets time pass.  A
  confirmation is two events, since the specification makes \<open>place\<close> and \<open>commit\<close> the only
  atomic operations: \<open>Lookup\<close> is step 2, which reads the live hold of the token and keeps
  it for the transaction; \<open>Commit\<close> is steps 3 and 4, the commit of the seats of the hold
  that was read and its release.  Other events may fall between the two.  The other events
  are \<open>hold\<close>, \<open>release\<close> and the sweep of expired holds, each at the current time.
\<close>

datatype seat_op =
    Tick nat
  | Hold string showtime_key "string list"
  | Lookup "string option" showtime_key int
  | Commit int "string option"
  | Release string
  | Sweep

record seat_world =
  w_clock :: int
  w_store :: seat_store
  w_lookups :: "(int \<times> seat_hold) list"

definition commit_hold ::
    "int \<Rightarrow> seat_hold \<Rightarrow> int \<Rightarrow> string option \<Rightarrow> seat_store
     \<Rightarrow> (seat_error + string list) \<times> seat_store" where
  \<comment> \<open>Modelled from the spec: steps 3 and 4 of \<open>confirm\<close> for the hold that step 2 has read\<close>
  "commit_hold now h tid email st =
     (case commit now (h_key h) (h_seats h) tid email st of
        Inl e \<Rightarrow> (Inl e, st)
      | Inr (confirmed, st') \<Rightarrow> (Inr confirmed, release (h_token h) st'))"

fun seat_step :: "config \<Rightarrow> seat_world \<Rightarrow> seat_op \<Rightarrow> seat_world" where
  "seat_step cfg w (Tick d) = w\<lparr>w_clock := w_clock w + int d\<rparr>"
| "seat_step cfg w (Hold tok key ss) =
     (case hold cfg (w_clock w) tok key ss (w_store w) of
        Inl _ \<Rightarrow> w
      | Inr (_, st') \<Rightarrow> w\<lparr>w_store := st'\<rparr>)"
| "seat_step cfg w (Lookup token key tid) =
     (case live_hold (w_clock w) token key (w_store w) of
        None \<Rightarrow> w\<lparr>w_lookups := filter (\<lambda>p. fst p \<noteq> tid) (w_lookups w)\<rparr>
      | Some h \<Rightarrow> w\<lparr>w_lookups := (tid, h) # filter (\<lambda>p. fst p \<noteq> tid) (w_lookups w)\<rparr>)"
| "seat_step cfg w (Commit tid email) =
     (case map_of (w_lookups w) tid of
        None \<Rightarrow> w
      | Some h \<Rightarrow>
          w\<lparr>w_store := snd (commit_hold (w_clock w) h tid email (w_store w)),
            w_lookups := filter (\<lambda>p. fst p \<noteq> tid) (w_lookups w)\<rparr>)"
| "seat_step cfg w (Release tok) = w\<lparr>w_store := release tok (w_store w)\<rparr>"
| "seat_step cfg w Sweep = w\<lparr>w_store := snd (purge_expired_holds (w_clock w) (w_store w))\<rparr>"

definition seat_start :: "int \<Rightarrow> seat_world" where
  \<comment> \<open>empty tables at time \<open>t0\<close>\<close>
  "seat_start t0 = \<lparr> w_clock = t0, w_store = \<lparr> holds = [], reservas = [] \<rparr>, w_lookups = [] \<rparr>"

definition seat_run :: "config \<Rightarrow> int \<Rightarrow> seat_op list \<Rightarrow> seat_world" where
  \<comment> \<open>the clock and the tables after the events, from empty tables at time \<open>t0\<close>\<close>
  "seat_run cfg t0 ops = foldl (seat_step cfg) (seat_start t0) ops"

fun commit_in_time :: "seat_world \<Rightarrow> seat_op \<Rightarrow> bool" where
  \<comment> \<open>a commit finds the hold that its lookup has read still in the store and unexpired\<close>
  "commit_in_time w (Commit tid email) =
     (case map_of (w_lookups w) tid of
        None \<Rightarrow> True
      | Some h \<Rightarrow> live_hold (w_clock w) (Some (h_token h)) (h_key h) (w_store w) = Some h)"
| "commit_in_time w (Tick d) = True"
| "commit_in_time w (Hold tok key ss) = True"
| "commit_in_time w (Lookup token key tid) = True"
| "commit_in_time w (Release tok) = True"
| "commit_in_time w Sweep = True"

fun timely :: "config \<Rightarrow> seat_world \<Rightarrow> seat_op list \<Rightarrow> bool" where
  \<comment> \<open>every commit of the run is in time\<close>
  "timely cfg w [] = True"
| "timely cfg w (ev # evs) = (commit_in_time w ev \<and> timely cfg (seat_step cfg w ev) evs)"

definition no_duplicate_claims :: "int \<Rightarrow> seat_store \<Rightarrow> bool" where
  \<comment> \<open>at time \<open>now\<close>: one hold per token, no seat twice in a hold, no seat in two unexpired
      holds of a showtime, no pair of showtime and seat twice in the ledger\<close>
  "no_duplicate_claims now st =
     (distinct (map h_token (holds st))
      \<and> (\<forall>h \<in> set (holds st). distinct (h_seats h))
      \<and> (\<forall>h1 \<in> set (holds st). \<forall>h2 \<in> set (holds st).
            unexpired now h1 \<and> unexpired now h2 \<and> h_key h1 = h_key h2 \<and> h_token h1 \<noteq> h_token h2
            \<longrightarrow> set (h_seats h1) \<inter> set (h_seats h2) = {})
      \<and> distinct (map (\<lambda>r. (r_key r, r_seat r)) (reservas st)))"

definition no_double_booking :: "int \<Rightarrow> seat_store \<Rightarrow> bool" where
  \<comment> \<open>at time \<open>now\<close>: one hold per token, no seat twice in a hold, no seat in two unexpired
      holds of a showtime, no seat both in an unexpired hold and in the ledger of its
      showtime, no pair of showtime and seat twice in the ledger\<close>
  "no_double_booking now st =
     (distinct (map h_token (holds st))
      \<and> (\<forall>h \<in> set (holds st). distinct (h_seats h))
      \<and> (\<forall>h1 \<in> set (holds st). \<forall>h2 \<in> set (holds st).
            unexpired now h1 \<and> unexpired now h2 \<and> h_key h1 = h_key h2 \<and> h_token h1 \<noteq> h_token h2
            \<longrightarrow> set (h_seats h1) \<inter> set (h_seats h2) = {})
      \<and> (\<forall>h \<in> set (holds st).
            unexpired now h \<longrightarrow> set (h_seats h) \<inter> set (seats_confirmed (h_key h) st) = {})
      \<and> distinct (map (\<lambda>r. (r_key r, r_seat r)) (reservas st)))"

definition ejemplo_ops :: "seat_op list" where
  \<comment> \<open>the example scenarios 1 to 4 of the specification, from time 1000\<close>
  "ejemplo_ops =
     [Hold ''tok1'' ejemplo_key [''C7'', ''C8''],
      Tick 10,
      Hold ''tok2'' ejemplo_key [''C8'', ''C9''],
      Tick 190,
      Lookup (Some ''tok1'') ejemplo_key 1,
      Commit 1 (Some ''ana@example.com''),
      Tick 100,
      Hold ''tok3'' ejemplo_key [''C7'']]"

definition ejemplo_carrera :: "seat_op list" where
  \<comment> \<open>from time 1000: a hold whose confirmation reads it one second before it expires
      and commits after another session has held the seat\<close>
  "ejemplo_carrera =
     [Hold ''tok1'' ejemplo_key [''C7''],
      Tick 599,
      Lookup (Some ''tok1'') ejemplo_key 1,
      Tick 2,
      Hold ''tok2'' ejemplo_key [''C7''],
      Tick 1,
      Commit 1 (Some ''ana@example.com'')]"

definition ejemplo_carrera_fin :: seat_store where
  "ejemplo_carrera_fin =
     \<lparr> holds = [\<lparr> h_token = ''tok2'', h_key = ejemplo_key, h_seats = [''C7''],
                  h_created_at = 1601, h_expires_at = 2201 \<rparr>],
       reservas = [\<lparr> r_key = ejemplo_key, r_seat = ''C7'', r_transaction_id = 1,
                     r_usuario_email = Some ''ana@example.com'', r_confirmed_at = 1602 \<rparr>] \<rparr>"

definition ejemplo_dos_pagos :: "seat_op list" where
  \<comment> \<open>from time 1000: two confirmations read the same hold, and both commit\<close>
  "ejemplo_dos_pagos =
     [Hold ''tok1'' ejemplo_key [''C7''],
      Lookup (Some ''tok1'') ejemplo_key 1,
      Lookup (Some ''tok1'') ejemplo_key 2,
      Commit 1 (Some ''ana@example.com''),
      Commit 2 (Some ''ana@example.com'')]"

definition ejemplo_entorno :: "string \<rightharpoonup> string" where
  \<comment> \<open>an environment whose ticket price is not a number\<close>
  "ejemplo_entorno = [''TICKET_PRICE'' \<mapsto> ''abc'']"

definition ejemplo_cfg_abc :: config where
  "ejemplo_cfg_abc = \<lparr> SEAT_ROWS = ''ABCDEFGHIJ'', SEAT_COLS = 12, SEAT_MAX_PER_ORDER = 6,
                       HOLD_TTL_SECONDS = 600, TICKET_PRICE = Some ''abc'',
                       DEFAULT_BRANCH = ''Cine Pelagio B. Luna 960'' \<rparr>"

section \<open>Amounts as numbers\<close>

text \<open>
  The number a finite Decimal stands for, and the rounding to two decimals in the words
  of the specification: half up, which for Python's ROUND_HALF_UP means away from zero.
\<close>

definition dec_value :: "decimal \<Rightarrow> rat" where
  "dec_value d = (case d of Fin c e \<Rightarrow> of_int c * 10 powi e | _ \<Rightarrow> 0)"

definition round_half_up2 :: "rat \<Rightarrow> rat" where
  "round_half_up2 x = sgn x * of_int \<lfloor>\<bar>x\<bar> * 100 + 1 / 2\<rfloor> / 100"

definition fits :: "int \<Rightarrow> bool" where
  \<comment> \<open>a coefficient of at most 28 digits\<close>
  "fits c = (\<bar>c\<bar> < 10 ^ prec)"

definition spec_totales :: "rat \<Rightarrow> nat \<Rightarrow> rat list \<Rightarrow> rat \<times> rat \<times> rat" where
  \<comment> \<open>the totals in the words of the specification: the entradas subtotal is the price
      times the number of seats, the combos subtotal is the sum of the prices, each rounded
      to two decimals, and the grand total is their sum, rounded again\<close>
  "spec_totales price n precios =
     (let te = round_half_up2 (price * of_nat n);
          tc = round_half_up2 (sum_list precios)
      in (te, tc, round_half_up2 (te + tc)))"

definition spec_total_single_rounding :: "rat \<Rightarrow> nat \<Rightarrow> rat list \<Rightarrow> rat" where
  \<comment> \<open>the other reading, which the specification rules out: one rounding of the raw sum\<close>
  "spec_total_single_rounding price n precios = round_half_up2 (price * of_nat n + sum_list precios)"

text \<open>
  The amounts of a request stay within the precision of the context when the exact product
  of the price and the number of seats, every exact partial sum of the prices of the
  combos, and the three rounded amounts have coefficients of at most 28 digits.
\<close>

fun sum_exact :: "int \<Rightarrow> int \<Rightarrow> (int \<times> int) list \<Rightarrow> int \<times> int" where
  "sum_exact c e [] = (c, e)"
| "sum_exact c e ((c', e') # ps) =
     sum_exact (c * 10 ^ nat (e - min e e') + c' * 10 ^ nat (e' - min e e')) (min e e') ps"

fun sums_fit :: "int \<Rightarrow> int \<Rightarrow> (int \<times> int) list \<Rightarrow> bool" where
  "sums_fit c e [] = True"
| "sums_fit c e ((c', e') # ps) =
     (fits (c * 10 ^ nat (e - min e e') + c' * 10 ^ nat (e' - min e e'))
      \<and> sums_fit (c * 10 ^ nat (e - min e e') + c' * 10 ^ nat (e' - min e e')) (min e e') ps)"

definition within_precision :: "int \<Rightarrow> int \<Rightarrow> nat \<Rightarrow> (int \<times> int) list \<Rightarrow> bool" where
  "within_precision cp ep n ps =
     (let a = rescale_half_up (cp * int n) ep (- 2);
          b = rescale_half_up (fst (sum_exact 0 0 ps)) (snd (sum_exact 0 0 ps)) (- 2)
      in fits (cp * int n) \<and> sums_fit 0 0 ps \<and> fits a \<and> fits b \<and> fits (a + b))"

definition ejemplo_sesion_combos :: session where
  \<comment> \<open>the session of the example with both combos of the catalogue\<close>
  "ejemplo_sesion_combos = ejemplo_sesion\<lparr>combos := Some [''1'', ''2'']\<rparr>"

definition ejemplo_cfg_fino :: config where
  \<comment> \<open>a ticket price of 28 significant digits\<close>
  "ejemplo_cfg_fino = ejemplo_cfg\<lparr>TICKET_PRICE := Some ''0.2009999999999999999999999999''\<rparr>"

definition ejemplo_sesion_5 :: session where
  "ejemplo_sesion_5 = ejemplo_sesion\<lparr>seats := Some [''C1'', ''C2'', ''C3'', ''C4'', ''C5'']\<rparr>"


section \<open>The MercadoPago migration (app/db\_migrations.py)\<close>

text \<open>
  The migration and its check talk to SQLite, and what they depend on is the schema: the
  tables with their columns, from which the text of the \<open>sql\<close> column of \<open>sqlite_master\<close> is
  written, and the indexes.  Rows are left out: the UPDATE of the e-mail column and
  \<open>insert_sample_data\<close> (which absorbs every exception) touch rows only.  SQLite compares the
  names of tables, columns and indexes without regard to ASCII case; the comparison
  \<open>name='transacciones'\<close> of a WHERE clause and Python's \<open>in\<close> on strings are exact.  The
  database is a file that can be read and written: a statement fails only for the schema
  it finds, so the handler of \<open>check_migration_needed\<close> for a failing query, which returns
  True, has no case here.
\<close>

datatype sqlite_error = OperationalError string

record table =
  tb_name :: string
  tb_cols :: "(string \<times> string) list"

record index =
  ix_name :: string
  ix_table :: string
  ix_cols :: "string list"

record schema =
  tables :: "table list"
  indexes :: "index list"

definition lower :: "string \<Rightarrow> string" where
  "lower s = map lower_char s"

definition same_name :: "string \<Rightarrow> string \<Rightarrow> bool" where
  \<comment> \<open>how SQLite compares identifiers\<close>
  "same_name a b = (lower a = lower b)"

fun starts_with :: "string \<Rightarrow> string \<Rightarrow> bool" where
  "starts_with [] s = True"
| "starts_with (x # xs) [] = False"
| "starts_with (x # xs) (y # ys) = (x = y \<and> starts_with xs ys)"

fun contains :: "string \<Rightarrow> string \<Rightarrow> bool" where
  \<comment> \<open>Python's \<open>needle in haystack\<close> on strings\<close>
  "contains needle [] = (needle = [])"
| "contains needle (c # cs) = (starts_with needle (c # cs) \<or> contains needle cs)"




definition find_table :: "string \<Rightarrow> schema \<Rightarrow> table option" where
  \<comment> \<open>the table a statement names\<close>
  "find_table n db = find (\<lambda>t. same_name (tb_name t) n) (tables db)"

definition find_index :: "string \<Rightarrow> schema \<Rightarrow> index option" where
  "find_index n db = find (\<lambda>i. same_name (ix_name i) n) (indexes db)"

definition has_column :: "table \<Rightarrow> string \<Rightarrow> bool" where
  "has_column t c = list_ex (\<lambda>d. same_name (fst d) c) (tb_cols t)"

fun replace_table :: "string \<Rightarrow> (table \<Rightarrow> table) \<Rightarrow> table list \<Rightarrow> table list" where
  "replace_table n f [] = []"
| "replace_table n f (t # ts) =
     (if same_name (tb_name t) n then f t # ts else t # replace_table n f ts)"

definition alter_add_column :: "string \<Rightarrow> string \<Rightarrow> string \<Rightarrow> schema \<Rightarrow> sqlite_error + schema" where
  \<comment> \<open>\<open>ALTER TABLE tn ADD COLUMN cn cd\<close>\<close>
  "alter_add_column tn cn cd db =
     (case find_table tn db of
        None \<Rightarrow> Inl (OperationalError (''no such table: '' @ tn))
      | Some t \<Rightarrow>
          if has_column t cn then Inl (OperationalError (''duplicate column name: '' @ cn))
          else Inr (db\<lparr>tables :=
                 replace_table tn (\<lambda>u. u\<lparr>tb_cols := tb_cols u @ [(cn, cd)]\<rparr>) (tables db)\<rparr>))"

definition select_column :: "string \<Rightarrow> string \<Rightarrow> schema \<Rightarrow> sqlite_error + unit" where
  \<comment> \<open>\<open>SELECT cn FROM tn LIMIT 1\<close>, the row dropped\<close>
  "select_column tn cn db =
     (case find_table tn db of
        None \<Rightarrow> Inl (OperationalError (''no such table: '' @ tn))
      | Some t \<Rightarrow>
          if has_column t cn then Inr () else Inl (OperationalError (''no such column: '' @ cn)))"

definition update_set_column :: "string \<Rightarrow> string \<Rightarrow> string \<Rightarrow> schema \<Rightarrow> sqlite_error + unit" where
  \<comment> \<open>\<open>UPDATE tn SET cn = src WHERE cn IS NULL\<close>: rows only\<close>
  "update_set_column tn cn src db =
     (case find_table tn db of
        None \<Rightarrow> Inl (OperationalError (''no such table: '' @ tn))
      | Some t \<Rightarrow>
          if \<not> has_column t cn then Inl (OperationalError (''no such column: '' @ cn))
          else if \<not> has_column t src then Inl (OperationalError (''no such column: '' @ src))
          else Inr ())"

datatype statement =
    CreateTable string "(string \<times> string) list"
  | CreateIndex string string "string list"

fun run_statement :: "statement \<Rightarrow> schema \<Rightarrow> sqlite_error + schema" where
  \<comment> \<open>both statements in their IF NOT EXISTS form\<close>
  "run_statement (CreateTable n cols) db =
     (if find_table n db \<noteq> None then Inr db
      else if find_index n db \<noteq> None
      then Inl (OperationalError (''there is already an index named '' @ n))
      else Inr (db\<lparr>tables := tables db @ [\<lparr>tb_name = n, tb_cols = cols\<rparr>]\<rparr>))"
| "run_statement (CreateIndex n tn cols) db =
     (case find_table tn db of
        None \<Rightarrow> Inl (OperationalError (''no such table: main.'' @ tn))
      | Some t \<Rightarrow>
          if find_table n db \<noteq> None
          then Inl (OperationalError (''there is already a table named '' @ n))
          else if find_index n db \<noteq> None then Inr db
          else (case find (\<lambda>c. \<not> has_column t c) cols of
                  Some c \<Rightarrow> Inl (OperationalError (''table '' @ tn @ '' has no column named '' @ c))
                | None \<Rightarrow>
                    Inr (db\<lparr>indexes := indexes db @ [\<lparr>ix_name = n, ix_table = tn, ix_cols = cols\<rparr>]\<rparr>)))"

fun executescript :: "statement list \<Rightarrow> schema \<Rightarrow> sqlite_error option \<times> schema" where
  \<comment> \<open>\<open>executescript\<close> of app/db.py is not among the sources; it is taken as the
      \<open>executescript\<close> of the connection: the statements run in order, the first one that fails
      raises, and what ran before it stays\<close>
  "executescript [] db = (None, db)"
| "executescript (s # ss) db =
     (case run_statement s db of
        Inl e \<Rightarrow> (Some e, db)
      | Inr db' \<Rightarrow> executescript ss db')"


fun creates_table :: "statement \<Rightarrow> string \<Rightarrow> bool" where
  \<comment> \<open>the statement may create a table that SQLite takes for \<open>n\<close>\<close>
  "creates_table (CreateTable m cols) n = same_name m n"
| "creates_table (CreateIndex m tn cols) n = False"










definition add_column_absorbed :: "schema \<Rightarrow> string \<times> string \<Rightarrow> schema" where
  \<comment> \<open>one turn of the loop over \<open>new_columns\<close>: an OperationalError of the ALTER TABLE is
      logged, as a duplicate column or as a warning, and the loop goes on\<close>
  "add_column_absorbed db c =
     (case alter_add_column ''transacciones'' (fst c) (snd c) db of
        Inr db' \<Rightarrow> db'
      | Inl (OperationalError msg) \<Rightarrow>
          if contains ''duplicate column name'' (lower msg) then db else db)"

definition migrate_email :: "schema \<Rightarrow> schema" where
  \<comment> \<open>email\_cliente -> usuario\_email; every OperationalError ends the block quietly\<close>
  "migrate_email db =
     (case select_column ''transacciones'' ''email_cliente'' db of
        Inl e \<Rightarrow> db
      | Inr u \<Rightarrow>
          (let db1 = (case alter_add_column ''transacciones'' ''usuario_email'' ''TEXT'' db of
                        Inr db' \<Rightarrow> db'
                      | Inl e \<Rightarrow> db)
           in case update_set_column ''transacciones'' ''usuario_email'' ''email_cliente'' db1 of
                Inl e \<Rightarrow> db1
              | Inr u' \<Rightarrow> db1))"












section \<open>Evaluation\<close>

lemmas py_eval =
  is_digit_def digit_val_def is_space_def is_ascii_space_def lower_char_def strip_def
  strip_int_def digits_val_def signed_def
  py_int_def prec_def ndigits.simps round_half_even_def fix_ctx_def rescale_half_up_def
  parse_exp_def parse_number_def py_Decimal_def precio_str_def Let_def

lemmas ejemplo_defs =
  ejemplo_cfg_def ejemplo_catalogo_def ejemplo_key_def ejemplo_sesion_def ejemplo_form_def
  ejemplo_hold_def ejemplo_bd_def ejemplo_env_def ejemplo_env_rechaza_def ejemplo_fila_def
  ejemplo_reservas_def ejemplo_form_monto_def ejemplo_fila_previa_def ejemplo_bd_previa_def

lemma ejemplo_totales:
  "calcular_totales_server_side ejemplo_cfg ejemplo_catalogo ejemplo_sesion =
     Inr \<lparr> total_entradas = Fin 500000 (- 2), total_combos = Fin 0 (- 2),
           total = Fin 500000 (- 2), combos_sel = [], t_seats = [''C7'', ''C8''],
           seleccion = [(''id'', ''5''), (''fecha'', ''2025-10-15''), (''hora'', ''20:00''),
                        (''sala'', ''Sala 1'')] \<rparr>"
  by (simp add: ejemplo_defs py_eval calcular_totales_server_side_def precio_entrada_def
      combos_from_session_def seats_from_session_def seleccion_from_session_def)

lemma ejemplo_monto: "monto_cents_of (Fin 500000 (- 2)) = Inr 500000"
  by (simp add: monto_cents_of_def py_eval)

lemma ejemplo_run:
  "pago_post ejemplo_env ejemplo_cfg ejemplo_catalogo 1200 ejemplo_form ejemplo_sesion ejemplo_bd =
    (Render_pago_ok 1 [''C7'', ''C8''],
     ejemplo_sesion\<lparr>seats := None, hold_token := None, combos := None\<rparr>,
     \<lparr> transacciones = [ejemplo_fila], asientos = \<lparr> holds = [], reservas = ejemplo_reservas \<rparr> \<rparr>)"
  apply (simp add: pago_post_def ejemplo_totales)
  apply (simp add: ejemplo_form_def form_get_def strip_def is_space_def)
  apply (simp add: ejemplo_env_def pago_persistir_def ejemplo_monto int_or_none_def py_eval
      lastrowid_def ejemplo_bd_def insert_raises_def fits_int64_def fila_pendiente_def)
  apply (simp add: pago_confirmar_def showtime_key_of_def or_none_def fila_pendiente_def
      auth_code_of_def last4_of_def)
  apply (simp add: confirm_seats_def live_hold_def get_hold_def unexpired_def commit_def
      seats_confirmed_def release_def ejemplo_hold_def ejemplo_key_def update_estado_def
      pago_comprobante_def ejemplo_sesion_def ejemplo_fila_def ejemplo_reservas_def)
  done

lemma ejemplo_run_rechaza:
  "pago_post ejemplo_env_rechaza ejemplo_cfg ejemplo_catalogo 1200 ejemplo_form ejemplo_sesion
     bd = (Render_pago [''Tarjeta invalida''], ejemplo_sesion, bd)"
  by (simp add: pago_post_def ejemplo_totales ejemplo_env_rechaza_def ejemplo_env_def)

lemma ejemplo_run_monto:
  "pago_post ejemplo_env ejemplo_cfg ejemplo_catalogo 1200 ejemplo_form_monto ejemplo_sesion
     ejemplo_bd =
    (Render_pago_ok 1 [''C7'', ''C8''],
     ejemplo_sesion\<lparr>seats := None, hold_token := None, combos := None\<rparr>,
     \<lparr> transacciones = [ejemplo_fila], asientos = \<lparr> holds = [], reservas = ejemplo_reservas \<rparr> \<rparr>)"
  apply (simp add: pago_post_def ejemplo_totales)
  apply (simp add: ejemplo_form_monto_def ejemplo_form_def form_get_def strip_def is_space_def)
  apply (simp add: ejemplo_env_def pago_persistir_def ejemplo_monto int_or_none_def py_eval
      lastrowid_def ejemplo_bd_def insert_raises_def fits_int64_def fila_pendiente_def)
  apply (simp add: pago_confirmar_def showtime_key_of_def or_none_def fila_pendiente_def
      auth_code_of_def last4_of_def)
  apply (simp add: confirm_seats_def live_hold_def get_hold_def unexpired_def commit_def
      seats_confirmed_def release_def ejemplo_hold_def ejemplo_key_def update_estado_def
      pago_comprobante_def ejemplo_sesion_def ejemplo_fila_def ejemplo_reservas_def)
  done

lemma ejemplo_run_previa:
  "pago_post ejemplo_env ejemplo_cfg ejemplo_catalogo 1200 ejemplo_form ejemplo_sesion
     ejemplo_bd_previa =
    (Render_pago_ok 8 [''C7'', ''C8''],
     ejemplo_sesion\<lparr>seats := None, hold_token := None, combos := None\<rparr>,
     \<lparr> transacciones = [ejemplo_fila_previa, ejemplo_fila\<lparr>trx_id := 8\<rparr>],
       asientos = \<lparr> holds = [],
                    reservas = map (\<lambda>r. r\<lparr>r_transaction_id := 8\<rparr>) ejemplo_reservas \<rparr> \<rparr>)"
  apply (simp add: pago_post_def ejemplo_totales)
  apply (simp add: ejemplo_form_def form_get_def strip_def is_space_def)
  apply (simp add: ejemplo_env_def pago_persistir_def ejemplo_monto int_or_none_def py_eval
      lastrowid_def ejemplo_bd_def ejemplo_bd_previa_def ejemplo_fila_previa_def
      insert_raises_def fits_int64_def fila_pendiente_def)
  apply (simp add: pago_confirmar_def showtime_key_of_def or_none_def fila_pendiente_def
      auth_code_of_def last4_of_def)
  apply (simp add: confirm_seats_def live_hold_def get_hold_def unexpired_def commit_def
      seats_confirmed_def release_def ejemplo_hold_def ejemplo_key_def update_estado_def
      pago_comprobante_def ejemplo_sesion_def ejemplo_fila_def ejemplo_reservas_def)
  done

section \<open>The stages of the handler\<close>

lemma keys_kept_refl [simp]: "keys_kept s s"
  by (simp add: keys_kept_def)

lemma keys_kept_flash [simp]: "keys_kept s (flash m c s)"
  by (simp add: keys_kept_def flash_def)

lemma comprobante_cases:
  "pago_comprobante env cfg t email n auth tid cs sess bd = (r, sess', bd') \<Longrightarrow>
     bd' = bd \<and>
     ((r = Render_pago_ok tid cs \<and> sess' = sess\<lparr>seats := None, hold_token := None, combos := None\<rparr>)
      \<or> ((\<exists>e. r = Raised e) \<and> sess' = sess))"
  by (auto simp: pago_comprobante_def Let_def split: sum.splits option.splits if_splits)

lemma confirmar_cases:
  assumes "pago_confirmar env cfg now t email n auth tid sess bd = (r, sess', bd')"
  shows "\<exists>res st' e.
     db_confirm_seats env now (hold_token sess) (showtime_key_of (seleccion t))
        (or_none email) tid (asientos bd) = (res, st') \<and> asientos bd' = st' \<and>
     transacciones bd' =
       (if e = ''PENDIENTE'' then transacciones bd else update_estado e tid (transacciones bd)) \<and>
     confirm_outcome res tid e r sess sess'"
proof -
  obtain res st' where c: "db_confirm_seats env now (hold_token sess)
      (showtime_key_of (seleccion t)) (or_none email) tid (asientos bd) = (res, st')"
    by (cases "db_confirm_seats env now (hold_token sess)
      (showtime_key_of (seleccion t)) (or_none email) tid (asientos bd)")
  show ?thesis
  proof (cases res)
    case (Inl err)
    show ?thesis
    proof (cases "\<exists>msg. err = ValueError msg")
      case True
      then show ?thesis using assms c Inl
        by (auto simp: pago_confirmar_def confirm_outcome_def intro!: exI[of _ "''RECHAZADA''"])
    next
      case False
      then show ?thesis using assms c Inl
        by (cases err) (auto simp: pago_confirmar_def confirm_outcome_def intro!: exI[of _ "''PENDIENTE''"])
    qed
  next
    case (Inr cs)
    show ?thesis
    proof (cases "cs = []")
      case True
      then show ?thesis using assms c Inr
        by (auto simp: pago_confirmar_def confirm_outcome_def intro!: exI[of _ "''RECHAZADA''"])
    next
      case False
      then show ?thesis using assms c Inr
        by (auto simp: pago_confirmar_def confirm_outcome_def intro!: exI[of _ "''APROBADO''"]
            dest!: comprobante_cases)
    qed
  qed
qed

lemma persistir_cases:
  assumes "pago_persistir env cfg now t email pan n mes anio sess bd = (r, sess', bd')"
  shows "((\<exists>e. r = Raised e) \<and> sess' = sess \<and> bd' = bd)
     \<or> (\<exists>m em ea. monto_cents_of (total t) = Inr m \<and> int_or_none mes = Inr em
           \<and> int_or_none anio = Inr ea
           \<and> pago_confirmar env cfg now t email n (auth_code_of env now pan)
               (lastrowid (transacciones bd)) sess
               (bd\<lparr>transacciones := transacciones bd @
                  [fila_pendiente env now email pan m em ea (lastrowid (transacciones bd))]\<rparr>)
              = (r, sess', bd'))"
  using assms
  by (auto simp: pago_persistir_def Let_def split: sum.splits option.splits)

lemma post_cases:
  assumes "pago_post env cfg catalog now form sess bd = (r, sess', bd')"
  shows "(\<not> is_ok r \<and> keys_kept sess sess' \<and> bd' = bd)
     \<or> (\<exists>t. calcular_totales_server_side cfg catalog sess = Inr t
           \<and> t_seats t \<noteq> [] \<and> seleccion t \<noteq> []
           \<and> validar_tarjeta env (strip (form_get form ''email''))
                (filter (\<lambda>c. c \<noteq> CHR '' '') (form_get form ''pan''))
                (strip (form_get form ''nombre_tarjeta'')) (strip (form_get form ''exp_mes''))
                (strip (form_get form ''exp_anio'')) (strip (form_get form ''cvv'')) (total t) = []
           \<and> pago_persistir env cfg now t (strip (form_get form ''email''))
                (filter (\<lambda>c. c \<noteq> CHR '' '') (form_get form ''pan''))
                (strip (form_get form ''nombre_tarjeta'')) (strip (form_get form ''exp_mes''))
                (strip (form_get form ''exp_anio'')) sess bd = (r, sess', bd'))"
  using assms
  by (auto simp: pago_post_def Let_def split: sum.splits if_splits)

lemma fold_max_ge: "(a::int) \<le> fold max xs a"
proof (induction xs arbitrary: a)
  case Nil
  show ?case by simp
next
  case (Cons x xs)
  have "a \<le> max x a" by simp
  also have "\<dots> \<le> fold max xs (max x a)" by (rule Cons.IH)
  finally show ?case by simp
qed

lemma fold_max_mem: "x \<in> set xs \<Longrightarrow> (x::int) \<le> fold max xs a"
proof (induction xs arbitrary: a)
  case Nil
  then show ?case by simp
next
  case (Cons y ys)
  show ?case
  proof (cases "x = y")
    case True
    have "y \<le> max y a" by simp
    also have "\<dots> \<le> fold max ys (max y a)" by (rule fold_max_ge)
    finally show ?thesis using True by simp
  next
    case False
    with Cons.prems have "x \<in> set ys" by simp
    then show ?thesis using Cons.IH by simp
  qed
qed

lemma lastrowid_fresh: "r \<in> set rows \<Longrightarrow> trx_id r < lastrowid rows"
  using fold_max_mem[of "trx_id r" "map trx_id rows" 0] by (simp add: lastrowid_def)

lemma update_estado_fresh:
  assumes "trx_id row = lastrowid rows"
  shows "update_estado e (lastrowid rows) (rows @ [row]) = rows @ [row\<lparr>estado := e\<rparr>]"
proof -
  have "map (\<lambda>r. if trx_id r = lastrowid rows then r\<lparr>estado := e\<rparr> else r) rows = rows"
  proof (rule map_idI)
    fix r assume "r \<in> set rows"
    then have "trx_id r \<noteq> lastrowid rows" using lastrowid_fresh[of r rows] by simp
    then show "(if trx_id r = lastrowid rows then r\<lparr>estado := e\<rparr> else r) = r" by simp
  qed
  then show ?thesis using assms by (simp add: update_estado_def)
qed

lemma fila_pendiente_simps [simp]:
  "trx_id (fila_pendiente env now email pan m em ea tid) = tid"
  "monto_cents (fila_pendiente env now email pan m em ea tid) = m"
  "estado (fila_pendiente env now email pan m em ea tid) = ''PENDIENTE''"
  by (simp_all add: fila_pendiente_def)

lemma persistir_outcome:
  assumes "pago_persistir env cfg now t email pan n mes anio sess bd = (r, sess', bd')"
  shows "((\<exists>e. r = Raised e) \<and> sess' = sess \<and> bd' = bd)
     \<or> (\<exists>m em ea res st' e.
           monto_cents_of (total t) = Inr m
           \<and> db_confirm_seats env now (hold_token sess) (showtime_key_of (seleccion t))
                (or_none email) (lastrowid (transacciones bd)) (asientos bd) = (res, st')
           \<and> asientos bd' = st'
           \<and> transacciones bd' = transacciones bd @
                [(fila_pendiente env now email pan m em ea (lastrowid (transacciones bd)))\<lparr>estado := e\<rparr>]
           \<and> confirm_outcome res (lastrowid (transacciones bd)) e r sess sess'
           \<and> pago_confirmar env cfg now t email n (auth_code_of env now pan)
                (lastrowid (transacciones bd)) sess
                (bd\<lparr>transacciones := transacciones bd @
                   [fila_pendiente env now email pan m em ea (lastrowid (transacciones bd))]\<rparr>)
               = (r, sess', bd'))"
proof -
  let ?tid = "lastrowid (transacciones bd)"
  from persistir_cases[OF assms] show ?thesis
  proof
    assume "(\<exists>e. r = Raised e) \<and> sess' = sess \<and> bd' = bd"
    then show ?thesis by simp
  next
    assume "\<exists>m em ea. monto_cents_of (total t) = Inr m \<and> int_or_none mes = Inr em
           \<and> int_or_none anio = Inr ea
           \<and> pago_confirmar env cfg now t email n (auth_code_of env now pan) ?tid sess
               (bd\<lparr>transacciones := transacciones bd @
                  [fila_pendiente env now email pan m em ea ?tid]\<rparr>) = (r, sess', bd')"
    then obtain m em ea where m: "monto_cents_of (total t) = Inr m"
      and c: "pago_confirmar env cfg now t email n (auth_code_of env now pan) ?tid sess
               (bd\<lparr>transacciones := transacciones bd @
                  [fila_pendiente env now email pan m em ea ?tid]\<rparr>) = (r, sess', bd')"
      by blast
    let ?row = "fila_pendiente env now email pan m em ea ?tid"
    have upd: "\<And>e. update_estado e ?tid (transacciones bd @ [?row]) = transacciones bd @ [?row\<lparr>estado := e\<rparr>]"
      by (rule update_estado_fresh) simp
    have same: "?row\<lparr>estado := ''PENDIENTE''\<rparr> = ?row" by (simp add: fila_pendiente_def)
    let ?bd1 = "bd\<lparr>transacciones := transacciones bd @ [?row]\<rparr>"
    from confirmar_cases[OF c] obtain res st' e where
      r: "db_confirm_seats env now (hold_token sess) (showtime_key_of (seleccion t))
             (or_none email) ?tid (asientos ?bd1) = (res, st')" and a: "asientos bd' = st'"
      and tr0: "transacciones bd' =
       (if e = ''PENDIENTE'' then transacciones ?bd1 else update_estado e ?tid (transacciones ?bd1))"
      and k: "confirm_outcome res ?tid e r sess sess'"
      by blast
    from tr0 have tr: "transacciones bd' =
       (if e = ''PENDIENTE'' then transacciones bd @ [?row] else update_estado e ?tid (transacciones bd @ [?row]))"
      by simp
    from r have r: "db_confirm_seats env now (hold_token sess) (showtime_key_of (seleccion t))
             (or_none email) ?tid (asientos bd) = (res, st')" by simp
    from tr have "transacciones bd' = transacciones bd @ [?row\<lparr>estado := e\<rparr>]"
      using upd same by (cases "e = ''PENDIENTE''") simp_all
    with m r a k c show ?thesis by blast
  qed
qed

lemma post_outcome:
  assumes "pago_post env cfg catalog now form sess bd = (r, sess', bd')"
  shows "(\<not> is_ok r \<and> keys_kept sess sess' \<and> bd' = bd)
     \<or> (\<exists>t m row res st' e.
           calcular_totales_server_side cfg catalog sess = Inr t
           \<and> t_seats t \<noteq> [] \<and> seleccion t \<noteq> []
           \<and> validar_tarjeta env (strip (form_get form ''email''))
                (filter (\<lambda>c. c \<noteq> CHR '' '') (form_get form ''pan''))
                (strip (form_get form ''nombre_tarjeta'')) (strip (form_get form ''exp_mes''))
                (strip (form_get form ''exp_anio'')) (strip (form_get form ''cvv'')) (total t) = []
           \<and> monto_cents_of (total t) = Inr m
           \<and> monto_cents row = m \<and> trx_id row = lastrowid (transacciones bd)
           \<and> estado row = ''PENDIENTE''
           \<and> db_confirm_seats env now (hold_token sess) (showtime_key_of (seleccion t))
                (or_none (strip (form_get form ''email''))) (lastrowid (transacciones bd))
                (asientos bd) = (res, st')
           \<and> asientos bd' = st'
           \<and> transacciones bd' = transacciones bd @ [row\<lparr>estado := e\<rparr>]
           \<and> confirm_outcome res (lastrowid (transacciones bd)) e r sess sess'
           \<and> (\<exists>email nombre auth.
                 pago_confirmar env cfg now t email nombre auth (lastrowid (transacciones bd)) sess
                   (bd\<lparr>transacciones := transacciones bd @ [row]\<rparr>) = (r, sess', bd')))"
proof -
  from post_cases[OF assms] show ?thesis
  proof
    assume "\<not> is_ok r \<and> keys_kept sess sess' \<and> bd' = bd"
    then show ?thesis by simp
  next
    assume "\<exists>t. calcular_totales_server_side cfg catalog sess = Inr t
           \<and> t_seats t \<noteq> [] \<and> seleccion t \<noteq> []
           \<and> validar_tarjeta env (strip (form_get form ''email''))
                (filter (\<lambda>c. c \<noteq> CHR '' '') (form_get form ''pan''))
                (strip (form_get form ''nombre_tarjeta'')) (strip (form_get form ''exp_mes''))
                (strip (form_get form ''exp_anio'')) (strip (form_get form ''cvv'')) (total t) = []
           \<and> pago_persistir env cfg now t (strip (form_get form ''email''))
                (filter (\<lambda>c. c \<noteq> CHR '' '') (form_get form ''pan''))
                (strip (form_get form ''nombre_tarjeta'')) (strip (form_get form ''exp_mes''))
                (strip (form_get form ''exp_anio'')) sess bd = (r, sess', bd')"
    then obtain t where t: "calcular_totales_server_side cfg catalog sess = Inr t"
        "t_seats t \<noteq> []" "seleccion t \<noteq> []"
        "validar_tarjeta env (strip (form_get form ''email''))
                (filter (\<lambda>c. c \<noteq> CHR '' '') (form_get form ''pan''))
                (strip (form_get form ''nombre_tarjeta'')) (strip (form_get form ''exp_mes''))
                (strip (form_get form ''exp_anio'')) (strip (form_get form ''cvv'')) (total t) = []"
      and p: "pago_persistir env cfg now t (strip (form_get form ''email''))
                (filter (\<lambda>c. c \<noteq> CHR '' '') (form_get form ''pan''))
                (strip (form_get form ''nombre_tarjeta'')) (strip (form_get form ''exp_mes''))
                (strip (form_get form ''exp_anio'')) sess bd = (r, sess', bd')"
      by blast
    from persistir_outcome[OF p] show ?thesis
    proof
      assume "(\<exists>e. r = Raised e) \<and> sess' = sess \<and> bd' = bd"
      then have "\<not> is_ok r \<and> keys_kept sess sess' \<and> bd' = bd" by auto
      then show ?thesis by simp
    next
      assume "\<exists>m em ea res st' e.
           monto_cents_of (total t) = Inr m
           \<and> db_confirm_seats env now (hold_token sess) (showtime_key_of (seleccion t))
                (or_none (strip (form_get form ''email''))) (lastrowid (transacciones bd)) (asientos bd) = (res, st')
           \<and> asientos bd' = st'
           \<and> transacciones bd' = transacciones bd @
                [(fila_pendiente env now (strip (form_get form ''email'')) (filter (\<lambda>c. c \<noteq> CHR '' '') (form_get form ''pan'')) m em ea (lastrowid (transacciones bd)))\<lparr>estado := e\<rparr>]
           \<and> confirm_outcome res (lastrowid (transacciones bd)) e r sess sess'
           \<and> pago_confirmar env cfg now t (strip (form_get form ''email''))
                (strip (form_get form ''nombre_tarjeta''))
                (auth_code_of env now (filter (\<lambda>c. c \<noteq> CHR '' '') (form_get form ''pan'')))
                (lastrowid (transacciones bd)) sess
                (bd\<lparr>transacciones := transacciones bd @
                   [fila_pendiente env now (strip (form_get form ''email'')) (filter (\<lambda>c. c \<noteq> CHR '' '') (form_get form ''pan'')) m em ea (lastrowid (transacciones bd))]\<rparr>)
               = (r, sess', bd')"
      then obtain m em ea res st' e where
        f: "monto_cents_of (total t) = Inr m"
           "db_confirm_seats env now (hold_token sess) (showtime_key_of (seleccion t))
                (or_none (strip (form_get form ''email''))) (lastrowid (transacciones bd)) (asientos bd) = (res, st')"
           "asientos bd' = st'"
           "transacciones bd' = transacciones bd @
                [(fila_pendiente env now (strip (form_get form ''email'')) (filter (\<lambda>c. c \<noteq> CHR '' '') (form_get form ''pan'')) m em ea (lastrowid (transacciones bd)))\<lparr>estado := e\<rparr>]"
           "confirm_outcome res (lastrowid (transacciones bd)) e r sess sess'"
           "pago_confirmar env cfg now t (strip (form_get form ''email''))
                (strip (form_get form ''nombre_tarjeta''))
                (auth_code_of env now (filter (\<lambda>c. c \<noteq> CHR '' '') (form_get form ''pan'')))
                (lastrowid (transacciones bd)) sess
                (bd\<lparr>transacciones := transacciones bd @
                   [fila_pendiente env now (strip (form_get form ''email'')) (filter (\<lambda>c. c \<noteq> CHR '' '') (form_get form ''pan'')) m em ea (lastrowid (transacciones bd))]\<rparr>)
               = (r, sess', bd')"
        by blast
      let ?row = "fila_pendiente env now (strip (form_get form ''email'')) (filter (\<lambda>c. c \<noteq> CHR '' '') (form_get form ''pan'')) m em ea (lastrowid (transacciones bd))"
      have "monto_cents ?row = m \<and> trx_id ?row = lastrowid (transacciones bd) \<and> estado ?row = ''PENDIENTE''"
        by simp
      with t f show ?thesis by blast
    qed
  qed
qed

lemma confirm_outcome_ok:
  "confirm_outcome res tid e r sess sess' \<Longrightarrow> is_ok r \<Longrightarrow> e = ''APROBADO'' \<and> keys_removed sess'"
  by (cases r) (auto simp: confirm_outcome_def keys_removed_def split: sum.splits if_splits pyerror.splits)

lemma confirm_outcome_not_ok:
  "confirm_outcome res tid e r sess sess' \<Longrightarrow> \<not> is_ok r \<Longrightarrow> keys_kept sess sess'"
  by (cases r) (auto simp: confirm_outcome_def split: sum.splits if_splits pyerror.splits)

section \<open>The session after a payment request\<close>

text \<open>
  C8.  The handler removes the session keys \<open>seats\<close>, \<open>hold_token\<close> and \<open>combos\<close> exactly when
  it answers with the page of the approved payment, and then the transaction it has
  inserted is in state APROBADO; on every other return (missing selection, errors of the
  card validation, expired hold, seat conflict, an exception that escapes) the three
  keys are as they were before the request.
\<close>

theorem pago_session_keys:
  assumes "pago_post env cfg catalog now form sess bd = (r, sess', bd')"
  shows "(is_ok r \<longrightarrow> keys_removed sess'
             \<and> (\<exists>row. transacciones bd' = transacciones bd @ [row] \<and> estado row = ''APROBADO''))
       \<and> (\<not> is_ok r \<longrightarrow> keys_kept sess sess')"
proof -
  from post_outcome[OF assms] show ?thesis
  proof
    assume "\<not> is_ok r \<and> keys_kept sess sess' \<and> bd' = bd"
    then show ?thesis by simp
  next
    assume "\<exists>t m row res st' e.
           calcular_totales_server_side cfg catalog sess = Inr t
           \<and> t_seats t \<noteq> [] \<and> seleccion t \<noteq> []
           \<and> validar_tarjeta env (strip (form_get form ''email''))
                (filter (\<lambda>c. c \<noteq> CHR '' '') (form_get form ''pan''))
                (strip (form_get form ''nombre_tarjeta'')) (strip (form_get form ''exp_mes''))
                (strip (form_get form ''exp_anio'')) (strip (form_get form ''cvv'')) (total t) = []
           \<and> monto_cents_of (total t) = Inr m
           \<and> monto_cents row = m \<and> trx_id row = lastrowid (transacciones bd)
           \<and> estado row = ''PENDIENTE''
           \<and> db_confirm_seats env now (hold_token sess) (showtime_key_of (seleccion t))
                (or_none (strip (form_get form ''email''))) (lastrowid (transacciones bd))
                (asientos bd) = (res, st')
           \<and> asientos bd' = st'
           \<and> transacciones bd' = transacciones bd @ [row\<lparr>estado := e\<rparr>]
           \<and> confirm_outcome res (lastrowid (transacciones bd)) e r sess sess'
           \<and> (\<exists>email nombre auth.
                 pago_confirmar env cfg now t email nombre auth (lastrowid (transacciones bd)) sess
                   (bd\<lparr>transacciones := transacciones bd @ [row]\<rparr>) = (r, sess', bd'))"
    then obtain row res e where tr: "transacciones bd' = transacciones bd @ [row\<lparr>estado := e\<rparr>]"
      and k: "confirm_outcome res (lastrowid (transacciones bd)) e r sess sess'"
      by blast
    show ?thesis
    proof (cases "is_ok r")
      case True
      from confirm_outcome_ok[OF k True] tr True show ?thesis by auto
    next
      case False
      from confirm_outcome_not_ok[OF k False] False show ?thesis by simp
    qed
  qed
qed

theorem pago_session_keys_witness:
  "is_ok (Render_pago_ok 1 [''C7'', ''C8''])
   \<and> keys_removed (ejemplo_sesion\<lparr>seats := None, hold_token := None, combos := None\<rparr>)
   \<and> \<not> is_ok (Render_pago [''Tarjeta invalida''])
   \<and> keys_kept ejemplo_sesion ejemplo_sesion"
  using pago_session_keys[OF ejemplo_run] pago_session_keys[OF ejemplo_run_rechaza]
  by simp

lemma filas_nuevas_monto:
  assumes "row \<in> set (filas_nuevas bd (pago_post env cfg catalog now form sess bd))"
  shows "\<exists>t. calcular_totales_server_side cfg catalog sess = Inr t
            \<and> monto_cents_of (total t) = Inr (monto_cents row)"
proof -
  obtain r sess' bd' where p: "pago_post env cfg catalog now form sess bd = (r, sess', bd')"
    by (cases "pago_post env cfg catalog now form sess bd")
  from assms p have mem: "row \<in> set (drop (length (transacciones bd)) (transacciones bd'))"
    by (simp add: filas_nuevas_def)
  from post_outcome[OF p] show ?thesis
  proof
    assume "\<not> is_ok r \<and> keys_kept sess sess' \<and> bd' = bd"
    with mem show ?thesis by simp
  next
    assume "\<exists>t m row res st' e.
           calcular_totales_server_side cfg catalog sess = Inr t
           \<and> t_seats t \<noteq> [] \<and> seleccion t \<noteq> []
           \<and> validar_tarjeta env (strip (form_get form ''email''))
                (filter (\<lambda>c. c \<noteq> CHR '' '') (form_get form ''pan''))
                (strip (form_get form ''nombre_tarjeta'')) (strip (form_get form ''exp_mes''))
                (strip (form_get form ''exp_anio'')) (strip (form_get form ''cvv'')) (total t) = []
           \<and> monto_cents_of (total t) = Inr m
           \<and> monto_cents row = m \<and> trx_id row = lastrowid (transacciones bd)
           \<and> estado row = ''PENDIENTE''
           \<and> db_confirm_seats env now (hold_token sess) (showtime_key_of (seleccion t))
                (or_none (strip (form_get form ''email''))) (lastrowid (transacciones bd))
                (asientos bd) = (res, st')
           \<and> asientos bd' = st'
           \<and> transacciones bd' = transacciones bd @ [row\<lparr>estado := e\<rparr>]
           \<and> confirm_outcome res (lastrowid (transacciones bd)) e r sess sess'
           \<and> (\<exists>email nombre auth.
                 pago_confirmar env cfg now t email nombre auth (lastrowid (transacciones bd)) sess
                   (bd\<lparr>transacciones := transacciones bd @ [row]\<rparr>) = (r, sess', bd'))"
    then obtain t m row' e where t: "calcular_totales_server_side cfg catalog sess = Inr t"
      and m: "monto_cents_of (total t) = Inr m" "monto_cents row' = m"
      and tr: "transacciones bd' = transacciones bd @ [row'\<lparr>estado := e\<rparr>]"
      by blast
    from mem tr have "row = row'\<lparr>estado := e\<rparr>" by simp
    with m have "monto_cents_of (total t) = Inr (monto_cents row)" by simp
    with t show ?thesis by blast
  qed
qed

text \<open>
  C6.  The amount stored with a transaction is the one computed on the server from the
  session and the configuration: two POST requests on the same session, configuration and
  catalogue store the same \<open>monto_cents\<close>, whatever their forms hold (and whatever the card
  validation, the clock and the stored data are), and that amount is
  \<open>monto_cents_of\<close> of the server-side total.
\<close>

theorem monto_cents_server_side:
  assumes "r1 \<in> set (filas_nuevas bd1 (pago_post env1 cfg catalog now1 form1 sess bd1))"
      and "r2 \<in> set (filas_nuevas bd2 (pago_post env2 cfg catalog now2 form2 sess bd2))"
  shows "monto_cents r1 = monto_cents r2
       \<and> (\<exists>t. calcular_totales_server_side cfg catalog sess = Inr t
              \<and> monto_cents_of (total t) = Inr (monto_cents r1))"
proof -
  from filas_nuevas_monto[OF assms(1)] obtain t1 where
    t1: "calcular_totales_server_side cfg catalog sess = Inr t1"
        "monto_cents_of (total t1) = Inr (monto_cents r1)" by blast
  from filas_nuevas_monto[OF assms(2)] obtain t2 where
    t2: "calcular_totales_server_side cfg catalog sess = Inr t2"
        "monto_cents_of (total t2) = Inr (monto_cents r2)" by blast
  from t1 t2 have "monto_cents r1 = monto_cents r2" by simp
  with t1 show ?thesis by blast
qed

theorem monto_cents_server_side_witness:
  "ejemplo_fila \<in> set (filas_nuevas ejemplo_bd
      (pago_post ejemplo_env ejemplo_cfg ejemplo_catalogo 1200 ejemplo_form ejemplo_sesion ejemplo_bd))
   \<and> ejemplo_fila \<in> set (filas_nuevas ejemplo_bd
      (pago_post ejemplo_env ejemplo_cfg ejemplo_catalogo 1200 ejemplo_form_monto ejemplo_sesion ejemplo_bd))
   \<and> ejemplo_form ''monto'' \<noteq> ejemplo_form_monto ''monto''
   \<and> monto_cents ejemplo_fila = 500000"
proof -
  have e: "transacciones ejemplo_bd = []" by (simp add: ejemplo_bd_def)
  have a: "ejemplo_fila \<in> set (filas_nuevas ejemplo_bd
      (pago_post ejemplo_env ejemplo_cfg ejemplo_catalogo 1200 ejemplo_form ejemplo_sesion ejemplo_bd))"
    by (simp add: ejemplo_run filas_nuevas_def e)
  have b: "ejemplo_fila \<in> set (filas_nuevas ejemplo_bd
      (pago_post ejemplo_env ejemplo_cfg ejemplo_catalogo 1200 ejemplo_form_monto ejemplo_sesion ejemplo_bd))"
    by (simp add: ejemplo_run_monto filas_nuevas_def e)
  have c: "ejemplo_form ''monto'' \<noteq> ejemplo_form_monto ''monto''"
    by (simp add: ejemplo_form_def ejemplo_form_monto_def)
  from monto_cents_server_side[OF a b] a b c show ?thesis
    by (simp add: ejemplo_fila_def)
qed

section \<open>The states of a transaction\<close>

text \<open>
  C3, as the claim states it, fails on the code: the only statement that moves a
  transaction to another state is \<open>UPDATE transacciones SET estado=? WHERE id=?\<close>, which
  does not read the current state.  Applied to the approved transaction of the example it
  succeeds and stores RECHAZADA; the code has no InvalidTransition.
\<close>

theorem update_estado_overwrites_terminal:
  "estado ejemplo_fila = ''APROBADO''
   \<and> update_estado ''RECHAZADA'' 1 [ejemplo_fila] = [ejemplo_fila\<lparr>estado := ''RECHAZADA''\<rparr>]"
  by (simp add: update_estado_def ejemplo_fila_def)

text \<open>
  C3, amended.  A payment request changes no row of \<open>transacciones\<close> that was there before
  it, in whatever state that row is: the table after the request is the table before it,
  followed by at most one row, the one the request has inserted, in one of the states
  PENDIENTE, APROBADO and RECHAZADA.
\<close>

theorem pago_keeps_existing_transacciones:
  assumes "pago_post env cfg catalog now form sess bd = (r, sess', bd')"
  shows "take (length (transacciones bd)) (transacciones bd') = transacciones bd
       \<and> (transacciones bd' = transacciones bd
          \<or> (\<exists>row. transacciones bd' = transacciones bd @ [row]
                   \<and> trx_id row \<notin> trx_id ` set (transacciones bd)
                   \<and> estado row \<in> {''PENDIENTE'', ''APROBADO'', ''RECHAZADA''}))"
proof -
  from post_outcome[OF assms] show ?thesis
  proof
    assume "\<not> is_ok r \<and> keys_kept sess sess' \<and> bd' = bd"
    then show ?thesis by simp
  next
    assume "\<exists>t m row res st' e.
           calcular_totales_server_side cfg catalog sess = Inr t
           \<and> t_seats t \<noteq> [] \<and> seleccion t \<noteq> []
           \<and> validar_tarjeta env (strip (form_get form ''email''))
                (filter (\<lambda>c. c \<noteq> CHR '' '') (form_get form ''pan''))
                (strip (form_get form ''nombre_tarjeta'')) (strip (form_get form ''exp_mes''))
                (strip (form_get form ''exp_anio'')) (strip (form_get form ''cvv'')) (total t) = []
           \<and> monto_cents_of (total t) = Inr m
           \<and> monto_cents row = m \<and> trx_id row = lastrowid (transacciones bd)
           \<and> estado row = ''PENDIENTE''
           \<and> db_confirm_seats env now (hold_token sess) (showtime_key_of (seleccion t))
                (or_none (strip (form_get form ''email''))) (lastrowid (transacciones bd))
                (asientos bd) = (res, st')
           \<and> asientos bd' = st'
           \<and> transacciones bd' = transacciones bd @ [row\<lparr>estado := e\<rparr>]
           \<and> confirm_outcome res (lastrowid (transacciones bd)) e r sess sess'
           \<and> (\<exists>email nombre auth.
                 pago_confirmar env cfg now t email nombre auth (lastrowid (transacciones bd)) sess
                   (bd\<lparr>transacciones := transacciones bd @ [row]\<rparr>) = (r, sess', bd'))"
    then obtain row res e where id: "trx_id row = lastrowid (transacciones bd)"
      and tr: "transacciones bd' = transacciones bd @ [row\<lparr>estado := e\<rparr>]"
      and k: "confirm_outcome res (lastrowid (transacciones bd)) e r sess sess'"
      by blast
    from k have e: "e \<in> {''PENDIENTE'', ''APROBADO'', ''RECHAZADA''}"
      by (auto simp: confirm_outcome_def split: sum.splits if_splits pyerror.splits)
    have fresh: "trx_id (row\<lparr>estado := e\<rparr>) \<notin> trx_id ` set (transacciones bd)"
      using lastrowid_fresh[of _ "transacciones bd"] id by fastforce
    from tr e fresh show ?thesis by simp
  qed
qed

theorem pago_keeps_existing_transacciones_witness:
  "take (length (transacciones ejemplo_bd_previa))
        [ejemplo_fila_previa, ejemplo_fila\<lparr>trx_id := 8\<rparr>] = [ejemplo_fila_previa]
   \<and> estado ejemplo_fila_previa = ''RECHAZADA''
   \<and> estado (ejemplo_fila\<lparr>trx_id := 8\<rparr>) = ''APROBADO''"
  using pago_keeps_existing_transacciones[OF ejemplo_run_previa]
  by (simp add: ejemplo_bd_previa_def ejemplo_fila_previa_def ejemplo_fila_def)

section \<open>The transaction and the card validation\<close>

text \<open>
  C4, as the claim states it, fails on the code: the card is validated before the
  transaction is inserted, and a request whose validation reports errors returns with the
  database as it was.  In the example with a validation that rejects the card, the table
  of transactions is empty before the request and after it.
\<close>

theorem pago_validation_failure_no_transaction:
  "transacciones ejemplo_bd = []
   \<and> pago_post ejemplo_env_rechaza ejemplo_cfg ejemplo_catalogo 1200 ejemplo_form
        ejemplo_sesion ejemplo_bd
      = (Render_pago [''Tarjeta invalida''], ejemplo_sesion, ejemplo_bd)"
  by (simp add: ejemplo_run_rechaza) (simp add: ejemplo_bd_def)

lemma confirm_outcome_estado:
  "confirm_outcome res tid e r sess sess' \<Longrightarrow> e \<in> {''PENDIENTE'', ''APROBADO'', ''RECHAZADA''}"
  by (auto simp: confirm_outcome_def split: sum.splits if_splits pyerror.splits)

lemma confirmar_row:
  assumes c: "pago_confirmar env cfg now t email n auth (lastrowid (transacciones bd)) sess
                (bd\<lparr>transacciones := transacciones bd @ [row]\<rparr>) = (r, sess', bd')"
      and id: "trx_id row = lastrowid (transacciones bd)"
      and e0: "estado row = ''PENDIENTE''"
  shows "\<exists>e. e \<in> {''PENDIENTE'', ''APROBADO'', ''RECHAZADA''}
           \<and> transacciones bd' = transacciones bd @ [row\<lparr>estado := e\<rparr>]"
proof -
  let ?bd1 = "bd\<lparr>transacciones := transacciones bd @ [row]\<rparr>"
  from confirmar_cases[OF c] obtain res e where
    tr0: "transacciones bd' =
       (if e = ''PENDIENTE'' then transacciones ?bd1
        else update_estado e (lastrowid (transacciones bd)) (transacciones ?bd1))"
    and k: "confirm_outcome res (lastrowid (transacciones bd)) e r sess sess'"
    by blast
  from confirm_outcome_estado[OF k] have mem: "e \<in> {''PENDIENTE'', ''APROBADO'', ''RECHAZADA''}" .
  have upd: "update_estado e (lastrowid (transacciones bd)) (transacciones bd @ [row])
               = transacciones bd @ [row\<lparr>estado := e\<rparr>]"
    using id by (rule update_estado_fresh)
  have same: "row\<lparr>estado := ''PENDIENTE''\<rparr> = row" using e0 by simp
  from tr0 have "transacciones bd' = transacciones bd @ [row\<lparr>estado := e\<rparr>]"
    using upd same by (cases "e = ''PENDIENTE''") simp_all
  with mem show ?thesis by blast
qed

lemma persistir_unchanged:
  assumes "pago_persistir env cfg now t email pan n mes anio sess bd = (r, sess', bd')"
      and "bd' \<noteq> bd"
  shows "\<exists>m em ea. monto_cents_of (total t) = Inr m \<and> int_or_none mes = Inr em
           \<and> int_or_none anio = Inr ea
           \<and> insert_raises env (transacciones bd)
               (fila_pendiente env now email pan m em ea (lastrowid (transacciones bd))) = None"
  using assms
  by (auto simp: pago_persistir_def Let_def split: sum.splits option.splits)

text \<open>
  C4, amended.  The handler inserts a transaction exactly when the request has a
  selection, the card validation reports no error, the amount and the two expiry fields
  convert to integers, and the INSERT raises nothing (integers within 64 bits, a row the
  table takes).  Then the row is inserted in state PENDIENTE before the seats are
  confirmed: the rest of the handler, which alone reaches the seat tables, runs on the
  database that already holds the row, and the row is in the table after the request
  whatever that rest does, in state APROBADO or RECHAZADA, or still PENDIENTE when the
  confirmation raises another exception.  A request without a selection, or whose card validation
  reports errors, leaves the database as it was, and so does every request that changes
  no row: there is no transaction, PENDIENTE or RECHAZADA, for a failed validation.
\<close>

theorem pago_pendiente_before_confirm:
  assumes run: "pago_post env cfg catalog now form sess bd = (r, sess', bd')"
      and t: "calcular_totales_server_side cfg catalog sess = Inr t"
  shows "(t_seats t = [] \<or> seleccion t = []
            \<or> validar_tarjeta env (strip (form_get form ''email''))
                 (filter (\<lambda>c. c \<noteq> CHR '' '') (form_get form ''pan''))
                 (strip (form_get form ''nombre_tarjeta'')) (strip (form_get form ''exp_mes''))
                 (strip (form_get form ''exp_anio'')) (strip (form_get form ''cvv''))
                 (total t) \<noteq> []
          \<longrightarrow> bd' = bd)
       \<and> (t_seats t \<noteq> [] \<and> seleccion t \<noteq> []
            \<and> validar_tarjeta env (strip (form_get form ''email''))
                 (filter (\<lambda>c. c \<noteq> CHR '' '') (form_get form ''pan''))
                 (strip (form_get form ''nombre_tarjeta'')) (strip (form_get form ''exp_mes''))
                 (strip (form_get form ''exp_anio'')) (strip (form_get form ''cvv''))
                 (total t) = []
            \<and> monto_cents_of (total t) = Inr m
            \<and> int_or_none (strip (form_get form ''exp_mes'')) = Inr em
            \<and> int_or_none (strip (form_get form ''exp_anio'')) = Inr ea
            \<and> row = fila_pendiente env now (strip (form_get form ''email''))
                      (filter (\<lambda>c. c \<noteq> CHR '' '') (form_get form ''pan'')) m em ea
                      (lastrowid (transacciones bd))
            \<and> insert_raises env (transacciones bd) row = None
          \<longrightarrow> estado row = ''PENDIENTE''
              \<and> pago_confirmar env cfg now t (strip (form_get form ''email''))
                   (strip (form_get form ''nombre_tarjeta''))
                   (auth_code_of env now (filter (\<lambda>c. c \<noteq> CHR '' '') (form_get form ''pan'')))
                   (trx_id row) sess (bd\<lparr>transacciones := transacciones bd @ [row]\<rparr>)
                 = (r, sess', bd')
              \<and> (\<exists>e. e \<in> {''PENDIENTE'', ''APROBADO'', ''RECHAZADA''}
                     \<and> transacciones bd' = transacciones bd @ [row\<lparr>estado := e\<rparr>]))
       \<and> (bd' \<noteq> bd
          \<longrightarrow> t_seats t \<noteq> [] \<and> seleccion t \<noteq> []
              \<and> validar_tarjeta env (strip (form_get form ''email''))
                   (filter (\<lambda>c. c \<noteq> CHR '' '') (form_get form ''pan''))
                   (strip (form_get form ''nombre_tarjeta'')) (strip (form_get form ''exp_mes''))
                   (strip (form_get form ''exp_anio'')) (strip (form_get form ''cvv''))
                   (total t) = []
              \<and> (\<exists>m em ea. monto_cents_of (total t) = Inr m
                    \<and> int_or_none (strip (form_get form ''exp_mes'')) = Inr em
                    \<and> int_or_none (strip (form_get form ''exp_anio'')) = Inr ea
                    \<and> insert_raises env (transacciones bd)
                         (fila_pendiente env now (strip (form_get form ''email''))
                            (filter (\<lambda>c. c \<noteq> CHR '' '') (form_get form ''pan'')) m em ea
                            (lastrowid (transacciones bd))) = None))"
proof (rule conjI [OF _ conjI]; rule impI)
  assume "t_seats t = [] \<or> seleccion t = []
            \<or> validar_tarjeta env (strip (form_get form ''email''))
                 (filter (\<lambda>c. c \<noteq> CHR '' '') (form_get form ''pan''))
                 (strip (form_get form ''nombre_tarjeta'')) (strip (form_get form ''exp_mes''))
                 (strip (form_get form ''exp_anio'')) (strip (form_get form ''cvv''))
                 (total t) \<noteq> []"
  then show "bd' = bd"
    using run t by (auto simp: pago_post_def Let_def split: if_splits)
next
  let ?email = "strip (form_get form ''email'')"
  let ?pan = "filter (\<lambda>c. c \<noteq> CHR '' '') (form_get form ''pan'')"
  let ?nombre = "strip (form_get form ''nombre_tarjeta'')"
  let ?mes = "strip (form_get form ''exp_mes'')"
  let ?anio = "strip (form_get form ''exp_anio'')"
  let ?cvv = "strip (form_get form ''cvv'')"
  assume h: "t_seats t \<noteq> [] \<and> seleccion t \<noteq> []
            \<and> validar_tarjeta env ?email ?pan ?nombre ?mes ?anio ?cvv (total t) = []
            \<and> monto_cents_of (total t) = Inr m
            \<and> int_or_none ?mes = Inr em
            \<and> int_or_none ?anio = Inr ea
            \<and> row = fila_pendiente env now ?email ?pan m em ea (lastrowid (transacciones bd))
            \<and> insert_raises env (transacciones bd) row = None"
  then have sel: "t_seats t \<noteq> []" "seleccion t \<noteq> []"
    and val: "validar_tarjeta env ?email ?pan ?nombre ?mes ?anio ?cvv (total t) = []"
    and m: "monto_cents_of (total t) = Inr m"
    and em: "int_or_none ?mes = Inr em" and ea: "int_or_none ?anio = Inr ea"
    and row: "row = fila_pendiente env now ?email ?pan m em ea (lastrowid (transacciones bd))"
    and ins: "insert_raises env (transacciones bd) row = None"
    by blast+
  from row have id: "trx_id row = lastrowid (transacciones bd)"
    and e0: "estado row = ''PENDIENTE''" by simp_all
  have p: "pago_post env cfg catalog now form sess bd
             = pago_persistir env cfg now t ?email ?pan ?nombre ?mes ?anio sess bd"
    using t sel val by (simp add: pago_post_def Let_def)
  have "pago_persistir env cfg now t ?email ?pan ?nombre ?mes ?anio sess bd
          = pago_confirmar env cfg now t ?email ?nombre (auth_code_of env now ?pan)
              (lastrowid (transacciones bd)) sess
              (bd\<lparr>transacciones := transacciones bd @ [row]\<rparr>)"
    using m em ea ins by (simp add: pago_persistir_def Let_def row)
  with p run have c: "pago_confirmar env cfg now t ?email ?nombre (auth_code_of env now ?pan)
              (lastrowid (transacciones bd)) sess
              (bd\<lparr>transacciones := transacciones bd @ [row]\<rparr>) = (r, sess', bd')"
    by simp
  from confirmar_row[OF c id e0] c e0 id
  show "estado row = ''PENDIENTE''
      \<and> pago_confirmar env cfg now t ?email ?nombre (auth_code_of env now ?pan)
           (trx_id row) sess (bd\<lparr>transacciones := transacciones bd @ [row]\<rparr>) = (r, sess', bd')
      \<and> (\<exists>e. e \<in> {''PENDIENTE'', ''APROBADO'', ''RECHAZADA''}
             \<and> transacciones bd' = transacciones bd @ [row\<lparr>estado := e\<rparr>])"
    by simp
next
  let ?email = "strip (form_get form ''email'')"
  let ?pan = "filter (\<lambda>c. c \<noteq> CHR '' '') (form_get form ''pan'')"
  let ?nombre = "strip (form_get form ''nombre_tarjeta'')"
  let ?mes = "strip (form_get form ''exp_mes'')"
  let ?anio = "strip (form_get form ''exp_anio'')"
  let ?cvv = "strip (form_get form ''cvv'')"
  assume ne: "bd' \<noteq> bd"
  from post_cases[OF run] ne t
  have sel: "t_seats t \<noteq> [] \<and> seleccion t \<noteq> []
          \<and> validar_tarjeta env ?email ?pan ?nombre ?mes ?anio ?cvv (total t) = []"
    and p: "pago_persistir env cfg now t ?email ?pan ?nombre ?mes ?anio sess bd = (r, sess', bd')"
    by auto
  from persistir_unchanged[OF p ne] sel
  show "t_seats t \<noteq> [] \<and> seleccion t \<noteq> []
      \<and> validar_tarjeta env ?email ?pan ?nombre ?mes ?anio ?cvv (total t) = []
      \<and> (\<exists>m em ea. monto_cents_of (total t) = Inr m
            \<and> int_or_none ?mes = Inr em \<and> int_or_none ?anio = Inr ea
            \<and> insert_raises env (transacciones bd)
                 (fila_pendiente env now ?email ?pan m em ea (lastrowid (transacciones bd))) = None)"
    by simp
qed

lemma ejemplo_campos:
  "strip (form_get ejemplo_form ''email'') = ''ana@example.com''"
  "filter (\<lambda>c. c \<noteq> CHR '' '') (form_get ejemplo_form ''pan'') = ''4111111111111111''"
  "strip (form_get ejemplo_form ''nombre_tarjeta'') = ''ANA PEREZ''"
  "strip (form_get ejemplo_form ''exp_mes'') = ''12''"
  "strip (form_get ejemplo_form ''exp_anio'') = ''2030''"
  "strip (form_get ejemplo_form ''cvv'') = ''123''"
  by (simp_all add: ejemplo_form_def form_get_def strip_def is_space_def)

lemma ejemplo_fila_pendiente:
  "fila_pendiente ejemplo_env 1200 ''ana@example.com'' ''4111111111111111'' 500000 (Some 12)
     (Some 2030) (lastrowid (transacciones ejemplo_bd)) = ejemplo_fila\<lparr>estado := ''PENDIENTE''\<rparr>"
  by (simp add: fila_pendiente_def ejemplo_env_def ejemplo_fila_def ejemplo_bd_def lastrowid_def
      or_none_def last4_of_def auth_code_of_def)

theorem pago_pendiente_before_confirm_witness:
  "pago_post ejemplo_env ejemplo_cfg ejemplo_catalogo 1200 ejemplo_form ejemplo_sesion ejemplo_bd =
    (Render_pago_ok 1 [''C7'', ''C8''],
     ejemplo_sesion\<lparr>seats := None, hold_token := None, combos := None\<rparr>,
     \<lparr> transacciones = [ejemplo_fila], asientos = \<lparr> holds = [], reservas = ejemplo_reservas \<rparr> \<rparr>)
   \<and> insert_raises ejemplo_env (transacciones ejemplo_bd)
        (ejemplo_fila\<lparr>estado := ''PENDIENTE''\<rparr>) = None
   \<and> (\<exists>e. e \<in> {''PENDIENTE'', ''APROBADO'', ''RECHAZADA''}
          \<and> [ejemplo_fila] =
              transacciones ejemplo_bd @ [ejemplo_fila\<lparr>estado := ''PENDIENTE'', estado := e\<rparr>])"
proof -
  let ?t = "\<lparr> total_entradas = Fin 500000 (- 2), total_combos = Fin 0 (- 2),
           total = Fin 500000 (- 2), combos_sel = [], t_seats = [''C7'', ''C8''],
           seleccion = [(''id'', ''5''), (''fecha'', ''2025-10-15''), (''hora'', ''20:00''),
                        (''sala'', ''Sala 1'')] \<rparr>"
  have ins: "insert_raises ejemplo_env (transacciones ejemplo_bd)
        (ejemplo_fila\<lparr>estado := ''PENDIENTE''\<rparr>) = None"
    by (simp add: insert_raises_def fits_int64_def ejemplo_env_def ejemplo_fila_def)
  have val: "validar_tarjeta ejemplo_env ''ana@example.com'' ''4111111111111111'' ''ANA PEREZ''
               ''12'' ''2030'' ''123'' (Fin 500000 (- 2)) = []"
    by (simp add: ejemplo_env_def)
  have conv: "int_or_none ''12'' = Inr (Some 12)" "int_or_none ''2030'' = Inr (Some 2030)"
    by (simp_all add: int_or_none_def py_eval)
  from pago_pendiente_before_confirm[OF ejemplo_run ejemplo_totales,
      of 500000 "Some 12" "Some 2030" "ejemplo_fila\<lparr>estado := ''PENDIENTE''\<rparr>"]
  have "\<exists>e. e \<in> {''PENDIENTE'', ''APROBADO'', ''RECHAZADA''}
          \<and> transacciones \<lparr> transacciones = [ejemplo_fila],
                asientos = \<lparr> holds = [], reservas = ejemplo_reservas \<rparr> \<rparr> =
            transacciones ejemplo_bd @ [ejemplo_fila\<lparr>estado := ''PENDIENTE'', estado := e\<rparr>]"
    using ins val conv ejemplo_monto
    by (simp add: ejemplo_campos ejemplo_fila_pendiente)
  with ejemplo_run ins show ?thesis by simp
qed

lemma calcular_seleccion:
  "calcular_totales_server_side cfg catalog sess = Inr t \<Longrightarrow> seleccion t = seleccion_from_session sess"
  by (auto simp: calcular_totales_server_side_def Let_def split: sum.splits)

lemma confirm_seats_cases:
  "confirm_seats now token key email tid st = (res, st') \<Longrightarrow>
     (res = Inr [] \<and> reservas st' = reservas st)
   \<or> ((\<exists>msg. res = Inl (ValueError msg)) \<and> st' = st)
   \<or> (\<exists>h. live_hold now token key st = Some h \<and> h_seats h \<noteq> [] \<and> res = Inr (h_seats h)
          \<and> holds st' = filter (\<lambda>h'. h_token h' \<noteq> h_token h) (holds st)
          \<and> reservas st' = reservas st @
               map (\<lambda>x. \<lparr> r_key = key, r_seat = x, r_transaction_id = tid,
                           r_usuario_email = email, r_confirmed_at = now \<rparr>) (h_seats h))"
  by (auto simp: confirm_seats_def commit_def release_def split: option.splits if_splits)


lemma ejemplo_run_vencido:
  "pago_post ejemplo_env ejemplo_cfg ejemplo_catalogo 1650 ejemplo_form ejemplo_sesion ejemplo_bd =
    (Render_pago [''Los asientos se liberaron por tiempo. Volve a seleccionarlos.''],
     flash ''Tus asientos ya no estaban retenidos. Por favor, volve a elegirlos.'' ''warning''
       ejemplo_sesion,
     \<lparr> transacciones = [ejemplo_fila\<lparr>estado := ''RECHAZADA''\<rparr>],
       asientos = \<lparr> holds = [ejemplo_hold], reservas = [] \<rparr> \<rparr>)"
  apply (simp add: pago_post_def ejemplo_totales)
  apply (simp add: ejemplo_form_def form_get_def strip_def is_space_def)
  apply (simp add: ejemplo_env_def pago_persistir_def ejemplo_monto int_or_none_def py_eval
      lastrowid_def ejemplo_bd_def insert_raises_def fits_int64_def fila_pendiente_def)
  apply (simp add: pago_confirmar_def showtime_key_of_def or_none_def fila_pendiente_def
      auth_code_of_def last4_of_def)
  apply (simp add: confirm_seats_def live_hold_def get_hold_def unexpired_def commit_def
      seats_confirmed_def release_def ejemplo_hold_def ejemplo_key_def update_estado_def
      pago_comprobante_def ejemplo_sesion_def ejemplo_fila_def ejemplo_reservas_def)
  done

section \<open>The outcome of a confirmation\<close>

text \<open>
  C2.  With the seat confirmation of the specification, every request that creates a
  transaction ends in one of two ways.  Either the transaction is APROBADO and the ledger
  has gained exactly the seats of the live hold of the token, one reservation per seat
  under the id of the transaction; or the transaction is RECHAZADA, the response is the
  payment form with its error, and the ledger is what it was.  In particular a missing
  or expired hold (the empty result) and a seat conflict (the ValueError) leave the
  transaction RECHAZADA, never PENDIENTE, and commit no seat.
\<close>

theorem confirm_attempt_terminal:
  assumes env: "db_confirm_seats env = confirm_seats"
      and run: "pago_post env cfg catalog now form sess bd = (r, sess', bd')"
  shows "bd' = bd
       \<or> (\<exists>row e. transacciones bd' = transacciones bd @ [row\<lparr>estado := e\<rparr>]
            \<and> trx_id row = lastrowid (transacciones bd)
            \<and> ((e = ''APROBADO''
                 \<and> (\<exists>h. live_hold now (hold_token sess)
                           (showtime_key_of (seleccion_from_session sess)) (asientos bd) = Some h
                      \<and> h_seats h \<noteq> []
                      \<and> reservas (asientos bd') = reservas (asientos bd) @
                          map (\<lambda>x. \<lparr> r_key = showtime_key_of (seleccion_from_session sess),
                                      r_seat = x, r_transaction_id = trx_id row,
                                      r_usuario_email = or_none (strip (form_get form ''email'')),
                                      r_confirmed_at = now \<rparr>) (h_seats h)))
               \<or> (e = ''RECHAZADA'' \<and> is_render_pago r
                   \<and> reservas (asientos bd') = reservas (asientos bd))))"
proof -
  from post_outcome[OF run] show ?thesis
  proof
    assume "\<not> is_ok r \<and> keys_kept sess sess' \<and> bd' = bd"
    then show ?thesis by simp
  next
    assume "\<exists>t m row res st' e.
           calcular_totales_server_side cfg catalog sess = Inr t
           \<and> t_seats t \<noteq> [] \<and> seleccion t \<noteq> []
           \<and> validar_tarjeta env (strip (form_get form ''email''))
                (filter (\<lambda>c. c \<noteq> CHR '' '') (form_get form ''pan''))
                (strip (form_get form ''nombre_tarjeta'')) (strip (form_get form ''exp_mes''))
                (strip (form_get form ''exp_anio'')) (strip (form_get form ''cvv'')) (total t) = []
           \<and> monto_cents_of (total t) = Inr m
           \<and> monto_cents row = m \<and> trx_id row = lastrowid (transacciones bd)
           \<and> estado row = ''PENDIENTE''
           \<and> db_confirm_seats env now (hold_token sess) (showtime_key_of (seleccion t))
                (or_none (strip (form_get form ''email''))) (lastrowid (transacciones bd))
                (asientos bd) = (res, st')
           \<and> asientos bd' = st'
           \<and> transacciones bd' = transacciones bd @ [row\<lparr>estado := e\<rparr>]
           \<and> confirm_outcome res (lastrowid (transacciones bd)) e r sess sess'
           \<and> (\<exists>email nombre auth.
                 pago_confirmar env cfg now t email nombre auth (lastrowid (transacciones bd)) sess
                   (bd\<lparr>transacciones := transacciones bd @ [row]\<rparr>) = (r, sess', bd'))"
    then obtain t row res st' e where
      t: "calcular_totales_server_side cfg catalog sess = Inr t"
      and id: "trx_id row = lastrowid (transacciones bd)"
      and c: "db_confirm_seats env now (hold_token sess) (showtime_key_of (seleccion t))
                (or_none (strip (form_get form ''email''))) (lastrowid (transacciones bd))
                (asientos bd) = (res, st')"
      and a: "asientos bd' = st'"
      and tr: "transacciones bd' = transacciones bd @ [row\<lparr>estado := e\<rparr>]"
      and k: "confirm_outcome res (lastrowid (transacciones bd)) e r sess sess'"
      by blast
    let ?key = "showtime_key_of (seleccion_from_session sess)"
    let ?email = "or_none (strip (form_get form ''email''))"
    from c env calcular_seleccion[OF t]
    have c': "confirm_seats now (hold_token sess) ?key ?email (trx_id row) (asientos bd) = (res, st')"
      using id by simp
    have "(e = ''APROBADO''
            \<and> (\<exists>h. live_hold now (hold_token sess) ?key (asientos bd) = Some h
                 \<and> h_seats h \<noteq> []
                 \<and> reservas st' = reservas (asientos bd) @
                     map (\<lambda>x. \<lparr> r_key = ?key, r_seat = x, r_transaction_id = trx_id row,
                                 r_usuario_email = ?email, r_confirmed_at = now \<rparr>) (h_seats h)))
          \<or> (e = ''RECHAZADA'' \<and> is_render_pago r \<and> reservas st' = reservas (asientos bd))"
      using confirm_seats_cases[OF c'] k
      by (auto simp: confirm_outcome_def)
    with tr id a show ?thesis by blast
  qed
qed

theorem confirm_attempt_terminal_witness:
  "db_confirm_seats ejemplo_env = confirm_seats
   \<and> live_hold 1200 (hold_token ejemplo_sesion)
        (showtime_key_of (seleccion_from_session ejemplo_sesion)) (asientos ejemplo_bd)
       = Some ejemplo_hold
   \<and> live_hold 1650 (hold_token ejemplo_sesion)
        (showtime_key_of (seleccion_from_session ejemplo_sesion)) (asientos ejemplo_bd) = None
   \<and> estado ejemplo_fila = ''APROBADO''
   \<and> [ejemplo_fila\<lparr>estado := ''RECHAZADA''\<rparr>] \<noteq> transacciones ejemplo_bd"
proof -
  have e: "db_confirm_seats ejemplo_env = confirm_seats" by (simp add: ejemplo_env_def)
  have l: "live_hold 1200 (hold_token ejemplo_sesion)
        (showtime_key_of (seleccion_from_session ejemplo_sesion)) (asientos ejemplo_bd)
       = Some ejemplo_hold"
    "live_hold 1650 (hold_token ejemplo_sesion)
        (showtime_key_of (seleccion_from_session ejemplo_sesion)) (asientos ejemplo_bd) = None"
    by (simp_all add: live_hold_def get_hold_def unexpired_def showtime_key_of_def
        seleccion_from_session_def ejemplo_sesion_def ejemplo_bd_def ejemplo_hold_def ejemplo_key_def)
  from confirm_attempt_terminal[OF e ejemplo_run] confirm_attempt_terminal[OF e ejemplo_run_vencido]
  show ?thesis using e l by (simp add: ejemplo_fila_def ejemplo_bd_def)
qed

section \<open>No double booking\<close>

lemma ndb_claims: "no_double_booking now st \<Longrightarrow> no_duplicate_claims now st"
  unfolding no_double_booking_def no_duplicate_claims_def by blast

lemma ndc_later: "no_duplicate_claims now st \<Longrightarrow> now \<le> now' \<Longrightarrow> no_duplicate_claims now' st"
  unfolding no_duplicate_claims_def unexpired_def
  by (intro conjI ballI impI; (elim conjE)?) (simp, simp, force, simp)

lemma ndc_filter:
  assumes "no_duplicate_claims now st"
  shows "no_duplicate_claims now (st\<lparr>holds := filter P (holds st)\<rparr>)"
  using assms unfolding no_duplicate_claims_def
  by (auto simp: distinct_map_filter)

lemma ndc_release: "no_duplicate_claims now st \<Longrightarrow> no_duplicate_claims now (release tok st)"
  unfolding release_def by (rule ndc_filter)

lemma ndc_purge:
  "no_duplicate_claims now st \<Longrightarrow> no_duplicate_claims now (snd (purge_expired_holds now st))"
  unfolding purge_expired_holds_def by (simp add: ndc_filter)

lemma ndc_add:
  assumes "no_duplicate_claims now st"
      and "h_token h \<notin> h_token ` set (holds st)"
      and "distinct (h_seats h)"
      and "\<forall>h' \<in> set (holds st). unexpired now h' \<and> h_key h' = h_key h
             \<longrightarrow> set (h_seats h') \<inter> set (h_seats h) = {}"
  shows "no_duplicate_claims now (st\<lparr>holds := holds st @ [h]\<rparr>)"
  using assms unfolding no_duplicate_claims_def
  by (auto simp: Int_commute)

lemma held_by_others_iff:
  "x \<in> set (seats_held_by_others now tok key st) \<longleftrightarrow>
     (\<exists>h \<in> set (holds st). unexpired now h \<and> h_key h = key \<and> h_token h \<noteq> tok \<and> x \<in> set (h_seats h))"
  by (auto simp: seats_held_by_others_def)

lemma ndc_place:
  assumes inv: "no_duplicate_claims now st"
      and pl: "place now tok key ss ttl st = Inr (h, st')"
  shows "no_duplicate_claims now st'"
proof -
  let ?st1 = "st\<lparr>holds := filter (\<lambda>h'. h_token h' \<noteq> tok) (holds st)\<rparr>"
  let ?h = "\<lparr> h_token = tok, h_key = key, h_seats = remdups ss,
                        h_created_at = now, h_expires_at = now + ttl \<rparr>"
  from pl have free: "\<forall>x \<in> set ss. x \<notin> set (seats_held_by_others now tok key st)"
    and st': "st' = ?st1\<lparr>holds := holds ?st1 @ [?h]\<rparr>"
    by (auto simp: place_def Let_def list_ex_iff split: if_splits)
  have 1: "no_duplicate_claims now ?st1" using inv by (rule ndc_filter)
  have 2: "h_token ?h \<notin> h_token ` set (holds ?st1)" by auto
  have 3: "distinct (h_seats ?h)" by simp
  have 4: "\<forall>h' \<in> set (holds ?st1). unexpired now h' \<and> h_key h' = h_key ?h
             \<longrightarrow> set (h_seats h') \<inter> set (h_seats ?h) = {}"
    using free by (auto simp: held_by_others_iff)
  show ?thesis unfolding st' by (rule ndc_add[OF 1 2 3 4])
qed

lemma ndc_hold:
  "no_duplicate_claims now st \<Longrightarrow> hold cfg now tok key ss st = Inr (h, st') \<Longrightarrow>
   no_duplicate_claims now st'"
  by (auto simp: hold_def split: if_splits dest: ndc_place)

lemma get_hold_mem: "get_hold tok st = Some h \<Longrightarrow> h \<in> set (holds st) \<and> h_token h = tok"
  by (auto simp: get_hold_def find_Some_iff)

lemma live_hold_mem:
  "live_hold now token key st = Some h \<Longrightarrow> h \<in> set (holds st) \<and> unexpired now h \<and> h_key h = key"
  by (auto simp: live_hold_def split: option.splits if_splits dest: get_hold_mem)

lemma commit_hold_cases:
  "snd (commit_hold now h tid email st) = st
   \<or> ((\<forall>x \<in> set (h_seats h). x \<notin> set (seats_confirmed (h_key h) st))
      \<and> snd (commit_hold now h tid email st) =
          release (h_token h)
            (st\<lparr>reservas := reservas st @
                map (\<lambda>x. \<lparr> r_key = h_key h, r_seat = x, r_transaction_id = tid,
                            r_usuario_email = email, r_confirmed_at = now \<rparr>) (h_seats h)\<rparr>))"
  by (auto simp: commit_hold_def commit_def list_ex_iff)

lemma ndc_commit_hold:
  assumes inv: "no_duplicate_claims now st" and ds: "distinct (h_seats h)"
  shows "no_duplicate_claims now (snd (commit_hold now h tid email st))"
proof -
  let ?new = "map (\<lambda>x. \<lparr> r_key = h_key h, r_seat = x, r_transaction_id = tid,
                              r_usuario_email = email, r_confirmed_at = now \<rparr>) (h_seats h)"
  from commit_hold_cases[of now h tid email st] show ?thesis
  proof
    assume "snd (commit_hold now h tid email st) = st"
    with inv show ?thesis by simp
  next
    assume a: "(\<forall>x \<in> set (h_seats h). x \<notin> set (seats_confirmed (h_key h) st))
      \<and> snd (commit_hold now h tid email st) =
          release (h_token h) (st\<lparr>reservas := reservas st @ ?new\<rparr>)"
    then have free: "\<forall>x \<in> set (h_seats h). x \<notin> set (seats_confirmed (h_key h) st)"
      and eq: "snd (commit_hold now h tid email st) =
          release (h_token h) (st\<lparr>reservas := reservas st @ ?new\<rparr>)" by blast+
    have dr: "distinct (map (\<lambda>r. (r_key r, r_seat r)) (reservas st))"
      using inv unfolding no_duplicate_claims_def by blast
    have n: "map (\<lambda>r. (r_key r, r_seat r)) ?new = map (\<lambda>x. (h_key h, x)) (h_seats h)"
      by (simp add: comp_def)
    have dn: "distinct (map (\<lambda>x. (h_key h, x)) (h_seats h))"
      using ds by (simp add: distinct_map inj_on_def)
    have dj: "set (map (\<lambda>r. (r_key r, r_seat r)) (reservas st))
                \<inter> set (map (\<lambda>x. (h_key h, x)) (h_seats h)) = {}"
      using free by (fastforce simp: seats_confirmed_def)
    have m: "map (\<lambda>r. (r_key r, r_seat r)) (reservas st @ ?new) =
            map (\<lambda>r. (r_key r, r_seat r)) (reservas st) @ map (\<lambda>x. (h_key h, x)) (h_seats h)"
      unfolding map_append n ..
    have e: "distinct (map (\<lambda>r. (r_key r, r_seat r)) (reservas st @ ?new))"
      unfolding m using dr dn dj by simp
    have "no_duplicate_claims now (st\<lparr>reservas := reservas st @ ?new\<rparr>)"
      using inv e unfolding no_duplicate_claims_def by simp
    then show ?thesis unfolding eq by (rule ndc_release)
  qed
qed
lemma ndb_later: "no_double_booking now st \<Longrightarrow> now \<le> now' \<Longrightarrow> no_double_booking now' st"
  unfolding no_double_booking_def unexpired_def
  by (intro conjI ballI impI; (elim conjE)?) (simp, simp, force, force, simp)

lemma ndb_filter:
  assumes "no_double_booking now st"
  shows "no_double_booking now (st\<lparr>holds := filter P (holds st)\<rparr>)"
  using assms unfolding no_double_booking_def seats_confirmed_def
  by (auto simp: distinct_map_filter)

lemma ndb_release: "no_double_booking now st \<Longrightarrow> no_double_booking now (release tok st)"
  unfolding release_def by (rule ndb_filter)

lemma ndb_purge: "no_double_booking now st \<Longrightarrow> no_double_booking now (snd (purge_expired_holds now st))"
  unfolding purge_expired_holds_def by (simp add: ndb_filter)


lemma ndb_add:
  assumes "no_double_booking now st"
      and "h_token h \<notin> h_token ` set (holds st)"
      and "distinct (h_seats h)"
      and "\<forall>h' \<in> set (holds st). unexpired now h' \<and> h_key h' = h_key h
             \<longrightarrow> set (h_seats h') \<inter> set (h_seats h) = {}"
      and "set (h_seats h) \<inter> set (seats_confirmed (h_key h) st) = {}"
  shows "no_double_booking now (st\<lparr>holds := holds st @ [h]\<rparr>)"
  using assms unfolding no_double_booking_def seats_confirmed_def
  by (auto simp: Int_commute)

lemma ndb_place:
  assumes inv: "no_double_booking now st"
      and pl: "place now tok key ss ttl st = Inr (h, st')"
  shows "no_double_booking now st'"
proof -
  let ?st1 = "st\<lparr>holds := filter (\<lambda>h'. h_token h' \<noteq> tok) (holds st)\<rparr>"
  let ?h = "\<lparr> h_token = tok, h_key = key, h_seats = remdups ss,
                        h_created_at = now, h_expires_at = now + ttl \<rparr>"
  from pl have free: "\<forall>x \<in> set ss. x \<notin> set (seats_held_by_others now tok key st)
                        \<and> x \<notin> set (seats_confirmed key st)"
    and st': "st' = ?st1\<lparr>holds := holds ?st1 @ [?h]\<rparr>"
    by (auto simp: place_def Let_def list_ex_iff split: if_splits)
  have 1: "no_double_booking now ?st1" using inv by (rule ndb_filter)
  have 2: "h_token ?h \<notin> h_token ` set (holds ?st1)" by auto
  have 3: "distinct (h_seats ?h)" by simp
  have 4: "\<forall>h' \<in> set (holds ?st1). unexpired now h' \<and> h_key h' = h_key ?h
             \<longrightarrow> set (h_seats h') \<inter> set (h_seats ?h) = {}"
    using free by (auto simp: held_by_others_iff)
  have 5: "set (h_seats ?h) \<inter> set (seats_confirmed (h_key ?h) ?st1) = {}"
    using free by (auto simp: seats_confirmed_def)
  show ?thesis unfolding st' by (rule ndb_add[OF 1 2 3 4 5])
qed

lemma ndb_hold:
  "no_double_booking now st \<Longrightarrow> hold cfg now tok key ss st = Inr (h, st') \<Longrightarrow> no_double_booking now st'"
  by (auto simp: hold_def split: if_splits dest: ndb_place)

lemma ndb_confirmed:
  assumes inv: "no_double_booking now st"
      and h: "h \<in> set (holds st)" "unexpired now h"
  shows "no_double_booking now
           (release (h_token h)
              (st\<lparr>reservas := reservas st @
                  map (\<lambda>x. \<lparr> r_key = h_key h, r_seat = x, r_transaction_id = tid,
                              r_usuario_email = email, r_confirmed_at = now' \<rparr>) (h_seats h)\<rparr>))"
proof -
  let ?new = "map (\<lambda>x. \<lparr> r_key = h_key h, r_seat = x, r_transaction_id = tid,
                              r_usuario_email = email, r_confirmed_at = now' \<rparr>) (h_seats h)"
  let ?st' = "release (h_token h) (st\<lparr>reservas := reservas st @ ?new\<rparr>)"
  have hs: "holds ?st' = filter (\<lambda>h'. h_token h' \<noteq> h_token h) (holds st)"
    and rs: "reservas ?st' = reservas st @ ?new"
    by (simp_all add: release_def)
  have tok: "distinct (map h_token (holds st))"
    and ds: "\<forall>h \<in> set (holds st). distinct (h_seats h)"
    and hh: "\<forall>h1 \<in> set (holds st). \<forall>h2 \<in> set (holds st).
            unexpired now h1 \<and> unexpired now h2 \<and> h_key h1 = h_key h2 \<and> h_token h1 \<noteq> h_token h2
            \<longrightarrow> set (h_seats h1) \<inter> set (h_seats h2) = {}"
    and hr: "\<forall>h \<in> set (holds st).
            unexpired now h \<longrightarrow> set (h_seats h) \<inter> set (seats_confirmed (h_key h) st) = {}"
    and dr: "distinct (map (\<lambda>r. (r_key r, r_seat r)) (reservas st))"
    using inv unfolding no_double_booking_def by blast+
  have sc: "set (seats_confirmed k ?st') =
              set (seats_confirmed k st) \<union> (if k = h_key h then set (h_seats h) else {})" for k
  proof -
    have "filter (\<lambda>r. r_key r = k) ?new = (if k = h_key h then ?new else [])"
      by (induction "h_seats h") (auto simp: filter_map comp_def)
    moreover have "map r_seat ?new = h_seats h" by (simp add: comp_def)
    ultimately show ?thesis by (cases "k = h_key h") (simp_all add: seats_confirmed_def rs)
  qed
  have a: "distinct (map h_token (holds ?st'))" using tok by (simp add: hs distinct_map_filter)
  have b: "\<forall>h \<in> set (holds ?st'). distinct (h_seats h)" using ds by (simp add: hs)
  have c: "\<forall>h1 \<in> set (holds ?st'). \<forall>h2 \<in> set (holds ?st').
            unexpired now h1 \<and> unexpired now h2 \<and> h_key h1 = h_key h2 \<and> h_token h1 \<noteq> h_token h2
            \<longrightarrow> set (h_seats h1) \<inter> set (h_seats h2) = {}"
    using hh by (simp add: hs)
  have d: "\<forall>h' \<in> set (holds ?st').
            unexpired now h' \<longrightarrow> set (h_seats h') \<inter> set (seats_confirmed (h_key h') ?st') = {}"
  proof (intro ballI impI)
    fix h' assume m: "h' \<in> set (holds ?st')" and u: "unexpired now h'"
    from m have m': "h' \<in> set (holds st)" and ne: "h_token h' \<noteq> h_token h" by (simp_all add: hs)
    from hr m' u have 1: "set (h_seats h') \<inter> set (seats_confirmed (h_key h') st) = {}" by blast
    have 2: "h_key h' = h_key h \<Longrightarrow> set (h_seats h') \<inter> set (h_seats h) = {}"
      using hh m' h u ne by blast
    show "set (h_seats h') \<inter> set (seats_confirmed (h_key h') ?st') = {}"
      using 1 2 by (auto simp: sc)
  qed
  have e: "distinct (map (\<lambda>r. (r_key r, r_seat r)) (reservas ?st'))"
  proof -
    have n: "map (\<lambda>r. (r_key r, r_seat r)) ?new = map (\<lambda>x. (h_key h, x)) (h_seats h)"
      by (simp add: comp_def)
    have dn: "distinct (map (\<lambda>x. (h_key h, x)) (h_seats h))"
      using ds h by (simp add: distinct_map inj_on_def)
    have dj: "set (map (\<lambda>r. (r_key r, r_seat r)) (reservas st)) \<inter> set (map (\<lambda>x. (h_key h, x)) (h_seats h)) = {}"
      using hr h by (fastforce simp: seats_confirmed_def)
    have "map (\<lambda>r. (r_key r, r_seat r)) (reservas ?st') =
            map (\<lambda>r. (r_key r, r_seat r)) (reservas st) @ map (\<lambda>x. (h_key h, x)) (h_seats h)"
      unfolding rs map_append n ..
    then show ?thesis using dr dn dj by simp
  qed
  show ?thesis unfolding no_double_booking_def using a b c d e by blast
qed

lemma ndb_confirm_seats:
  assumes "no_double_booking now st"
  shows "no_double_booking now (snd (confirm_seats now token key email tid st))"
proof (cases "live_hold now token key st")
  case None
  then show ?thesis using assms by (simp add: confirm_seats_def)
next
  case (Some h)
  from live_hold_mem[OF Some] have h: "h \<in> set (holds st)" "unexpired now h" "h_key h = key"
    by simp_all
  show ?thesis
  proof (cases "commit now key (h_seats h) tid email st")
    case (Inl e)
    then show ?thesis using assms Some by (simp add: confirm_seats_def)
  next
    case (Inr p)
    then have "snd (confirm_seats now token key email tid st) =
        release (h_token h) (st\<lparr>reservas := reservas st @
                  map (\<lambda>x. \<lparr> r_key = h_key h, r_seat = x, r_transaction_id = tid,
                              r_usuario_email = email, r_confirmed_at = now \<rparr>) (h_seats h)\<rparr>)"
      using Some h by (auto simp: confirm_seats_def commit_def split: if_splits)
    then show ?thesis using ndb_confirmed[OF assms h(1,2)] by simp
  qed
qed


lemma map_of_filter_out [simp]: "map_of (filter (\<lambda>p. fst p \<noteq> k) xs) k = None"
  by (induction xs) auto

lemma confirm_is_lookup_commit:
  "w_store (seat_step cfg (seat_step cfg w (Lookup token key tid)) (Commit tid email))
     = snd (confirm_seats (w_clock w) token key email tid (w_store w))"
proof (cases "live_hold (w_clock w) token key (w_store w)")
  case None
  then show ?thesis by (simp add: confirm_seats_def)
next
  case (Some h)
  from live_hold_mem[OF Some] have "h_key h = key" by simp
  with Some show ?thesis
    by (simp add: confirm_seats_def commit_hold_def split: sum.splits prod.splits)
qed

lemma claims_step:
  assumes inv: "no_duplicate_claims (w_clock w) (w_store w)"
      and lk: "\<forall>p \<in> set (w_lookups w). distinct (h_seats (snd p))"
  shows "no_duplicate_claims (w_clock (seat_step cfg w ev)) (w_store (seat_step cfg w ev))
       \<and> (\<forall>p \<in> set (w_lookups (seat_step cfg w ev)). distinct (h_seats (snd p)))"
proof (cases ev)
  case (Tick d)
  then show ?thesis using lk ndc_later[OF inv, of "w_clock w + int d"] by simp
next
  case (Hold tok key ss)
  then show ?thesis using inv lk by (auto split: sum.splits dest: ndc_hold)
next
  case (Lookup token key tid)
  show ?thesis
  proof (cases "live_hold (w_clock w) token key (w_store w)")
    case None
    with Lookup inv lk show ?thesis by simp
  next
    case (Some h)
    from live_hold_mem[OF Some] have "h \<in> set (holds (w_store w))" by simp
    with inv have "distinct (h_seats h)" unfolding no_duplicate_claims_def by blast
    with Some Lookup inv lk show ?thesis by simp
  qed
next
  case (Commit tid email)
  show ?thesis
  proof (cases "map_of (w_lookups w) tid")
    case None
    with Commit inv lk show ?thesis by simp
  next
    case (Some h)
    then have "(tid, h) \<in> set (w_lookups w)" by (rule map_of_SomeD)
    with lk have "distinct (h_seats h)" by force
    from ndc_commit_hold[OF inv this] Some Commit lk show ?thesis by simp
  qed
next
  case (Release tok)
  then show ?thesis using lk ndc_release[OF inv] by simp
next
  case Sweep
  then show ?thesis using lk ndc_purge[OF inv] by simp
qed

lemma claims_run:
  "no_duplicate_claims (w_clock w) (w_store w) \<Longrightarrow>
   \<forall>p \<in> set (w_lookups w). distinct (h_seats (snd p)) \<Longrightarrow>
   no_duplicate_claims (w_clock (foldl (seat_step cfg) w evs)) (w_store (foldl (seat_step cfg) w evs))"
proof (induction evs arbitrary: w)
  case Nil
  then show ?case by simp
next
  case (Cons ev evs)
  from claims_step[OF Cons.prems, of cfg ev] Cons.IH[of "seat_step cfg w ev"]
  show ?case by simp
qed

lemma booking_step:
  assumes inv: "no_double_booking (w_clock w) (w_store w)"
      and tm: "commit_in_time w ev"
  shows "no_double_booking (w_clock (seat_step cfg w ev)) (w_store (seat_step cfg w ev))"
proof (cases ev)
  case (Tick d)
  then show ?thesis using ndb_later[OF inv, of "w_clock w + int d"] by simp
next
  case (Hold tok key ss)
  then show ?thesis using inv by (auto split: sum.splits dest: ndb_hold)
next
  case (Lookup token key tid)
  then show ?thesis using inv by (simp split: option.splits)
next
  case (Commit tid email)
  show ?thesis
  proof (cases "map_of (w_lookups w) tid")
    case None
    with Commit inv show ?thesis by simp
  next
    case (Some h)
    with tm Commit
    have "live_hold (w_clock w) (Some (h_token h)) (h_key h) (w_store w) = Some h" by simp
    from live_hold_mem[OF this]
    have h: "h \<in> set (holds (w_store w))" "unexpired (w_clock w) h" by simp_all
    from commit_hold_cases[of "w_clock w" h tid email "w_store w"]
      ndb_confirmed[OF inv h, of tid email "w_clock w"] inv
    have "no_double_booking (w_clock w) (snd (commit_hold (w_clock w) h tid email (w_store w)))"
      by auto
    with Some Commit show ?thesis by simp
  qed
next
  case (Release tok)
  then show ?thesis using ndb_release[OF inv] by simp
next
  case Sweep
  then show ?thesis using ndb_purge[OF inv] by simp
qed

lemma booking_run:
  "no_double_booking (w_clock w) (w_store w) \<Longrightarrow> timely cfg w evs \<Longrightarrow>
   no_double_booking (w_clock (foldl (seat_step cfg) w evs)) (w_store (foldl (seat_step cfg) w evs))"
proof (induction evs arbitrary: w)
  case Nil
  then show ?case by simp
next
  case (Cons ev evs)
  from Cons.prems have tm: "commit_in_time w ev" and rest: "timely cfg (seat_step cfg w ev) evs"
    by simp_all
  from booking_step[OF Cons.prems(1) tm] have "no_double_booking
      (w_clock (seat_step cfg w ev)) (w_store (seat_step cfg w ev))" .
  from Cons.IH[OF this rest] show ?case by simp
qed
lemma valid_seats_mem:
  "r \<in> set rows \<Longrightarrow> 0 < c \<Longrightarrow> int c \<le> cols \<Longrightarrow> r # nat_str c \<in> set (valid_seats rows cols)"
  by (auto simp: valid_seats_def intro!: bexI[of _ r] image_eqI[of _ _ c])

lemma ejemplo_valid_seats:
  "set [''C7'', ''C8'', ''C9''] \<subseteq> set (valid_seats (SEAT_ROWS ejemplo_cfg) (SEAT_COLS ejemplo_cfg))"
proof -
  have "CHR ''C'' # nat_str c \<in> set (valid_seats (SEAT_ROWS ejemplo_cfg) (SEAT_COLS ejemplo_cfg))"
    if "0 < c" "c \<le> 12" for c
    using that by (intro valid_seats_mem) (simp_all add: ejemplo_cfg_def)
  from this[of 7] this[of 8] this[of 9] show ?thesis
    by (simp add: nat_str.simps)
qed

lemma ejemplo_valid:
  "''C7'' \<in> set (valid_seats (SEAT_ROWS ejemplo_cfg) (SEAT_COLS ejemplo_cfg))"
  "''C8'' \<in> set (valid_seats (SEAT_ROWS ejemplo_cfg) (SEAT_COLS ejemplo_cfg))"
  "''C9'' \<in> set (valid_seats (SEAT_ROWS ejemplo_cfg) (SEAT_COLS ejemplo_cfg))"
  using ejemplo_valid_seats by simp_all

lemma ejemplo_limit:
  "is_within_order_limit ejemplo_cfg (Suc 0)" "is_within_order_limit ejemplo_cfg (Suc (Suc 0))"
  by (simp_all add: is_within_order_limit_def ejemplo_cfg_def)

lemma ejemplo_ttl: "HOLD_TTL_SECONDS ejemplo_cfg = 600"
  by (simp add: ejemplo_cfg_def)

lemma ejemplo_step1:
  "hold ejemplo_cfg 1000 ''tok1'' ejemplo_key [''C7'', ''C8''] \<lparr> holds = [], reservas = [] \<rparr>
     = Inr (ejemplo_hold, \<lparr> holds = [ejemplo_hold], reservas = [] \<rparr>)"
  by (simp add: Let_def hold_def ejemplo_valid ejemplo_limit ejemplo_ttl place_def seats_held_by_others_def
      seats_confirmed_def ejemplo_hold_def)

lemma ejemplo_step2:
  "hold ejemplo_cfg 1010 ''tok2'' ejemplo_key [''C8'', ''C9''] \<lparr> holds = [ejemplo_hold], reservas = [] \<rparr>
     = Inl SeatUnavailable"
  by (simp add: Let_def hold_def ejemplo_valid ejemplo_limit ejemplo_ttl place_def seats_held_by_others_def
      seats_confirmed_def ejemplo_hold_def unexpired_def)

lemma ejemplo_step3:
  "confirm_seats 1200 (Some ''tok1'') ejemplo_key (Some ''ana@example.com'') 1
      \<lparr> holds = [ejemplo_hold], reservas = [] \<rparr>
     = (Inr [''C7'', ''C8''], \<lparr> holds = [], reservas = ejemplo_reservas \<rparr>)"
  by (simp add: confirm_seats_def live_hold_def get_hold_def unexpired_def commit_def
      seats_confirmed_def release_def ejemplo_hold_def ejemplo_reservas_def)

lemma ejemplo_step4:
  "hold ejemplo_cfg 1300 ''tok3'' ejemplo_key [''C7''] \<lparr> holds = [], reservas = ejemplo_reservas \<rparr>
     = Inl SeatUnavailable"
  by (simp add: Let_def hold_def ejemplo_valid ejemplo_limit ejemplo_ttl place_def seats_held_by_others_def
      seats_confirmed_def ejemplo_reservas_def)


lemma ejemplo_carrera_1:
  "hold ejemplo_cfg 1000 ''tok1'' ejemplo_key [''C7''] \<lparr> holds = [], reservas = [] \<rparr>
     = Inr (\<lparr> h_token = ''tok1'', h_key = ejemplo_key, h_seats = [''C7''],
               h_created_at = 1000, h_expires_at = 1600 \<rparr>,
            \<lparr> holds = [\<lparr> h_token = ''tok1'', h_key = ejemplo_key, h_seats = [''C7''],
                         h_created_at = 1000, h_expires_at = 1600 \<rparr>], reservas = [] \<rparr>)"
  by (simp add: Let_def hold_def ejemplo_valid ejemplo_limit ejemplo_ttl place_def
      seats_held_by_others_def seats_confirmed_def)

lemma ejemplo_carrera_2:
  "live_hold 1599 (Some ''tok1'') ejemplo_key
     \<lparr> holds = [\<lparr> h_token = ''tok1'', h_key = ejemplo_key, h_seats = [''C7''],
                  h_created_at = 1000, h_expires_at = 1600 \<rparr>], reservas = [] \<rparr>
   = Some \<lparr> h_token = ''tok1'', h_key = ejemplo_key, h_seats = [''C7''],
            h_created_at = 1000, h_expires_at = 1600 \<rparr>"
  by (simp add: live_hold_def get_hold_def unexpired_def)

lemma ejemplo_carrera_3:
  "hold ejemplo_cfg 1601 ''tok2'' ejemplo_key [''C7'']
     \<lparr> holds = [\<lparr> h_token = ''tok1'', h_key = ejemplo_key, h_seats = [''C7''],
                  h_created_at = 1000, h_expires_at = 1600 \<rparr>], reservas = [] \<rparr>
     = Inr (\<lparr> h_token = ''tok2'', h_key = ejemplo_key, h_seats = [''C7''],
               h_created_at = 1601, h_expires_at = 2201 \<rparr>,
            \<lparr> holds = [\<lparr> h_token = ''tok1'', h_key = ejemplo_key, h_seats = [''C7''],
                         h_created_at = 1000, h_expires_at = 1600 \<rparr>,
                       \<lparr> h_token = ''tok2'', h_key = ejemplo_key, h_seats = [''C7''],
                         h_created_at = 1601, h_expires_at = 2201 \<rparr>], reservas = [] \<rparr>)"
  by (simp add: Let_def hold_def ejemplo_valid ejemplo_limit ejemplo_ttl place_def
      seats_held_by_others_def seats_confirmed_def unexpired_def)

lemma ejemplo_carrera_4:
  "commit_hold 1602 \<lparr> h_token = ''tok1'', h_key = ejemplo_key, h_seats = [''C7''],
                      h_created_at = 1000, h_expires_at = 1600 \<rparr> 1 (Some ''ana@example.com'')
     \<lparr> holds = [\<lparr> h_token = ''tok1'', h_key = ejemplo_key, h_seats = [''C7''],
                  h_created_at = 1000, h_expires_at = 1600 \<rparr>,
                \<lparr> h_token = ''tok2'', h_key = ejemplo_key, h_seats = [''C7''],
                  h_created_at = 1601, h_expires_at = 2201 \<rparr>], reservas = [] \<rparr>
   = (Inr [''C7''], ejemplo_carrera_fin)"
  by (simp add: commit_hold_def commit_def seats_confirmed_def release_def ejemplo_carrera_fin_def)

lemma ejemplo_carrera_run:
  "seat_run ejemplo_cfg 1000 ejemplo_carrera
     = \<lparr> w_clock = 1602, w_store = ejemplo_carrera_fin, w_lookups = [] \<rparr>"
  by (simp add: seat_run_def seat_start_def ejemplo_carrera_def ejemplo_carrera_1
      ejemplo_carrera_2 ejemplo_carrera_3 ejemplo_carrera_4)

text \<open>
  C1, as the claim states it, fails on the operations of the specification: only \<open>place\<close>
  and \<open>commit\<close> are atomic, and \<open>commit\<close> checks the ledger alone.  A confirmation reads the
  hold of token tok1 on seat C7 at time 1599, one second before it expires; at 1601
  another session holds C7; at 1602 the confirmation commits.  The commit succeeds, and
  seat C7 is then both in the ledger and in the unexpired hold of tok2.
\<close>

theorem commit_after_expiry_double_books:
  "seat_run ejemplo_cfg 1000 ejemplo_carrera
     = \<lparr> w_clock = 1602, w_store = ejemplo_carrera_fin, w_lookups = [] \<rparr>
   \<and> unexpired 1602 (hd (holds ejemplo_carrera_fin))
   \<and> ''C7'' \<in> set (h_seats (hd (holds ejemplo_carrera_fin)))
   \<and> ''C7'' \<in> set (seats_confirmed ejemplo_key ejemplo_carrera_fin)
   \<and> \<not> no_double_booking 1602 ejemplo_carrera_fin"
  by (simp add: ejemplo_carrera_run)
     (simp add: ejemplo_carrera_fin_def unexpired_def seats_confirmed_def no_double_booking_def)

text \<open>
  C1, amended.  In every state that the operations of the coordinator reach from empty
  tables (placing a hold, the lookup and the commit of a confirmation, releasing,
  sweeping, with time passing in between), at the time of that state: each token has one
  hold, no seat lies in two unexpired holds of a showtime, and the ledger holds no pair
  of showtime and seat twice.  When every commit of the run finds the hold that its
  lookup has read still unexpired in the store, as it does when lookup and commit happen
  at one instant, then also no seat lies both in an unexpired hold and in the confirmed
  reservations of its showtime.
\<close>

theorem reachable_no_duplicate_claims:
  "no_duplicate_claims (w_clock (seat_run cfg t0 evs)) (w_store (seat_run cfg t0 evs))
   \<and> (timely cfg (seat_start t0) evs
        \<longrightarrow> no_double_booking (w_clock (seat_run cfg t0 evs)) (w_store (seat_run cfg t0 evs)))"
proof
  show "no_duplicate_claims (w_clock (seat_run cfg t0 evs)) (w_store (seat_run cfg t0 evs))"
    unfolding seat_run_def
    by (rule claims_run) (simp_all add: seat_start_def no_duplicate_claims_def)
  show "timely cfg (seat_start t0) evs
        \<longrightarrow> no_double_booking (w_clock (seat_run cfg t0 evs)) (w_store (seat_run cfg t0 evs))"
  proof
    assume "timely cfg (seat_start t0) evs"
    with booking_run[of "seat_start t0" cfg evs]
    show "no_double_booking (w_clock (seat_run cfg t0 evs)) (w_store (seat_run cfg t0 evs))"
      by (simp add: seat_run_def seat_start_def no_double_booking_def)
  qed
qed

lemma ejemplo_lookup:
  "live_hold 1200 (Some ''tok1'') ejemplo_key \<lparr> holds = [ejemplo_hold], reservas = [] \<rparr>
     = Some ejemplo_hold"
  by (simp add: live_hold_def get_hold_def unexpired_def ejemplo_hold_def)

lemma ejemplo_commit:
  "commit_hold 1200 ejemplo_hold 1 (Some ''ana@example.com'')
      \<lparr> holds = [ejemplo_hold], reservas = [] \<rparr>
     = (Inr [''C7'', ''C8''], \<lparr> holds = [], reservas = ejemplo_reservas \<rparr>)"
  by (simp add: commit_hold_def commit_def seats_confirmed_def release_def ejemplo_hold_def
      ejemplo_reservas_def)

lemma ejemplo_seat_run:
  "seat_run ejemplo_cfg 1000 ejemplo_ops
     = \<lparr> w_clock = 1300, w_store = \<lparr> holds = [], reservas = ejemplo_reservas \<rparr>, w_lookups = [] \<rparr>"
  by (simp add: seat_run_def seat_start_def ejemplo_ops_def ejemplo_step1 ejemplo_step2
      ejemplo_lookup ejemplo_commit ejemplo_step4)

lemma ejemplo_timely: "timely ejemplo_cfg (seat_start 1000) ejemplo_ops"
  by (simp add: seat_start_def ejemplo_ops_def ejemplo_step1 ejemplo_step2
      ejemplo_lookup ejemplo_commit ejemplo_step4)
     (simp add: ejemplo_hold_def live_hold_def get_hold_def unexpired_def)

theorem reachable_no_duplicate_claims_witness:
  "timely ejemplo_cfg (seat_start 1000) ejemplo_ops
   \<and> seat_run ejemplo_cfg 1000 ejemplo_ops
       = \<lparr> w_clock = 1300, w_store = \<lparr> holds = [], reservas = ejemplo_reservas \<rparr>, w_lookups = [] \<rparr>
   \<and> no_duplicate_claims 1300 \<lparr> holds = [], reservas = ejemplo_reservas \<rparr>
   \<and> no_double_booking 1300 \<lparr> holds = [], reservas = ejemplo_reservas \<rparr>"
  using reachable_no_duplicate_claims[of ejemplo_cfg 1000 ejemplo_ops] ejemplo_timely
  by (simp add: ejemplo_seat_run)

lemma ejemplo_dos_pagos_conflict:
  "commit_hold 1000 \<lparr> h_token = ''tok1'', h_key = ejemplo_key, h_seats = [''C7''],
                      h_created_at = 1000, h_expires_at = 1600 \<rparr> 2 (Some ''ana@example.com'')
     (w_store (seat_run ejemplo_cfg 1000 (butlast ejemplo_dos_pagos)))
   = (Inl SeatConflict, w_store (seat_run ejemplo_cfg 1000 ejemplo_dos_pagos))"
  by (simp add: seat_run_def seat_start_def ejemplo_dos_pagos_def ejemplo_carrera_1)
     (simp add: live_hold_def get_hold_def unexpired_def commit_hold_def commit_def
      seats_confirmed_def release_def)

section \<open>Configuration\<close>

lemma py_int_defaults:
  "py_int ''25'' = Some 25" "py_int ''12'' = Some 12" "py_int ''6'' = Some 6"
  "py_int ''600'' = Some 600" "py_int ''doce'' = None"
  by (simp_all add: py_eval)

lemma py_Decimal_abc: "py_Decimal ''abc'' = None"
  by (simp add: py_eval)

lemma py_Decimal_5000: "py_Decimal ''5000'' = Some (Fin 5000 0)"
  by (simp add: py_eval)

text \<open>
  C7, as the claim states it, fails on the code: with \<open>TICKET_PRICE=abc\<close> in the
  environment the application starts, the string is stored as it is, and every request
  that asks for the price of a ticket gets 5000 in its place.
\<close>

theorem ticket_price_fallback_per_request:
  "create_app ejemplo_entorno = Inr ejemplo_cfg_abc
   \<and> py_Decimal ''abc'' = None
   \<and> precio_entrada ejemplo_cfg_abc = Fin 5000 0"
  by (simp add: create_app_def getenv_def ejemplo_entorno_def ejemplo_cfg_abc_def py_int_defaults
      precio_entrada_def py_Decimal_abc)

text \<open>
  C7, amended.  At startup the settings SEAT_COLS, SEAT_MAX_PER_ORDER and HOLD_TTL_SECONDS
  (and MAIL_PORT) are read with \<open>int()\<close>: the application starts exactly when the four
  strings are integer literals, and fails with a ValueError otherwise; their range is not
  examined.  SEAT_ROWS and TICKET_PRICE are stored as the strings they are.  The ticket
  price is parsed at each request, and a string that \<open>Decimal\<close> does not accept is
  replaced by 5000.
\<close>

theorem config_checked_at_startup:
  "((\<exists>cfg. create_app env = Inr cfg) \<longleftrightarrow>
       py_int (getenv env ''MAIL_PORT'' ''25'') \<noteq> None
     \<and> py_int (getenv env ''SEAT_COLS'' ''12'') \<noteq> None
     \<and> py_int (getenv env ''SEAT_MAX_PER_ORDER'' ''6'') \<noteq> None
     \<and> py_int (getenv env ''HOLD_TTL_SECONDS'' ''600'') \<noteq> None)
   \<and> (\<forall>cfg. create_app env = Inr cfg \<longrightarrow>
         py_int (getenv env ''SEAT_COLS'' ''12'') = Some (SEAT_COLS cfg)
       \<and> py_int (getenv env ''SEAT_MAX_PER_ORDER'' ''6'') = Some (SEAT_MAX_PER_ORDER cfg)
       \<and> py_int (getenv env ''HOLD_TTL_SECONDS'' ''600'') = Some (HOLD_TTL_SECONDS cfg)
       \<and> SEAT_ROWS cfg = getenv env ''SEAT_ROWS'' ''ABCDEFGHIJ''
       \<and> TICKET_PRICE cfg = Some (getenv env ''TICKET_PRICE'' ''5000'')
       \<and> precio_entrada cfg =
            (case py_Decimal (getenv env ''TICKET_PRICE'' ''5000'') of
               Some d \<Rightarrow> d
             | None \<Rightarrow> Fin 5000 0))
   \<and> (\<forall>e. create_app env = Inl e \<longrightarrow> e = ValueError ''invalid literal for int()'')"
  by (auto simp: create_app_def precio_entrada_def split: option.splits)

theorem config_checked_at_startup_witness:
  "create_app Map.empty =
     Inr \<lparr> SEAT_ROWS = ''ABCDEFGHIJ'', SEAT_COLS = 12, SEAT_MAX_PER_ORDER = 6,
           HOLD_TTL_SECONDS = 600, TICKET_PRICE = Some ''5000'',
           DEFAULT_BRANCH = ''Cine Pelagio B. Luna 960'' \<rparr>
   \<and> precio_entrada \<lparr> SEAT_ROWS = ''ABCDEFGHIJ'', SEAT_COLS = 12, SEAT_MAX_PER_ORDER = 6,
           HOLD_TTL_SECONDS = 600, TICKET_PRICE = Some ''5000'',
           DEFAULT_BRANCH = ''Cine Pelagio B. Luna 960'' \<rparr> = Fin 5000 0
   \<and> create_app [''SEAT_COLS'' \<mapsto> ''doce''] = Inl (ValueError ''invalid literal for int()'')"
proof -
  have a: "create_app Map.empty =
     Inr \<lparr> SEAT_ROWS = ''ABCDEFGHIJ'', SEAT_COLS = 12, SEAT_MAX_PER_ORDER = 6,
           HOLD_TTL_SECONDS = 600, TICKET_PRICE = Some ''5000'',
           DEFAULT_BRANCH = ''Cine Pelagio B. Luna 960'' \<rparr>"
    by (simp add: create_app_def getenv_def py_int_defaults)
  have b: "create_app [''SEAT_COLS'' \<mapsto> ''doce''] = Inl (ValueError ''invalid literal for int()'')"
    by (simp add: create_app_def getenv_def py_int_defaults)
  from config_checked_at_startup[of Map.empty] a
  have "precio_entrada \<lparr> SEAT_ROWS = ''ABCDEFGHIJ'', SEAT_COLS = 12, SEAT_MAX_PER_ORDER = 6,
           HOLD_TTL_SECONDS = 600, TICKET_PRICE = Some ''5000'',
           DEFAULT_BRANCH = ''Cine Pelagio B. Luna 960'' \<rparr> = Fin 5000 0"
    by (simp add: getenv_def py_Decimal_5000)
  with a b show ?thesis by simp
qed

section \<open>Decimal arithmetic within the precision of the context\<close>

lemma ndigits_le_iff: "0 < k \<Longrightarrow> ndigits n \<le> k \<longleftrightarrow> n < 10 ^ k"
proof (induction n arbitrary: k rule: ndigits.induct)
  case (1 n)
  show ?case
  proof (cases "n < 10")
    case True
    have "(10::nat) ^ 1 \<le> 10 ^ k" using "1.prems" by (intro power_increasing) simp_all
    then have "n < 10 ^ k" using True by simp
    moreover have "ndigits n = 1" using True by (simp add: ndigits.simps)
    ultimately show ?thesis using "1.prems" by simp
  next
    case False
    then have nd: "ndigits n = Suc (ndigits (n div 10))" by (subst ndigits.simps) simp
    show ?thesis
    proof (cases k)
      case 0
      then show ?thesis using "1.prems" by simp
    next
      case (Suc j)
      show ?thesis
      proof (cases "j = 0")
        case True
        then show ?thesis using Suc False nd by (simp add: ndigits.simps[of "n div 10"])
      next
        case jp: False
        then have "ndigits (n div 10) \<le> j \<longleftrightarrow> n div 10 < 10 ^ j"
          using "1.IH"[OF False, of j] by simp
        moreover have "n div 10 < 10 ^ j \<longleftrightarrow> n < 10 ^ Suc j"
          by (simp add: div_less_iff_less_mult mult.commute)
        ultimately show ?thesis using nd Suc by simp
      qed
    qed
  qed
qed

lemma ndigits_fits: "ndigits (nat \<bar>c\<bar>) \<le> prec \<longleftrightarrow> fits c"
proof -
  have "ndigits (nat \<bar>c\<bar>) \<le> prec \<longleftrightarrow> nat \<bar>c\<bar> < 10 ^ prec"
    by (rule ndigits_le_iff) (simp add: prec_def)
  also have "\<dots> \<longleftrightarrow> \<bar>c\<bar> < 10 ^ prec"
    by (metis (no_types) abs_ge_zero nat_less_numeral_power_cancel_iff nat_less_iff of_nat_numeral of_nat_power zless_nat_conj) 
  finally show ?thesis by (simp add: fits_def)
qed

lemma fix_ctx_fits: "fits c \<Longrightarrow> fix_ctx c e = Fin c e"
  by (simp add: fix_ctx_def ndigits_fits)

lemma fits_0 [simp]: "fits 0"
  by (simp add: fits_def)

lemma rescale_0 [simp]: "rescale_half_up 0 e x = 0"
  by (simp add: rescale_half_up_def Let_def)

lemma quantize_Inr_Fin:
  assumes "quantize d x = Inr (Fin c e)"
  shows "e = x \<and> fits c"
proof (cases d)
  case (Fin c0 e0)
  show ?thesis
  proof (cases "c0 = 0")
    case True
    with Fin assms show ?thesis by simp
  next
    case False
    with Fin assms have "c = rescale_half_up c0 e0 x" "e = x" "\<not> prec < ndigits (nat \<bar>c\<bar>)"
      by (auto simp: Let_def split: if_splits)
    then show ?thesis using ndigits_fits[of c] by simp
  qed
qed (use assms in simp_all)

lemma rescale_exact:
  assumes "0 < k" "(10::int) ^ k dvd c"
  shows "rescale_half_up c (- int k) 0 = c div 10 ^ k"
proof -
  from assms(2) obtain m where m: "c = 10 ^ k * m" by (rule dvdE)
  have p: "\<not> (10::int) ^ k \<le> 0" by (simp add: not_le)
  have r: "\<bar>c\<bar> mod 10 ^ k = 0" using m by (simp add: abs_mult)
  have q: "\<bar>c\<bar> div 10 ^ k = \<bar>m\<bar>" using m by (simp add: abs_mult)
  have s: "sgn c = sgn m" using m by (simp add: sgn_mult)
  have "rescale_half_up c (- int k) 0 = sgn c * (\<bar>c\<bar> div 10 ^ k)"
    using assms(1) p by (simp add: rescale_half_up_def Let_def r)
  also have "\<dots> = m" by (simp add: q s sgn_mult_abs)
  also have "m = c div 10 ^ k" using m by simp
  finally show ?thesis .
qed

lemma fix_ctx_unfit:
  assumes "\<not> fits c" and k: "k = ndigits (nat \<bar>c\<bar>) - prec"
      and r: "nat \<bar>c\<bar> mod 10 ^ k = 0" and q: "nat \<bar>c\<bar> div 10 ^ k \<noteq> 10 ^ prec"
  shows "fix_ctx c e = Fin (sgn c * int (nat \<bar>c\<bar> div 10 ^ k)) (e + int k)"
proof -
  have gt: "\<not> ndigits (nat \<bar>c\<bar>) \<le> prec" using assms(1) by (simp add: ndigits_fits)
  have rq: "round_half_even (nat \<bar>c\<bar>) k = nat \<bar>c\<bar> div 10 ^ k"
    by (simp add: round_half_even_def Let_def r)
  show ?thesis
    unfolding fix_ctx_def Let_def k[symmetric] rq using gt q by simp
qed

lemma to_integral_exact:
  assumes "0 < k" "(10::int) ^ k dvd c"
  shows "to_integral_value (Fin c (- int k)) = Inr (Fin (c div 10 ^ k) 0)"
  using assms by (simp add: rescale_exact)

lemma monto_cents_of_Fin:
  assumes "fits c"
  shows "monto_cents_of (Fin c (- 2)) = Inr c"
proof (cases "fits (c * 100)")
  case True
  have "to_integral_value (Fin (c * 100) (- int 2)) = Inr (Fin ((c * 100) div 10 ^ 2) 0)"
    by (rule to_integral_exact) simp_all
  then have "to_integral_value (Fin (c * 100) (- 2)) = Inr (Fin c 0)" by simp
  then show ?thesis using True by (simp add: monto_cents_of_def fix_ctx_fits)
next
  case False
  define a where "a = nat \<bar>c\<bar>"
  define n where "n = nat \<bar>c * 100\<bar>"
  define d where "d = ndigits n"
  have P: "prec = 28" by (simp add: prec_def)
  have n: "n = a * 100" by (simp add: n_def a_def abs_mult nat_mult_distrib)
  have a28: "a < 10 ^ 28" using assms by (simp add: fits_def P a_def)
  have gt: "\<not> d \<le> 28" using False ndigits_fits[of "c * 100"] by (simp add: d_def n_def P)
  have "n < 10 ^ 30" using a28 by (simp add: n)
  then have le: "d \<le> 30" unfolding d_def using ndigits_le_iff[of 30 n] by simp
  have lt: "n < 10 ^ d" using ndigits_le_iff[of d n] gt by (simp add: d_def)
  from gt le have "d = 29 \<or> d = 30" by linarith
  then show ?thesis
  proof
    assume d29: "d = 29"
    have k: "1 = ndigits (nat \<bar>c * 100\<bar>) - prec" using d29 by (simp add: d_def n_def P)
    have dv: "nat \<bar>c * 100\<bar> div 10 ^ 1 = a * 10" using n by (simp add: n_def)
    have a10: "a * 10 < 10 ^ 28" using lt d29 n by simp
    have ne: "nat \<bar>c * 100\<bar> div 10 ^ 1 \<noteq> 10 ^ prec" unfolding dv P using a10 by simp
    have md: "nat \<bar>c * 100\<bar> mod 10 ^ 1 = 0" using n by (simp add: n_def)
    have "fix_ctx (c * 100) (- 2) = Fin (sgn (c * 100) * int (nat \<bar>c * 100\<bar> div 10 ^ 1)) (- 2 + int 1)"
      by (rule fix_ctx_unfit[OF False k md ne])
    also have "sgn (c * 100) * int (nat \<bar>c * 100\<bar> div 10 ^ 1) = c * 10"
    proof -
      have "sgn (c * 100) = sgn c" by (simp add: sgn_mult)
      moreover have "int (nat \<bar>c * 100\<bar> div 10 ^ 1) = \<bar>c\<bar> * 10" unfolding dv by (simp add: a_def)
      moreover have "sgn c * (\<bar>c\<bar> * 10) = c * 10" by (simp add: sgn_mult_abs flip: mult.assoc)
      ultimately show ?thesis by simp
    qed
    finally have f: "fix_ctx (c * 100) (- 2) = Fin (c * 10) (- int 1)" by simp
    have "to_integral_value (Fin (c * 10) (- int 1)) = Inr (Fin ((c * 10) div 10 ^ 1) 0)"
      by (rule to_integral_exact) simp_all
    then have "to_integral_value (Fin (c * 10) (- int 1)) = Inr (Fin c 0)" by simp
    then show ?thesis by (simp add: monto_cents_of_def f)
  next
    assume d30: "d = 30"
    have k: "2 = ndigits (nat \<bar>c * 100\<bar>) - prec" using d30 by (simp add: d_def n_def P)
    have dv: "nat \<bar>c * 100\<bar> div 10 ^ 2 = a" using n by (simp add: n_def)
    have ne: "nat \<bar>c * 100\<bar> div 10 ^ 2 \<noteq> 10 ^ prec" unfolding dv P using a28 by simp
    have md: "nat \<bar>c * 100\<bar> mod 10 ^ 2 = 0" using n by (simp add: n_def)
    have "fix_ctx (c * 100) (- 2) = Fin (sgn (c * 100) * int (nat \<bar>c * 100\<bar> div 10 ^ 2)) (- 2 + int 2)"
      by (rule fix_ctx_unfit[OF False k md ne])
    also have "sgn (c * 100) * int (nat \<bar>c * 100\<bar> div 10 ^ 2) = c"
    proof -
      have "sgn (c * 100) = sgn c" by (simp add: sgn_mult)
      moreover have "int (nat \<bar>c * 100\<bar> div 10 ^ 2) = \<bar>c\<bar>" unfolding dv by (simp add: a_def)
      moreover have "sgn c * \<bar>c\<bar> = c" by (simp add: sgn_mult_abs)
      ultimately show ?thesis by simp
    qed
    finally have f: "fix_ctx (c * 100) (- 2) = Fin c 0" by simp
    show ?thesis by (simp add: monto_cents_of_def f)
  qed
qed

lemma quantize_not_special:
  "quantize d x = Inr r \<Longrightarrow> r = NaN \<or> (\<exists>c. r = Fin c x \<and> fits c)"
proof (cases r)
  case (Fin c e)
  assume "quantize d x = Inr r"
  with Fin quantize_Inr_Fin[of d x c e] show ?thesis by simp
next
  case (Inf s)
  assume "quantize d x = Inr r"
  with Inf show ?thesis by (cases d) (auto simp: Let_def split: if_splits)
next
  case NaN
  then show ?thesis by simp
next
  case SNaN
  assume "quantize d x = Inr r"
  with SNaN show ?thesis by (cases d) (auto simp: Let_def split: if_splits)
qed

lemma calcular_quantized:
  assumes "calcular_totales_server_side cfg catalog sess = Inr t"
  shows "\<exists>d1 d2 d3. quantize d1 (- 2) = Inr (total_entradas t)
           \<and> quantize d2 (- 2) = Inr (total_combos t) \<and> quantize d3 (- 2) = Inr (total t)"
  using assms
  by (auto simp: calcular_totales_server_side_def Let_def split: sum.splits)

section \<open>The amount in cents\<close>

text \<open>
  C10.  The amount stored with a transaction is exactly one hundred times the server-side
  total: the total of a request that stores a transaction is a finite Decimal with two
  decimals, \<open>Fin m (- 2)\<close>, and the stored \<open>monto_cents\<close> is its coefficient \<open>m\<close>.  The
  multiplication by 100 and \<open>to_integral_value\<close> round nothing away, also where the product
  has more digits than the context keeps.
\<close>

theorem monto_cents_exact:
  assumes "row \<in> set (filas_nuevas bd (pago_post env cfg catalog now form sess bd))"
  shows "\<exists>t. calcular_totales_server_side cfg catalog sess = Inr t
            \<and> total t = Fin (monto_cents row) (- 2)
            \<and> of_int (monto_cents row) = 100 * dec_value (total t)"
proof -
  from filas_nuevas_monto[OF assms] obtain t where
    t: "calcular_totales_server_side cfg catalog sess = Inr t"
    and m: "monto_cents_of (total t) = Inr (monto_cents row)" by blast
  from calcular_quantized[OF t] obtain d where "quantize d (- 2) = Inr (total t)" by blast
  from quantize_not_special[OF this] have "\<exists>c. total t = Fin c (- 2) \<and> fits c"
    using m by (auto simp: monto_cents_of_def)
  then obtain c where c: "total t = Fin c (- 2)" "fits c" by blast
  with m monto_cents_of_Fin[of c] have "monto_cents row = c" by simp
  with c have "total t = Fin (monto_cents row) (- 2)" by simp
  moreover from this have "of_int (monto_cents row) = 100 * dec_value (total t)"
    by (simp add: dec_value_def)
  ultimately show ?thesis using t by blast
qed

theorem monto_cents_exact_witness:
  "ejemplo_fila \<in> set (filas_nuevas ejemplo_bd
      (pago_post ejemplo_env ejemplo_cfg ejemplo_catalogo 1200 ejemplo_form ejemplo_sesion ejemplo_bd))
   \<and> monto_cents ejemplo_fila = 500000
   \<and> dec_value (Fin 500000 (- 2)) = 5000"
proof -
  have e: "transacciones ejemplo_bd = []" by (simp add: ejemplo_bd_def)
  have a: "ejemplo_fila \<in> set (filas_nuevas ejemplo_bd
      (pago_post ejemplo_env ejemplo_cfg ejemplo_catalogo 1200 ejemplo_form ejemplo_sesion ejemplo_bd))"
    by (simp add: ejemplo_run filas_nuevas_def e)
  from monto_cents_exact[OF a] a show ?thesis
    by (simp add: ejemplo_fila_def dec_value_def)
qed

section \<open>The three roundings\<close>

lemma ndigits_lower: "0 < n \<Longrightarrow> 10 ^ (ndigits n - 1) \<le> n"
proof (cases "ndigits n - 1 = 0")
  case True
  assume "0 < n"
  with True show ?thesis by simp
next
  case False
  assume "0 < n"
  from False have "\<not> ndigits n \<le> ndigits n - 1" by simp
  with ndigits_le_iff[of "ndigits n - 1" n] False show ?thesis by simp
qed

lemma quantize_fits:
  assumes "fits (rescale_half_up c e x)"
  shows "quantize (Fin c e) x = Inr (Fin (rescale_half_up c e x) x)"
proof (cases "c = 0")
  case True
  then show ?thesis by simp
next
  case False
  define n where "n = nat \<bar>c\<bar>"
  have npos: "0 < n" using False by (simp add: n_def)
  have cn: "\<bar>c\<bar> = int n" by (simp add: n_def)
  have P: "prec = 28" by (simp add: prec_def)
  have first: "int (ndigits n) + e - x \<le> 28"
  proof (cases "x \<le> e")
    case True
    define j where "j = nat (e - x)"
    have r: "rescale_half_up c e x = c * 10 ^ j" using True by (simp add: rescale_half_up_def j_def)
    with assms have "int n * 10 ^ j < 10 ^ 28" by (simp add: fits_def P abs_mult cn)
    then have lt: "n * 10 ^ j < 10 ^ 28"
      by (metis (mono_tags, opaque_lifting) of_nat_less_iff of_nat_mult of_nat_numeral of_nat_power)
    have le: "10 ^ (ndigits n - 1) * 10 ^ j \<le> n * (10::nat) ^ j"
      using ndigits_lower[OF npos] by (rule mult_right_mono) simp
    from le lt have "10 ^ (ndigits n - 1) * 10 ^ j < (10::nat) ^ 28" by (rule le_less_trans)
    then have pw: "(10::nat) ^ (ndigits n - 1 + j) < 10 ^ 28" by (simp only: power_add)
    have one: "(1::nat) < 10" by simp
    have "ndigits n - 1 + j < 28" by (rule power_less_imp_less_exp[OF one pw])
    then show ?thesis using True by (simp add: j_def)
  next
    case False
    define k where "k = nat (x - e)"
    have kpos: "0 < k" using False by (simp add: k_def)
    have "\<bar>rescale_half_up c e x\<bar> \<ge> \<bar>c\<bar> div 10 ^ k"
    proof -
      have q0: "0 \<le> \<bar>c\<bar> div 10 ^ k" by (simp add: pos_imp_zdiv_nonneg_iff)
      have "rescale_half_up c e x = sgn c * (if 10 ^ k \<le> 2 * (\<bar>c\<bar> mod 10 ^ k) then \<bar>c\<bar> div 10 ^ k + 1 else \<bar>c\<bar> div 10 ^ k)"
        using False by (simp add: rescale_half_up_def Let_def k_def)
      then have "\<bar>rescale_half_up c e x\<bar> = (if 10 ^ k \<le> 2 * (\<bar>c\<bar> mod 10 ^ k) then \<bar>c\<bar> div 10 ^ k + 1 else \<bar>c\<bar> div 10 ^ k)"
        using \<open>c \<noteq> 0\<close> q0 by (simp add: abs_mult abs_sgn_eq)
      then show ?thesis by simp
    qed
    with assms have "\<bar>c\<bar> div 10 ^ k < 10 ^ 28" by (simp add: fits_def P)
    then have "int (n div 10 ^ k) < int (10 ^ 28)" by (simp add: cn zdiv_int)
    then have "n div 10 ^ k < 10 ^ 28" by (simp only: of_nat_less_iff)
    then have "n < 10 ^ 28 * 10 ^ k" by (simp add: div_less_iff_less_mult)
    then have "n < 10 ^ (28 + k)" by (simp only: power_add)
    then have "ndigits n \<le> 28 + k" using ndigits_le_iff[of "28 + k" n] by simp
    then show ?thesis using False by (simp add: k_def)
  qed
  have "\<not> prec < ndigits (nat \<bar>rescale_half_up c e x\<bar>)"
    using assms ndigits_fits[of "rescale_half_up c e x"] by simp
  then show ?thesis using False first by (simp add: Let_def P n_def)
qed

lemma half_up_div:
  fixes a p :: int
  assumes "0 < p" "0 \<le> a"
  shows "(2 * a + p) div (2 * p) = a div p + (if p \<le> 2 * (a mod p) then 1 else 0)"
proof -
  define q where "q = a div p"
  define r where "r = a mod p"
  have a: "a = p * q + r" by (simp add: q_def r_def)
  have r: "0 \<le> r" "r < p" using assms(1) by (simp_all add: r_def)
  have e: "2 * a + p = (2 * r + p) + q * (2 * p)" by (simp add: a algebra_simps)
  have ne: "2 * p \<noteq> 0" using assms(1) by simp
  have "(2 * a + p) div (2 * p) = ((2 * r + p) + q * (2 * p)) div (2 * p)" by (simp only: e)
  also have "\<dots> = q + (2 * r + p) div (2 * p)" by (rule div_mult_self1[OF ne])
  finally have "(2 * a + p) div (2 * p) = q + (2 * r + p) div (2 * p)" .
  moreover have "(2 * r + p) div (2 * p) = (if p \<le> 2 * r then 1 else 0)"
  proof (cases "p \<le> 2 * r")
    case True
    have "(2 * r + p) div (2 * p) = 1"
      by (rule int_div_pos_eq[where r = "2 * r - p"]) (use True r assms(1) in simp_all)
    with True show ?thesis by simp
  next
    case False
    have "(2 * r + p) div (2 * p) = 0"
      by (rule div_pos_pos_trivial) (use False r assms(1) in simp_all)
    with False show ?thesis by simp
  qed
  ultimately show ?thesis by (simp add: q_def r_def)
qed

lemma floor_half_up_rat:
  fixes a p :: int
  assumes "0 < p" "0 \<le> a"
  shows "\<lfloor>(of_int a :: rat) / of_int p + 1 / 2\<rfloor> = a div p + (if p \<le> 2 * (a mod p) then 1 else 0)"
proof -
  have "(of_int a :: rat) / of_int p + 1 / 2 = of_int (2 * a + p) / of_int (2 * p)"
    using assms(1) by (simp add: field_simps)
  then have "\<lfloor>(of_int a :: rat) / of_int p + 1 / 2\<rfloor> = (2 * a + p) div (2 * p)"
    by (simp only: floor_divide_of_int_eq)
  then show ?thesis using half_up_div[OF assms] by simp
qed

lemma powi_10_pos: "(0::rat) < 10 powi e"
  by (simp add: zero_less_power_int)

lemma sgn_rat_of_int: "sgn (of_int c :: rat) = of_int (sgn c)"
  by (simp add: sgn_if)

lemma floor_int_half: "\<lfloor>(of_int m :: rat) + 1 / 2\<rfloor> = m"
  by (rule floor_unique) simp_all

lemma rescale_form: "\<exists>m\<ge>0. rescale_half_up c e x = sgn c * m"
proof (cases "x \<le> e")
  case True
  have "c * 10 ^ nat (e - x) = sgn c * (\<bar>c\<bar> * 10 ^ nat (e - x))"
    by (simp add: sgn_mult_abs flip: mult.assoc)
  moreover have "0 \<le> \<bar>c\<bar> * 10 ^ nat (e - x)" by simp
  ultimately show ?thesis using True unfolding rescale_half_up_def by (metis (full_types))
next
  case False
  have "0 \<le> \<bar>c\<bar> div 10 ^ nat (x - e)" by (simp add: pos_imp_zdiv_nonneg_iff)
  then have "0 \<le> (if 10 ^ nat (x - e) \<le> 2 * (\<bar>c\<bar> mod 10 ^ nat (x - e))
                then \<bar>c\<bar> div 10 ^ nat (x - e) + 1 else \<bar>c\<bar> div 10 ^ nat (x - e))" by simp
  then show ?thesis using False unfolding rescale_half_up_def Let_def by (metis (full_types))
qed

lemma sgn_abs_rescale: "sgn c * \<bar>rescale_half_up c e x\<bar> = rescale_half_up c e x"
proof -
  from rescale_form[of c e x] obtain m where m: "0 \<le> m" "rescale_half_up c e x = sgn c * m"
    by blast
  show ?thesis unfolding m(2) using m(1) by (cases "c = 0") (simp_all add: abs_mult abs_sgn_eq)
qed

lemma rescale_value:
  "dec_value (Fin (rescale_half_up c e (- 2)) (- 2)) = round_half_up2 (dec_value (Fin c e))"
proof -
  define v :: rat where "v = of_int c * 10 powi e"
  have sg: "sgn v = of_int (sgn c)"
    using powi_10_pos[of e] by (simp add: v_def sgn_mult sgn_rat_of_int)
  have hundred: "(100::rat) = 10 powi 2" by simp
  have av: "\<bar>v\<bar> * 100 = of_int \<bar>c\<bar> * 10 powi (e + 2)"
  proof -
    have "\<bar>v\<bar> = of_int \<bar>c\<bar> * 10 powi e"
      using powi_10_pos[of e] by (simp add: v_def abs_mult)
    then show ?thesis unfolding hundred by (simp add: power_int_add)
  qed
  have lhs: "dec_value (Fin (rescale_half_up c e (- 2)) (- 2)) = of_int (rescale_half_up c e (- 2)) / 100"
    by (simp add: dec_value_def power_int_minus field_simps)
  have fl: "of_int \<lfloor>\<bar>v\<bar> * 100 + 1 / 2\<rfloor> = (of_int \<bar>rescale_half_up c e (- 2)\<bar> :: rat)"
  proof (cases "- 2 \<le> e")
    case True
    define j where "j = nat (e + 2)"
    have "(10::rat) powi (e + 2) = 10 ^ j" using True by (simp add: j_def power_int_def)
    then have eq: "\<bar>v\<bar> * 100 = of_int (\<bar>c\<bar> * 10 ^ j)" by (simp add: av)
    have "\<lfloor>\<bar>v\<bar> * 100 + 1 / 2\<rfloor> = \<bar>c\<bar> * 10 ^ j" unfolding eq by (rule floor_int_half)
    moreover have "rescale_half_up c e (- 2) = c * 10 ^ j"
      using True by (simp add: rescale_half_up_def j_def)
    ultimately show ?thesis by (simp add: abs_mult)
  next
    case False
    define k where "k = nat (- 2 - e)"
    define p :: int where "p = 10 ^ k"
    have ppos: "0 < p" by (simp add: p_def)
    have "e + 2 = - int k" using False by (simp add: k_def)
    then have "(10::rat) powi (e + 2) = 1 / of_int p"
      by (simp add: power_int_minus p_def field_simps)
    then have "\<bar>v\<bar> * 100 = of_int \<bar>c\<bar> / of_int p" by (simp add: av)
    then have "\<lfloor>\<bar>v\<bar> * 100 + 1 / 2\<rfloor> = \<bar>c\<bar> div p + (if p \<le> 2 * (\<bar>c\<bar> mod p) then 1 else 0)"
      using floor_half_up_rat[OF ppos, of "\<bar>c\<bar>"] by simp
    moreover have "rescale_half_up c e (- 2) = sgn c * (if p \<le> 2 * (\<bar>c\<bar> mod p) then \<bar>c\<bar> div p + 1 else \<bar>c\<bar> div p)"
      using False by (simp add: rescale_half_up_def Let_def k_def p_def)
    moreover have "0 \<le> \<bar>c\<bar> div p" using ppos by (simp add: pos_imp_zdiv_nonneg_iff)
    ultimately show ?thesis using ppos by (cases "c = 0") (auto simp: abs_mult abs_sgn_eq)
  qed
  have "round_half_up2 v = of_int (sgn c) * of_int \<bar>rescale_half_up c e (- 2)\<bar> / 100"
    by (simp add: round_half_up2_def sg fl)
  also have "of_int (sgn c) * (of_int \<bar>rescale_half_up c e (- 2)\<bar> :: rat) = of_int (rescale_half_up c e (- 2))"
    using sgn_abs_rescale[of c e "- 2"] by (metis of_int_mult)
  finally show ?thesis by (simp add: lhs v_def dec_value_def)
qed

lemma powi_shift: "m \<le> e \<Longrightarrow> (10::rat) ^ nat (e - m) * 10 powi m = 10 powi e"
proof -
  assume "m \<le> e"
  then have a: "(10::rat) ^ nat (e - m) = 10 powi (e - m)" by (simp add: power_int_def)
  have "(10::rat) powi ((e - m) + m) = 10 powi (e - m) * 10 powi m"
    by (rule power_int_add) simp
  then show ?thesis unfolding a by simp
qed

lemma dec_value_add:
  "dec_value (Fin (c1 * 10 ^ nat (e1 - min e1 e2) + c2 * 10 ^ nat (e2 - min e1 e2)) (min e1 e2))
     = dec_value (Fin c1 e1) + dec_value (Fin c2 e2)"
proof -
  have 1: "(10::rat) ^ nat (e1 - min e1 e2) * 10 powi (min e1 e2) = 10 powi e1"
    by (rule powi_shift) simp
  have 2: "(10::rat) ^ nat (e2 - min e1 e2) * 10 powi (min e1 e2) = 10 powi e2"
    by (rule powi_shift) simp
  have "dec_value (Fin (c1 * 10 ^ nat (e1 - min e1 e2) + c2 * 10 ^ nat (e2 - min e1 e2)) (min e1 e2))
      = of_int c1 * ((10::rat) ^ nat (e1 - min e1 e2) * 10 powi (min e1 e2))
        + of_int c2 * ((10::rat) ^ nat (e2 - min e1 e2) * 10 powi (min e1 e2))"
    by (simp add: dec_value_def algebra_simps)
  then show ?thesis unfolding 1 2 by (simp add: dec_value_def)
qed

lemma dec_value_mul_nat: "dec_value (Fin (c * int n) e) = dec_value (Fin c e) * of_nat n"
  by (simp add: dec_value_def algebra_simps)

lemma sum_precios_exact:
  assumes "map (\<lambda>c. py_Decimal (precio_str c)) cs = map (\<lambda>(c, e). Some (Fin c e)) ps"
      and "sums_fit c e ps"
  shows "sum_precios (Fin c e) cs = Inr (Fin (fst (sum_exact c e ps)) (snd (sum_exact c e ps)))
       \<and> dec_value (Fin (fst (sum_exact c e ps)) (snd (sum_exact c e ps)))
           = dec_value (Fin c e) + sum_list (map (\<lambda>(c, e). dec_value (Fin c e)) ps)"
  using assms
proof (induction ps arbitrary: cs c e)
  case Nil
  then show ?case by simp
next
  case (Cons p ps)
  obtain c' e' where p: "p = (c', e')" by (cases p)
  from Cons.prems(1) obtain c0 cs' where cs: "cs = c0 # cs'"
    and h: "py_Decimal (precio_str c0) = Some (Fin c' e')"
    and t: "map (\<lambda>c. py_Decimal (precio_str c)) cs' = map (\<lambda>(c, e). Some (Fin c e)) ps"
    by (cases cs) (auto simp: p)
  let ?s = "c * 10 ^ nat (e - min e e') + c' * 10 ^ nat (e' - min e e')"
  from Cons.prems(2) have f: "fits ?s" and r: "sums_fit ?s (min e e') ps" by (simp_all add: p)
  have a: "dec_add (Fin c e) (Fin c' e') = Inr (Fin ?s (min e e'))"
    using f by (simp add: Let_def fix_ctx_fits)
  from Cons.IH[OF t r] have ih: "sum_precios (Fin ?s (min e e')) cs' =
      Inr (Fin (fst (sum_exact ?s (min e e') ps)) (snd (sum_exact ?s (min e e') ps)))"
    and iv: "dec_value (Fin (fst (sum_exact ?s (min e e') ps)) (snd (sum_exact ?s (min e e') ps)))
           = dec_value (Fin ?s (min e e')) + sum_list (map (\<lambda>(c, e). dec_value (Fin c e)) ps)"
    by simp_all
  have "sum_precios (Fin c e) cs = sum_precios (Fin ?s (min e e')) cs'"
    by (simp add: cs h a del: dec_add.simps)
  with ih have 1: "sum_precios (Fin c e) cs =
      Inr (Fin (fst (sum_exact c e (p # ps))) (snd (sum_exact c e (p # ps))))"
    by (simp add: p)
  have 2: "dec_value (Fin (fst (sum_exact c e (p # ps))) (snd (sum_exact c e (p # ps))))
           = dec_value (Fin c e) + sum_list (map (\<lambda>(c, e). dec_value (Fin c e)) (p # ps))"
    using iv dec_value_add[of c e e' c'] by (simp add: p)
  from 1 2 show ?case by simp
qed

lemma rescale_same [simp]: "rescale_half_up c e e = c"
  by (simp add: rescale_half_up_def)

text \<open>
  C5, amended.  For every seat list, combo selection and ticket price whose amounts stay
  within the 28 significant digits of the Decimal context (a finite price, prices of the
  selected combos that are finite numbers, and \<open>within_precision\<close>), the function returns
  its totals, and they are the ones of the specification: the entradas subtotal is the
  price times the number of seats rounded half up to two decimals, the combos subtotal
  is the sum of the prices rounded half up to two decimals, and the total is the sum of
  the two subtotals, rounded half up to two decimals again.
\<close>

theorem totales_three_roundings:
  assumes price: "precio_entrada cfg = Fin cp ep"
      and sel: "combos_from_session catalog sess = Inr cs"
      and prices: "map (\<lambda>c. py_Decimal (precio_str c)) cs = map (\<lambda>(c, e). Some (Fin c e)) ps"
      and within: "within_precision cp ep (length (seats_from_session sess)) ps"
  shows "\<exists>t. calcular_totales_server_side cfg catalog sess = Inr t
           \<and> (dec_value (total_entradas t), dec_value (total_combos t), dec_value (total t))
             = spec_totales (dec_value (precio_entrada cfg)) (length (seats_from_session sess))
                 (map (\<lambda>(c, e). dec_value (Fin c e)) ps)"
proof -
  define n where "n = length (seats_from_session sess)"
  define a where "a = rescale_half_up (cp * int n) ep (- 2)"
  define s1 where "s1 = fst (sum_exact 0 0 ps)"
  define s2 where "s2 = snd (sum_exact 0 0 ps)"
  define b where "b = rescale_half_up s1 s2 (- 2)"
  from within have f: "fits (cp * int n)" "sums_fit 0 0 ps" "fits a" "fits b" "fits (a + b)"
    by (simp_all add: within_precision_def Let_def n_def a_def b_def s1_def s2_def)
  have m: "dec_mul (Fin cp ep) (Fin (int n) 0) = Inr (Fin (cp * int n) ep)"
    using f(1) by (simp add: fix_ctx_fits)
  have q1: "quantize (Fin (cp * int n) ep) (- 2) = Inr (Fin a (- 2))"
    unfolding a_def by (rule quantize_fits) (use f(3) in \<open>simp add: a_def\<close>)
  from sum_precios_exact[OF prices f(2)]
  have s: "sum_precios (Fin 0 0) cs = Inr (Fin s1 s2)"
    and sv: "dec_value (Fin s1 s2) = sum_list (map (\<lambda>(c, e). dec_value (Fin c e)) ps)"
    by (simp_all add: s1_def s2_def dec_value_def)
  have q2: "quantize (Fin s1 s2) (- 2) = Inr (Fin b (- 2))"
    unfolding b_def by (rule quantize_fits) (use f(4) in \<open>simp add: b_def\<close>)
  have ad: "dec_add (Fin a (- 2)) (Fin b (- 2)) = Inr (Fin (a + b) (- 2))"
    using f(5) by (simp add: fix_ctx_fits)
  have q3: "quantize (Fin (a + b) (- 2)) (- 2) = Inr (Fin (a + b) (- 2))"
    using quantize_fits[of "a + b" "- 2" "- 2"] f(5) by simp
  let ?t = "\<lparr> total_entradas = Fin a (- 2), total_combos = Fin b (- 2), total = Fin (a + b) (- 2),
              combos_sel = cs, t_seats = seats_from_session sess,
              seleccion = seleccion_from_session sess \<rparr>"
  have c: "calcular_totales_server_side cfg catalog sess = Inr ?t"
    unfolding calcular_totales_server_side_def Let_def price sel
    by (simp add: m[unfolded n_def] q1[unfolded n_def] s q2 ad q3 del: dec_mul.simps dec_add.simps quantize.simps)
  have v1: "dec_value (Fin a (- 2)) = round_half_up2 (dec_value (Fin cp ep) * of_nat n)"
    unfolding a_def rescale_value dec_value_mul_nat ..
  have v2: "dec_value (Fin b (- 2)) = round_half_up2 (sum_list (map (\<lambda>(c, e). dec_value (Fin c e)) ps))"
    unfolding b_def rescale_value sv ..
  have sum: "dec_value (Fin (a + b) (- 2)) = dec_value (Fin a (- 2)) + dec_value (Fin b (- 2))"
    by (simp add: dec_value_def algebra_simps)
  have "dec_value (Fin (rescale_half_up (a + b) (- 2) (- 2)) (- 2)) = round_half_up2 (dec_value (Fin (a + b) (- 2)))"
    by (rule rescale_value)
  then have v3: "dec_value (Fin (a + b) (- 2)) = round_half_up2 (dec_value (Fin a (- 2)) + dec_value (Fin b (- 2)))"
    by (simp add: sum)
  have "(dec_value (total_entradas ?t), dec_value (total_combos ?t), dec_value (total ?t))
             = spec_totales (dec_value (precio_entrada cfg)) (length (seats_from_session sess))
                 (map (\<lambda>(c, e). dec_value (Fin c e)) ps)"
    using v1 v2 v3 by (simp add: spec_totales_def Let_def price n_def)
  with c show ?thesis by blast
qed


lemma ejemplo_fino_precio:
  "precio_entrada ejemplo_cfg_fino = Fin 2009999999999999999999999999 (- 28)"
  by (simp add: precio_entrada_def ejemplo_cfg_fino_def ejemplo_cfg_def py_eval)

lemma ejemplo_fino_mul:
  "dec_mul (Fin 2009999999999999999999999999 (- 28)) (Fin 5 0) = Inr (Fin 1005000000000000000000000000 (- 27))"
  by (simp add: py_eval)

lemma ejemplo_fino_quantize:
  "quantize (Fin 1005000000000000000000000000 (- 27)) (- 2) = Inr (Fin 101 (- 2))"
  by (simp add: py_eval)

lemma ejemplo_fino_total:
  "quantize (Fin 101 (- 2)) (- 2) = Inr (Fin 101 (- 2))"
  "quantize (Fin 0 0) (- 2) = Inr (Fin 0 (- 2))"
  "dec_add (Fin 101 (- 2)) (Fin 0 (- 2)) = Inr (Fin 101 (- 2))"
  by (simp_all add: py_eval)

lemma ejemplo_fino_run:
  "calcular_totales_server_side ejemplo_cfg_fino ejemplo_catalogo ejemplo_sesion_5 =
     Inr \<lparr> total_entradas = Fin 101 (- 2), total_combos = Fin 0 (- 2), total = Fin 101 (- 2),
           combos_sel = [], t_seats = [''C1'', ''C2'', ''C3'', ''C4'', ''C5''],
           seleccion = [(''id'', ''5''), (''fecha'', ''2025-10-15''), (''hora'', ''20:00''),
                        (''sala'', ''Sala 1'')] \<rparr>"
  unfolding calcular_totales_server_side_def Let_def ejemplo_fino_precio
  by (simp add: combos_from_session_def seats_from_session_def seleccion_from_session_def
      ejemplo_sesion_5_def ejemplo_sesion_def ejemplo_fino_mul ejemplo_fino_quantize
      ejemplo_fino_total del: dec_mul.simps dec_add.simps quantize.simps)

lemma ejemplo_fino_spec:
  "round_half_up2 (dec_value (Fin 2009999999999999999999999999 (- 28)) * of_nat 5) = 1"
proof -
  have "round_half_up2 (dec_value (Fin (2009999999999999999999999999 * int 5) (- 28)))
      = dec_value (Fin (rescale_half_up (2009999999999999999999999999 * int 5) (- 28) (- 2)) (- 2))"
    by (simp only: rescale_value)
  also have "rescale_half_up (2009999999999999999999999999 * int 5) (- 28) (- 2) = 100"
    by (simp add: rescale_half_up_def)
  also have "dec_value (Fin 100 (- 2)) = 1" by (simp add: dec_value_def)
  finally show ?thesis by (simp only: dec_value_mul_nat)
qed

text \<open>
  C5, as the claim states it for every ticket price, fails on the code: \<open>Decimal\<close> keeps
  28 significant digits.  With a ticket price of 0.2009999999999999999999999999 and five
  seats the exact product 1.0049999999999999999999999995 has 29 digits; the
  multiplication rounds it to 1.005000000000000000000000000 before \<open>quantize\<close> sees it,
  and the entradas subtotal and the total are 1.01, where the price times five rounded
  half up to two decimals is 1.00.
\<close>

theorem totales_rounded_before_quantize:
  "precio_entrada ejemplo_cfg_fino = Fin 2009999999999999999999999999 (- 28)
   \<and> length (seats_from_session ejemplo_sesion_5) = 5
   \<and> map_sum id (\<lambda>t. (dec_value (total_entradas t), dec_value (total_combos t), dec_value (total t)))
        (calcular_totales_server_side ejemplo_cfg_fino ejemplo_catalogo ejemplo_sesion_5)
      = Inr (101 / 100, 0, 101 / 100)
   \<and> spec_totales (dec_value (Fin 2009999999999999999999999999 (- 28))) 5 [] = (1, 0, 1)"
proof -
  have r0: "round_half_up2 0 = 0" by (simp add: round_half_up2_def)
  have "round_half_up2 (dec_value (Fin 100 (- 2))) = dec_value (Fin (rescale_half_up 100 (- 2) (- 2)) (- 2))"
    by (simp only: rescale_value)
  then have r1: "round_half_up2 1 = 1" by (simp add: dec_value_def)
  have sp: "spec_totales (dec_value (Fin 2009999999999999999999999999 (- 28))) 5 [] = (1, 0, 1)"
    unfolding spec_totales_def Let_def using ejemplo_fino_spec by (simp add: r0 r1)
  have len: "length (seats_from_session ejemplo_sesion_5) = 5"
    by (simp add: seats_from_session_def ejemplo_sesion_5_def)
  have v: "dec_value (Fin 101 (- 2)) = 101 / 100" "dec_value (Fin 0 (- 2)) = 0"
    by (simp_all add: dec_value_def)
  show ?thesis using ejemplo_fino_precio len sp by (simp add: ejemplo_fino_run v)
qed

lemma ejemplo_combos_sel:
  "combos_from_session ejemplo_catalogo ejemplo_sesion_combos = Inr ejemplo_catalogo"
  by (simp add: combos_from_session_def ejemplo_sesion_combos_def ejemplo_catalogo_def py_eval)

lemma ejemplo_combos_precios:
  "map (\<lambda>c. py_Decimal (precio_str c)) ejemplo_catalogo
     = map (\<lambda>(c, e). Some (Fin c e)) [(15000, - 1), (80055, - 2)]"
  by (simp add: ejemplo_catalogo_def py_eval)

lemma ejemplo_precio: "precio_entrada ejemplo_cfg = Fin 2500 0"
  by (simp add: precio_entrada_def ejemplo_cfg_def py_eval)

lemma ejemplo_within:
  "within_precision 2500 0 (length (seats_from_session ejemplo_sesion_combos)) [(15000, - 1), (80055, - 2)]"
  by (simp add: within_precision_def Let_def seats_from_session_def ejemplo_sesion_combos_def
      ejemplo_sesion_def fits_def prec_def rescale_half_up_def)

theorem totales_three_roundings_witness:
  "precio_entrada ejemplo_cfg = Fin 2500 0
   \<and> combos_from_session ejemplo_catalogo ejemplo_sesion_combos = Inr ejemplo_catalogo
   \<and> within_precision 2500 0 (length (seats_from_session ejemplo_sesion_combos))
        [(15000, - 1), (80055, - 2)]
   \<and> (\<exists>t. calcular_totales_server_side ejemplo_cfg ejemplo_catalogo ejemplo_sesion_combos = Inr t
          \<and> (dec_value (total_entradas t), dec_value (total_combos t), dec_value (total t))
              = spec_totales 2500 2 [1500, 80055 / 100])"
proof -
  have len: "length (seats_from_session ejemplo_sesion_combos) = 2"
    by (simp add: seats_from_session_def ejemplo_sesion_combos_def ejemplo_sesion_def)
  have v: "dec_value (Fin 2500 0) = 2500" "dec_value (Fin 15000 (- 1)) = 1500"
    "dec_value (Fin 80055 (- 2)) = 80055 / 100"
    by (simp_all add: dec_value_def)
  from totales_three_roundings[OF ejemplo_precio ejemplo_combos_sel ejemplo_combos_precios ejemplo_within]
  have "\<exists>t. calcular_totales_server_side ejemplo_cfg ejemplo_catalogo ejemplo_sesion_combos = Inr t
          \<and> (dec_value (total_entradas t), dec_value (total_combos t), dec_value (total t))
              = spec_totales 2500 2 [1500, 80055 / 100]"
    by (simp add: len v ejemplo_precio)
  with ejemplo_precio ejemplo_combos_sel ejemplo_within show ?thesis by simp
qed

lemma round_half_up2_dec: "round_half_up2 (dec_value (Fin c e)) = dec_value (Fin (rescale_half_up c e (- 2)) (- 2))"
  by (simp only: rescale_value)

lemma three_roundings_differ:
  "spec_totales (dec_value (Fin 5 (- 3))) 1 [dec_value (Fin 5 (- 3))] = (1 / 100, 1 / 100, 2 / 100)
   \<and> spec_total_single_rounding (dec_value (Fin 5 (- 3))) 1 [dec_value (Fin 5 (- 3))] = 1 / 100"
proof -
  have a: "round_half_up2 (dec_value (Fin 5 (- 3))) = 1 / 100"
    unfolding round_half_up2_dec by (simp add: rescale_half_up_def dec_value_def)
  have "round_half_up2 (dec_value (Fin 2 (- 2))) = 2 / 100"
    unfolding round_half_up2_dec by (simp add: dec_value_def)
  then have b: "round_half_up2 (1 / 50) = 1 / 50" by (simp add: dec_value_def)
  have "round_half_up2 (dec_value (Fin 1 (- 2))) = 1 / 100"
    unfolding round_half_up2_dec by (simp add: dec_value_def)
  then have c: "round_half_up2 (1 / 100) = 1 / 100" by (simp add: dec_value_def)
  have d: "dec_value (Fin 5 (- 3)) + dec_value (Fin 5 (- 3)) = 1 / 100" by (simp add: dec_value_def)
  show ?thesis
    unfolding spec_totales_def spec_total_single_rounding_def Let_def
    by (simp add: a b c d)
qed


section \<open>The migration, proved\<close>

lemma same_name_refl [simp]: "same_name a a"
  by (simp add: same_name_def)

lemma same_name_sym: "same_name a b \<Longrightarrow> same_name b a"
  by (simp add: same_name_def)

lemma same_name_trans: "same_name a b \<Longrightarrow> same_name b c \<Longrightarrow> same_name a c"
  by (simp add: same_name_def)











lemma add_column_absorbed_eq:
  "add_column_absorbed db c =
     (case alter_add_column ''transacciones'' (fst c) (snd c) db of Inr db' \<Rightarrow> db' | Inl e \<Rightarrow> db)"
  by (simp add: add_column_absorbed_def split: sum.splits sqlite_error.splits)

lemma add_column_none:
  "find_table ''transacciones'' db = None \<Longrightarrow> add_column_absorbed db c = db"
  by (simp add: add_column_absorbed_eq alter_add_column_def)

lemma add_column_dup:
  "find_table ''transacciones'' db = Some t \<Longrightarrow> has_column t (fst c) \<Longrightarrow>
   add_column_absorbed db c = db"
  by (simp add: add_column_absorbed_eq alter_add_column_def)

lemma add_column_new:
  "find_table ''transacciones'' db = Some t \<Longrightarrow> \<not> has_column t (fst c) \<Longrightarrow>
   add_column_absorbed db c =
     db\<lparr>tables := replace_table ''transacciones'' (\<lambda>u. u\<lparr>tb_cols := tb_cols u @ [c]\<rparr>) (tables db)\<rparr>"
  by (simp add: add_column_absorbed_eq alter_add_column_def)


lemma add_column_indexes: "indexes (add_column_absorbed db c) = indexes db"
proof (cases "find_table ''transacciones'' db")
  case None
  then show ?thesis by (simp add: add_column_none)
next
  case (Some t)
  show ?thesis
  proof (cases "has_column t (fst c)")
    case True
    with Some show ?thesis by (simp add: add_column_dup)
  next
    case False
    with Some show ?thesis by (simp add: add_column_new)
  qed
qed



lemma add_columns_indexes: "indexes (foldl add_column_absorbed db cs) = indexes db"
  by (induction cs arbitrary: db) (simp_all add: add_column_indexes)


lemma migrate_email_eq:
  "migrate_email db =
     (case find_table ''transacciones'' db of
        None \<Rightarrow> db
      | Some t \<Rightarrow> if has_column t ''email_cliente''
                  then add_column_absorbed db (''usuario_email'', ''TEXT'') else db)"
  by (simp add: migrate_email_def select_column_def add_column_absorbed_eq Let_def
      split: option.splits sum.splits)




lemma migrate_email_indexes: "indexes (migrate_email db) = indexes db"
  by (simp add: migrate_email_eq add_column_indexes split: option.splits)

lemma find_append_None: "find P xs = None \<Longrightarrow> find P (xs @ ys) = find P ys"
  by (induction xs) (auto split: if_splits)



lemma run_statement_shape:
  assumes "run_statement s db = Inr db'"
  shows "(tables db' = tables db \<or>
          (\<exists>n cols. s = CreateTable n cols \<and> find_table n db = None
             \<and> tables db' = tables db @ [\<lparr>tb_name = n, tb_cols = cols\<rparr>]))
       \<and> (\<exists>is. indexes db' = indexes db @ is)"
proof (cases s)
  case (CreateTable n cols)
  with assms show ?thesis by (auto split: if_splits)
next
  case (CreateIndex n tn cols)
  with assms show ?thesis by (auto split: option.splits if_splits)
qed



lemma run_statement_no_table:
  assumes r: "run_statement s db = Inr db'" and t: "find_table n db = None"
    and c: "\<not> creates_table s n"
  shows "find_table n db' = None"
  using run_statement_shape [OF r] t c by (auto simp add: find_table_def find_append_None)



lemma executescript_Cons_cases:
  assumes "executescript (s # ss) db = (r, db')"
  obtains (fails) e where "run_statement s db = Inl e" "r = Some e" "db' = db"
  | (runs) db1 where "run_statement s db = Inr db1" "executescript ss db1 = (r, db')"
  using assms by (cases "run_statement s db") auto


lemma executescript_no_table:
  "executescript ss db = (r, db') \<Longrightarrow> find_table n db = None \<Longrightarrow>
   \<forall>s\<in>set ss. \<not> creates_table s n \<Longrightarrow> find_table n db' = None"
proof (induction ss arbitrary: db)
  case Nil
  then show ?case by simp
next
  case (Cons s ss)
  from Cons.prems(1) show ?case
  proof (cases rule: executescript_Cons_cases)
    case (fails e)
    with Cons.prems show ?thesis by simp
  next
    case (runs db1)
    from Cons.prems(3) have c: "\<not> creates_table s n" and cs: "\<forall>s\<in>set ss. \<not> creates_table s n"
      by simp_all
    from run_statement_no_table [OF runs(1) Cons.prems(2) c] have "find_table n db1 = None" .
    from Cons.IH [OF runs(2) this cs] show ?thesis .
  qed
qed
































end
